(* ===== verification/Fw_Prelude.thy ===== *)
theory Fw_Prelude
  imports Complex_Main
begin

text \<open>
  Shared vocabulary of the fireworks development. Python exceptions are values of
  \<open>py_error\<close>; a computation that draws from the process-wide random generator and may
  raise is a function of the generator state returning \<open>py_error + 'a\<close> together with
  the state reached (an exception-state monad: the generator state advanced before the
  raise is kept, as in CPython). \<open>py_int\<close> is Python's \<open>int()\<close> on a float, which
  truncates towards zero, and \<open>flatten\<close> is \<open>fireworks.util.flatten\<close> (not part of
  the repository's sources; modelled from its use: concatenation of the inner lists).
\<close>

datatype py_error = ZeroDivisionError | ValueError | IndexError

type_synonym ('s, 'a) exec = "'s \<Rightarrow> (py_error + 'a) \<times> 's"

named_theorems exec_simps "evaluation rules of the exception-state monad"
named_theorems raises_only_intros "which exceptions a composed computation can raise"

definition ret :: "'a \<Rightarrow> ('s, 'a) exec" where
  "ret x = (\<lambda>s. (Inr x, s))"

definition throw :: "py_error \<Rightarrow> ('s, 'a) exec" where
  "throw e = (\<lambda>s. (Inl e, s))"

definition bindE :: "('s, 'a) exec \<Rightarrow> ('a \<Rightarrow> ('s, 'b) exec) \<Rightarrow> ('s, 'b) exec" where
  "bindE m f = (\<lambda>s. case m s of (Inl e, s') \<Rightarrow> (Inl e, s') | (Inr x, s') \<Rightarrow> f x s')"

definition liftE :: "py_error + 'a \<Rightarrow> ('s, 'a) exec" where
  "liftE r = (\<lambda>s. (r, s))"

text \<open>\<open>for _ in range(n): xs.append(body())\<close>: the body runs \<open>n\<close> times, in order,
  and the first exception ends the loop.\<close>

fun replicateE :: "nat \<Rightarrow> ('s, 'a) exec \<Rightarrow> ('s, 'a list) exec" where
  "replicateE 0 m = ret []"
| "replicateE (Suc n) m = bindE m (\<lambda>x. bindE (replicateE n m) (\<lambda>xs. ret (x # xs)))"

text \<open>\<open>[f(x) for x in xs]\<close> (and \<open>map\<close> consumed in order): the first exception ends it.\<close>

fun mapE :: "('a \<Rightarrow> ('s, 'b) exec) \<Rightarrow> 'a list \<Rightarrow> ('s, 'b list) exec" where
  "mapE f [] = ret []"
| "mapE f (x # xs) = bindE (f x) (\<lambda>y. bindE (mapE f xs) (\<lambda>ys. ret (y # ys)))"

definition py_int :: "real \<Rightarrow> int" where
  "py_int r = (if 0 \<le> r then \<lfloor>r\<rfloor> else \<lceil>r\<rceil>)"

definition flatten :: "'a list list \<Rightarrow> 'a list" where
  "flatten xss = concat xss"

text \<open>\<open>raises_only e m\<close>: whenever \<open>m\<close> raises, it raises \<open>e\<close> (it may also never raise).\<close>

definition raises_only :: "py_error \<Rightarrow> ('s, 'a) exec \<Rightarrow> bool" where
  "raises_only e m \<longleftrightarrow> (\<forall>s e' s'. m s = (Inl e', s') \<longrightarrow> e' = e)"

lemma ret_apply [exec_simps]: "ret x s = (Inr x, s)"
  by (simp add: ret_def)

lemma throw_apply [exec_simps]: "throw e s = (Inl e, s)"
  by (simp add: throw_def)

lemma liftE_apply [exec_simps]: "liftE r s = (r, s)"
  by (simp add: liftE_def)

lemma bindE_apply [exec_simps]:
  "bindE m f s = (case m s of (Inl e, s') \<Rightarrow> (Inl e, s') | (Inr x, s') \<Rightarrow> f x s')"
  by (simp add: bindE_def)

lemma bindE_ret [simp]: "bindE (ret x) f = f x"
  by (simp add: bindE_def ret_def)

lemma bindE_throw [simp]: "bindE (throw e) f = throw e"
  by (simp add: bindE_def throw_def)

lemma bindE_Inr:
  "m s = (Inr x, s1) \<Longrightarrow> bindE m f s = f x s1"
  by (simp add: bindE_def)

lemma bindE_Inl:
  "m s = (Inl e, s1) \<Longrightarrow> bindE m f s = (Inl e, s1)"
  by (simp add: bindE_def)

text \<open>Inversion of a normal result of \<open>bindE\<close>: both parts returned normally.\<close>

lemma bindE_InrE:
  assumes "bindE m f s = (Inr y, s')"
  obtains x s1 where "m s = (Inr x, s1)" and "f x s1 = (Inr y, s')"
  using assms by (auto simp: bindE_def split: prod.splits sum.splits)

lemma bindE_InlE:
  assumes "bindE m f s = (Inl e, s')"
  obtains "m s = (Inl e, s')"
  | x s1 where "m s = (Inr x, s1)" and "f x s1 = (Inl e, s')"
  using assms by (auto simp: bindE_def split: prod.splits sum.splits)

lemma replicateE_Inr:
  assumes "replicateE n m s = (Inr xs, s')"
    and "\<And>s x s'. m s = (Inr x, s') \<Longrightarrow> P x"
  shows "length xs = n \<and> (\<forall>x \<in> set xs. P x)"
  using assms(1)
proof (induction n arbitrary: s xs s')
  case 0
  then show ?case by (simp add: ret_def)
next
  case (Suc n)
  from Suc.prems obtain x s1 where x: "m s = (Inr x, s1)"
    and rest: "bindE (replicateE n m) (\<lambda>xs. ret (x # xs)) s1 = (Inr xs, s')"
    by (auto elim: bindE_InrE)
  from rest obtain ys s2 where ys: "replicateE n m s1 = (Inr ys, s2)"
    and "ret (x # ys) s2 = (Inr xs, s')"
    by (auto elim: bindE_InrE)
  then have "xs = x # ys" by (simp add: ret_def)
  with Suc.IH [OF ys] assms(2) [OF x] show ?case by simp
qed

lemma mapE_Inr:
  assumes "mapE f xs s = (Inr ys, s')"
  shows "length ys = length xs \<and>
    (\<forall>i < length xs. \<exists>s1 s2. f (xs ! i) s1 = (Inr (ys ! i), s2))"
  using assms
proof (induction xs arbitrary: s ys s')
  case Nil
  then show ?case by (simp add: ret_def)
next
  case (Cons x xs)
  from Cons.prems obtain y s1 where y: "f x s = (Inr y, s1)"
    and rest: "bindE (mapE f xs) (\<lambda>ys. ret (y # ys)) s1 = (Inr ys, s')"
    by (auto elim: bindE_InrE)
  from rest obtain zs s2 where zs: "mapE f xs s1 = (Inr zs, s2)"
    and "ret (y # zs) s2 = (Inr ys, s')"
    by (auto elim: bindE_InrE)
  then have ys: "ys = y # zs" by (simp add: ret_def)
  have IH: "length zs = length xs \<and>
      (\<forall>i < length xs. \<exists>s1 s2. f (xs ! i) s1 = (Inr (zs ! i), s2))"
    by (rule Cons.IH [OF zs])
  show ?case
  proof (intro conjI allI impI)
    show "length ys = length (x # xs)" using IH ys by simp
  next
    fix i assume "i < length (x # xs)"
    then show "\<exists>s1 s2. f ((x # xs) ! i) s1 = (Inr (ys ! i), s2)"
      using IH y ys by (cases i) auto
  qed
qed

text \<open>An exception that one element always raises, and that is the only exception
  the body raises, is the exception of the whole loop.\<close>

lemma mapE_raises:
  assumes "x \<in> set xs" and "\<And>s. \<exists>s'. f x s = (Inl e, s')"
    and "\<And>y s r s'. f y s = (Inl r, s') \<Longrightarrow> r = e"
  shows "\<exists>s'. mapE f xs s = (Inl e, s')"
  using assms(1)
proof (induction xs arbitrary: s)
  case Nil
  then show ?case by simp
next
  case (Cons y ys)
  obtain r s1 where fy: "f y s = (r, s1)" by fastforce
  show ?case
  proof (cases r)
    case (Inl e')
    with fy assms(3) have "e' = e" by blast
    with fy Inl show ?thesis by (simp add: bindE_apply)
  next
    case (Inr v)
    with fy assms(2) have "y \<noteq> x" by (metis Inl_Inr_False fst_conv)
    with Cons.prems have "x \<in> set ys" by simp
    from Cons.IH [OF this] obtain s2 where "mapE f ys s1 = (Inl e, s2)" by blast
    with fy Inr show ?thesis by (simp add: bindE_apply)
  qed
qed

lemma replicateE_total:
  assumes "\<And>s. \<exists>x s'. m s = (Inr x, s')"
  shows "\<exists>xs s'. replicateE n m s = (Inr xs, s')"
proof (induction n arbitrary: s)
  case 0
  then show ?case by (simp add: ret_apply)
next
  case (Suc n)
  from assms obtain x s1 where x: "m s = (Inr x, s1)" by blast
  from Suc.IH obtain xs s2 where "replicateE n m s1 = (Inr xs, s2)" by blast
  with x show ?case by (simp add: bindE_apply ret_apply)
qed

lemma concat_const_length:
  "\<forall>xs \<in> set xss. length xs = k \<Longrightarrow> length (concat xss) = k * length xss"
  by (induction xss) auto

lemma py_int_nonneg [simp]: "0 \<le> r \<Longrightarrow> py_int r = \<lfloor>r\<rfloor>"
  by (simp add: py_int_def)

lemma py_int_scaled_bounds:
  assumes "0 \<le> c" and "0 \<le> l" and "l \<le> 1"
  shows "0 \<le> py_int (of_int c * l) \<and> py_int (of_int c * l) \<le> c"
proof -
  have nn: "0 \<le> of_int c * l" using assms by simp
  have "of_int c * l \<le> of_int c"
    using assms mult_left_le [of l "of_int c :: real"] by simp
  then have "\<lfloor>of_int c * l\<rfloor> \<le> c" by linarith
  with nn show ?thesis by simp
qed

lemma py_int_mono:
  assumes "0 \<le> a" and "a \<le> b"
  shows "py_int a \<le> py_int b"
  using assms by (simp add: floor_mono)

lemma mapE_InlE:
  assumes "mapE f xs s = (Inl e, s')"
  shows "\<exists>x \<in> set xs. \<exists>s1 s2. f x s1 = (Inl e, s2)"
  using assms
proof (induction xs arbitrary: s s')
  case Nil
  then show ?case by (simp add: ret_apply)
next
  case (Cons x xs)
  from Cons.prems have "bindE (f x) (\<lambda>y. bindE (mapE f xs) (\<lambda>ys. ret (y # ys))) s = (Inl e, s')"
    by simp
  then show ?case
  proof (cases rule: bindE_InlE)
    case 1
    then show ?thesis by auto
  next
    case (2 y s1)
    from 2(2) have "bindE (mapE f xs) (\<lambda>ys. ret (y # ys)) s1 = (Inl e, s')" .
    then obtain s2 where "mapE f xs s1 = (Inl e, s2)"
      by (auto simp: ret_apply elim!: bindE_InlE)
    from Cons.IH [OF this] show ?thesis by fastforce
  qed
qed

lemma raises_onlyD: "raises_only e m \<Longrightarrow> m s = (Inl e', s') \<Longrightarrow> e' = e"
  unfolding raises_only_def by blast

lemma raises_only_ret [raises_only_intros]: "raises_only e (ret x)"
  by (simp add: raises_only_def ret_apply)

lemma raises_only_throw [raises_only_intros]: "raises_only e (throw e)"
  by (simp add: raises_only_def throw_apply)

lemma raises_only_liftE [raises_only_intros]:
  "(\<And>e'. r = Inl e' \<Longrightarrow> e' = e) \<Longrightarrow> raises_only e (liftE r)"
  by (simp add: raises_only_def liftE_apply)

lemma raises_only_bindE [raises_only_intros]:
  assumes "raises_only e m" and "\<And>x. raises_only e (f x)"
  shows "raises_only e (bindE m f)"
  unfolding raises_only_def
proof (intro allI impI)
  fix s e' s' assume "bindE m f s = (Inl e', s')"
  then show "e' = e"
  proof (cases rule: bindE_InlE)
    case 1
    with assms(1) show ?thesis by (rule raises_onlyD)
  next
    case (2 x s1)
    with assms(2) show ?thesis by (blast intro: raises_onlyD)
  qed
qed

lemma raises_only_if [raises_only_intros]:
  "raises_only e m1 \<Longrightarrow> raises_only e m2 \<Longrightarrow> raises_only e (if b then m1 else m2)"
  by simp

lemma raises_only_replicateE [raises_only_intros]:
  "raises_only e m \<Longrightarrow> raises_only e (replicateE n m)"
  by (induction n) (simp_all add: raises_only_ret raises_only_bindE)

lemma raises_only_mapE [raises_only_intros]:
  "(\<And>x. raises_only e (f x)) \<Longrightarrow> raises_only e (mapE f xs)"
  by (induction xs) (simp_all add: raises_only_ret raises_only_bindE)

text \<open>A comprehension over a mapped list, and one whose body neither draws nor raises.\<close>

lemma mapE_map: "mapE f (map h xs) = mapE (\<lambda>x. f (h x)) xs"
  by (induction xs) simp_all

lemma mapE_ret: "mapE (\<lambda>x. ret (h x)) xs = ret (map h xs)"
  by (induction xs) (simp_all add: bindE_def ret_def fun_eq_iff)

end
