(* ===== verification/Vec2.thy ===== *)
theory Vec2
  imports Fw_Prelude
begin

text \<open>
  \<open>class Vec2\<close> of \<open>src/fireworks/particle.py\<close> (lines 7--46) and the window
  geometry it projects into. A \<open>Vec2\<close> is used by value (no operator mutates an
  operand), so it is a datatype with the constructor \<open>Vec2 x y\<close>. The coordinates
  are Python floats, modelled as reals: rounding is not modelled. The operand type
  checks of \<open>__add__\<close>, \<open>__sub__\<close> and \<open>__mul__\<close> are discharged by HOL typing,
  so the only exception left is the \<open>ZeroDivisionError\<close> of \<open>__truediv__\<close>, and
  hence of \<open>normalised\<close> on the zero vector. \<open>window\<close> is the part of the pyglet
  window the core reads: its integer width and height.
\<close>

datatype vec2 = Vec2 (vx: real) (vy: real)

record window =
  width :: int
  height :: int

definition vadd :: "vec2 \<Rightarrow> vec2 \<Rightarrow> vec2" where
  "vadd a b = Vec2 (vx a + vx b) (vy a + vy b)"

definition vneg :: "vec2 \<Rightarrow> vec2" where
  "vneg a = Vec2 (- vx a) (- vy a)"

definition vsub :: "vec2 \<Rightarrow> vec2 \<Rightarrow> vec2" where
  "vsub a b = vadd a (vneg b)"

definition vmul :: "vec2 \<Rightarrow> real \<Rightarrow> vec2" where
  "vmul a k = Vec2 (vx a * k) (vy a * k)"

definition vdiv :: "vec2 \<Rightarrow> real \<Rightarrow> py_error + vec2" where
  "vdiv a k = (if k = 0 then Inl ZeroDivisionError else Inr (vmul a (1 / k)))"

definition vlength :: "vec2 \<Rightarrow> real" where
  "vlength a = sqrt (vx a ^ 2 + vy a ^ 2)"

definition normalised :: "vec2 \<Rightarrow> py_error + vec2" where
  "normalised a = vdiv a (vlength a)"

definition clone :: "vec2 \<Rightarrow> vec2" where
  "clone a = Vec2 (vx a) (vy a)"

definition screen_space :: "'w window_scheme \<Rightarrow> vec2 \<Rightarrow> real \<times> real" where
  "screen_space w a =
     (vx a * of_int (width w) / 2 + of_int (width w) / 2,
      vy a * (of_int (width w) / 3 * 2))"

definition as_tri :: "'w window_scheme \<Rightarrow> real \<Rightarrow> vec2 \<Rightarrow> real list" where
  "as_tri w sz a =
     flatten (map (\<lambda>(p, q). [p, q])
       [screen_space w (vadd a (Vec2 0 sz)),
        screen_space w (vadd a (Vec2 sz (- sz))),
        screen_space w (vadd a (Vec2 (- sz) (- sz)))])"

definition default_tri_size :: real where
  "default_tri_size = 0.0025"

lemmas vec2_ops = vadd_def vneg_def vsub_def vmul_def vdiv_def clone_def

lemma vlength_nonneg [simp]: "0 \<le> vlength a"
  by (simp add: vlength_def)

lemma vlength_zero_iff: "vlength a = 0 \<longleftrightarrow> a = Vec2 0 0"
  by (cases a) (simp add: vlength_def add_nonneg_eq_0_iff)

lemma vlength_axis [simp]: "vlength (Vec2 0 b) = \<bar>b\<bar>"
  by (simp add: vlength_def)

lemma clone_id [simp]: "clone a = a"
  by (cases a) (simp add: clone_def)

lemma vsub_components: "vsub a b = Vec2 (vx a - vx b) (vy a - vy b)"
  by (simp add: vsub_def vadd_def vneg_def)

text \<open>C13. \<open>normalised\<close> raises, and raises \<open>ZeroDivisionError\<close>, exactly on the zero
  vector (\<open>__truediv__\<close> by a zero length); on any other vector it returns a value.\<close>

lemma normalised_raises_iff:
  "normalised a = Inl e \<longleftrightarrow> a = Vec2 0 0 \<and> e = ZeroDivisionError"
  by (auto simp: normalised_def vdiv_def vlength_zero_iff)

lemma normalised_ok:
  "a \<noteq> Vec2 0 0 \<Longrightarrow> normalised a = Inr (vmul a (1 / vlength a))"
  by (simp add: normalised_def vdiv_def vlength_zero_iff)

lemma vlength_vmul: "vlength (vmul a k) = \<bar>k\<bar> * vlength a"
proof -
  have "(vx a * k)\<^sup>2 + (vy a * k)\<^sup>2 = k\<^sup>2 * ((vx a)\<^sup>2 + (vy a)\<^sup>2)"
    by (simp add: algebra_simps)
  then show ?thesis
    by (simp add: vlength_def vmul_def real_sqrt_mult)
qed

lemma normalised_Inr:
  assumes "normalised a = Inr n"
  shows "a \<noteq> Vec2 0 0 \<and> n = vmul a (1 / vlength a) \<and> vlength n = 1"
proof -
  from assms have a: "a \<noteq> Vec2 0 0" by (auto simp: normalised_def vdiv_def vlength_def)
  then have pos: "0 < vlength a" using vlength_nonneg [of a] vlength_zero_iff [of a] by linarith
  from a assms have "n = vmul a (1 / vlength a)" by (simp add: normalised_ok)
  with a pos show ?thesis by (simp add: vlength_vmul)
qed

lemma as_tri_length [simp]: "length (as_tri w sz a) = 6"
  by (simp add: as_tri_def flatten_def split: prod.splits)

lemma vmul_vmul_cancel [simp]: "k \<noteq> 0 \<Longrightarrow> vmul (vmul a (1 / k)) k = a"
  by (cases a) (simp add: vmul_def)

lemma vmul_cancel_inv [simp]: "k \<noteq> 0 \<Longrightarrow> vmul (vmul a k) (1 / k) = a"
  by (cases a) (simp add: vmul_def)


end
