(* ===== verification/Particle.thy ===== *)
theory Particle
  imports Vec2
begin

text \<open>
  \<open>class Particle\<close> of \<open>src/fireworks/particle.py\<close> (lines 49--88). Its five slots
  are the record \<open>particle\<close>; \<open>_colour\<close> is \<open>base_colour\<close> and the optional
  \<open>lifespan\<close> is a \<open>real option\<close> (\<open>None\<close> for Python's \<open>None\<close>). Subclasses
  (\<open>Firework\<close>, \<open>SuperFirework\<close>) extend this record, so \<open>particle_update\<close> is stated on
  the record scheme and is what their \<open>super().update\<close> calls.

  \<open>update\<close> mutates \<open>self\<close> and returns \<open>[]\<close> or \<open>[self]\<close>. The model returns
  both: the mutated object and the list. The list's only element is \<open>self\<close> itself,
  so a caller that mutates \<open>self\<close> afterwards (the subclasses do) also changes the
  element of the list; their models rebuild the list from the final \<open>self\<close>.
\<close>

type_synonym rgb = "int \<times> int \<times> int"

record particle =
  position :: vec2
  velocity :: vec2
  base_colour :: rgb
  lifespan :: "real option"
  timer :: real

definition new_particle :: "vec2 \<Rightarrow> vec2 \<Rightarrow> rgb \<Rightarrow> real option \<Rightarrow> particle" where
  "new_particle pos speed col life =
     \<lparr>position = pos, velocity = speed, base_colour = col, lifespan = life, timer = 0\<rparr>"

definition colour :: "'a particle_scheme \<Rightarrow> py_error + rgb" where
  "colour p =
     (case base_colour p of (r, g, b) \<Rightarrow>
       (case lifespan p of
          None \<Rightarrow> Inr (r, g, b)
        | Some L \<Rightarrow>
            (if L = 0 then Inl ZeroDivisionError
             else (let l = 1 - timer p / L
                   in Inr (py_int (of_int r * l), py_int (of_int g * l), py_int (of_int b * l))))))"

definition on_screen :: "'w window_scheme \<Rightarrow> vec2 \<Rightarrow> bool" where
  "on_screen w pos =
     (case screen_space w pos of (sx, sy) \<Rightarrow> \<not> (sx < 0 \<or> sx > of_int (width w) \<or> sy < 0))"

definition particle_update ::
  "real \<Rightarrow> vec2 \<Rightarrow> 'w window_scheme \<Rightarrow> 'a particle_scheme \<Rightarrow>
   'a particle_scheme \<times> 'a particle_scheme list" where
  "particle_update dt acc w p =
     (let p1 = p\<lparr>timer := timer p + dt\<rparr>;
          p2 = p1\<lparr>velocity := vadd (velocity p1) (vmul acc dt)\<rparr>;
          p3 = p2\<lparr>position := vadd (position p2) (vmul (velocity p2) dt)\<rparr>
      in if \<not> on_screen w (position p3) then (p3, [])
         else (case lifespan p3 of
                 Some L \<Rightarrow> if timer p3 \<ge> L then (p3, []) else (p3, [p3])
               | None \<Rightarrow> (p3, [p3])))"

text \<open>Whether the particle survives its update: on screen and not expired.\<close>

definition survives :: "'w window_scheme \<Rightarrow> 'a particle_scheme \<Rightarrow> bool" where
  "survives w p \<longleftrightarrow> on_screen w (position p) \<and>
     (case lifespan p of None \<Rightarrow> True | Some L \<Rightarrow> timer p < L)"

definition channel_ok :: "int \<Rightarrow> bool" where
  "channel_ok c \<longleftrightarrow> 0 \<le> c \<and> c \<le> 255"

definition rgb_ok :: "rgb \<Rightarrow> bool" where
  "rgb_ok c = (case c of (r, g, b) \<Rightarrow> channel_ok r \<and> channel_ok g \<and> channel_ok b)"

subsection \<open>The update step\<close>

text \<open>The three assignments of \<open>update\<close>, in the code's order: semi-implicit Euler.\<close>

lemma particle_update_state:
  "fst (particle_update dt acc w p) =
     p\<lparr>timer := timer p + dt,
       velocity := vadd (velocity p) (vmul acc dt),
       position := vadd (position p) (vmul (vadd (velocity p) (vmul acc dt)) dt)\<rparr>"
  by (simp add: particle_update_def Let_def split: option.splits)

lemma particle_update_result:
  "snd (particle_update dt acc w p) =
     (if survives w (fst (particle_update dt acc w p))
      then [fst (particle_update dt acc w p)] else [])"
  by (simp add: particle_update_def survives_def Let_def not_le split: option.splits)

lemma particle_update_survives_iff:
  "snd (particle_update dt acc w p) \<noteq> [] \<longleftrightarrow> survives w (fst (particle_update dt acc w p))"
  by (simp add: particle_update_result)

lemma particle_update_lifespan [simp]:
  "lifespan (fst (particle_update dt acc w p)) = lifespan p"
  by (simp add: particle_update_state)

lemma particle_update_base_colour [simp]:
  "base_colour (fst (particle_update dt acc w p)) = base_colour p"
  by (simp add: particle_update_state)

lemma particle_update_timer [simp]:
  "timer (fst (particle_update dt acc w p)) = timer p + dt"
  by (simp add: particle_update_state)

lemma particle_update_more [simp]:
  "particle.more (fst (particle_update dt acc w p)) = particle.more p"
  by (simp add: particle_update_state)

subsection \<open>Colour\<close>

lemma colour_fade:
  assumes "lifespan p = Some L" and "L \<noteq> 0" and "base_colour p = (r, g, b)"
  shows "colour p = Inr (py_int (of_int r * (1 - timer p / L)),
                         py_int (of_int g * (1 - timer p / L)),
                         py_int (of_int b * (1 - timer p / L)))"
  using assms by (simp add: colour_def Let_def)

lemma fade_factor_bounds:
  fixes t L :: real
  assumes "0 \<le> t" and "t \<le> L" and "0 < L"
  shows "0 \<le> 1 - t / L \<and> 1 - t / L \<le> 1"
  using assms by (simp add: divide_le_eq_1)

lemma fade_factor_antimono:
  fixes t1 t2 L :: real
  assumes "t1 \<le> t2" and "0 < L"
  shows "1 - t2 / L \<le> 1 - t1 / L"
  using assms by (simp add: divide_right_mono)


lemma channel_ok_fade:
  assumes "channel_ok c" and "0 \<le> l" and "l \<le> 1"
  shows "channel_ok (py_int (of_int c * l))"
proof -
  from assms(1) have "0 \<le> c" "c \<le> 255" by (auto simp: channel_ok_def)
  with py_int_scaled_bounds [OF \<open>0 \<le> c\<close> assms(2,3)] show ?thesis by (simp add: channel_ok_def)
qed

lemma py_int_fade_mono:
  assumes "channel_ok c" and "0 \<le> l2" and "l2 \<le> l1"
  shows "py_int (of_int c * l2) \<le> py_int (of_int c * l1)"
proof -
  from assms(1) have "0 \<le> c" by (simp add: channel_ok_def)
  with assms(2,3) show ?thesis
    by (intro py_int_mono) (auto intro: mult_left_mono)
qed

lemma colour_raises: "colour p = Inl e \<Longrightarrow> e = ZeroDivisionError"
  by (auto simp: colour_def Let_def split: prod.splits option.splits if_splits)

text \<open>C1. \<open>Particle.update\<close> integrates by semi-implicit Euler: the age grows by \<open>dt\<close>,
  the velocity by \<open>acceleration * dt\<close>, and the position by the new velocity times \<open>dt\<close>.\<close>

theorem particle_update_euler:
  "velocity (fst (particle_update dt acc w p)) = vadd (velocity p) (vmul acc dt) \<and>
   position (fst (particle_update dt acc w p)) =
     vadd (position p) (vmul (velocity (fst (particle_update dt acc w p))) dt) \<and>
   timer (fst (particle_update dt acc w p)) = timer p + dt"
  by (simp add: particle_update_state)

text \<open>C2. \<open>Particle.update\<close> returns the particle itself exactly when its new position
  projects into the window and its age, if it has a lifespan, is still below it;
  otherwise it returns the empty list.\<close>

theorem particle_update_survival:
  "snd (particle_update dt acc w p) =
     (if on_screen w (position (fst (particle_update dt acc w p))) \<and>
         (case lifespan p of None \<Rightarrow> True | Some L \<Rightarrow> timer p + dt < L)
      then [fst (particle_update dt acc w p)] else [])"
  by (simp add: particle_update_result survives_def split: option.splits)

text \<open>C10. The fade of \<open>Particle.colour\<close> is monotone: for a particle with an in-range
  base colour and a positive lifespan, every channel read at an older age is at most the
  channel read at a younger one.\<close>
theorem colour_fade_monotone:
  assumes "lifespan p = Some L" and "0 < L" and "rgb_ok (base_colour p)"
    and "t1 \<le> t2" and "t2 \<le> L"
  shows "\<exists>r1 g1 b1 r2 g2 b2. colour (p\<lparr>timer := t1\<rparr>) = Inr (r1, g1, b1) \<and>
           colour (p\<lparr>timer := t2\<rparr>) = Inr (r2, g2, b2) \<and> r2 \<le> r1 \<and> g2 \<le> g1 \<and> b2 \<le> b1"
proof -
  obtain r g b where c: "base_colour p = (r, g, b)" by (cases "base_colour p") auto
  with assms(3) have ok: "channel_ok r" "channel_ok g" "channel_ok b" by (auto simp: rgb_ok_def)
  from assms(4,2) have mono: "1 - t2 / L \<le> 1 - t1 / L" by (rule fade_factor_antimono)
  from assms(2,5) have nn: "0 \<le> 1 - t2 / L" by (simp add: divide_le_eq_1)
  from assms(1,2) c have
    "colour (p\<lparr>timer := t1\<rparr>) = Inr (py_int (of_int r * (1 - t1 / L)), py_int (of_int g * (1 - t1 / L)),
                                      py_int (of_int b * (1 - t1 / L)))"
    "colour (p\<lparr>timer := t2\<rparr>) = Inr (py_int (of_int r * (1 - t2 / L)), py_int (of_int g * (1 - t2 / L)),
                                      py_int (of_int b * (1 - t2 / L)))"
    by (simp_all add: colour_fade)
  with py_int_fade_mono [OF ok(1) nn mono] py_int_fade_mono [OF ok(2) nn mono]
    py_int_fade_mono [OF ok(3) nn mono]
  show ?thesis by blast
qed

theorem colour_fade_monotone_witness:
  "lifespan (new_particle (Vec2 0 0) (Vec2 0 0) (200, 100, 50) (Some 4)) = Some 4 \<and> (0::real) < 4 \<and>
   rgb_ok (base_colour (new_particle (Vec2 0 0) (Vec2 0 0) (200, 100, 50) (Some 4))) \<and>
   (1::real) \<le> 3 \<and> (3::real) \<le> 4 \<and>
   colour ((new_particle (Vec2 0 0) (Vec2 0 0) (200, 100, 50) (Some 4))\<lparr>timer := 3\<rparr>) = Inr (50, 25, 12)"
proof -
  let ?p = "new_particle (Vec2 0 0) (Vec2 0 0) (200, 100, 50) (Some 4)"
  have h: "lifespan ?p = Some 4" "(0::real) < 4" "rgb_ok (base_colour ?p)" "(1::real) \<le> 3" "(3::real) \<le> 4"
    by (simp_all add: new_particle_def rgb_ok_def channel_ok_def)
  from colour_fade_monotone [OF h] have "\<exists>c. colour (?p\<lparr>timer := 3\<rparr>) = Inr c" by blast
  moreover have "colour (?p\<lparr>timer := 3\<rparr>) = Inr (50, 25, 12)"
    by (simp add: colour_def new_particle_def)
  ultimately show ?thesis using h by simp
qed

text \<open>C11. A particle of age 0 (as every new particle is) shows its base colour.\<close>

theorem colour_fresh:
  assumes "lifespan p = Some L" and "L \<noteq> 0" and "timer p = 0"
  shows "colour p = Inr (base_colour p)"
  using assms by (cases "base_colour p") (simp add: colour_fade py_int_def)

theorem colour_fresh_witness:
  "lifespan (new_particle (Vec2 0 0) (Vec2 0 0) (200, 100, 50) (Some 4)) = Some 4 \<and> (4::real) \<noteq> 0 \<and>
   timer (new_particle (Vec2 0 0) (Vec2 0 0) (200, 100, 50) (Some 4)) = 0 \<and>
   colour (new_particle (Vec2 0 0) (Vec2 0 0) (200, 100, 50) (Some 4)) = Inr (200, 100, 50)"
proof -
  let ?p = "new_particle (Vec2 0 0) (Vec2 0 0) (200, 100, 50) (Some 4)"
  have h: "lifespan ?p = Some 4" "(4::real) \<noteq> 0" "timer ?p = 0" by (simp_all add: new_particle_def)
  from colour_fresh [OF h] h show ?thesis by (simp add: new_particle_def)
qed

text \<open>C21. Reading \<open>colour\<close> of a particle whose lifespan is 0 raises
  \<open>ZeroDivisionError\<close> (\<open>self.timer / self.lifespan\<close>, line 69).\<close>

theorem colour_zero_lifespan:
  assumes "lifespan p = Some 0"
  shows "colour p = Inl ZeroDivisionError"
  using assms by (simp add: colour_def split: prod.splits)

theorem colour_zero_lifespan_witness:
  "lifespan (new_particle (Vec2 0 0) (Vec2 0 0) (250, 209, 70) (Some 0)) = Some 0 \<and>
   colour (new_particle (Vec2 0 0) (Vec2 0 0) (250, 209, 70) (Some 0)) = Inl ZeroDivisionError"
proof -
  have h: "lifespan (new_particle (Vec2 0 0) (Vec2 0 0) (250, 209, 70) (Some 0)) = Some 0"
    by (simp add: new_particle_def)
  from colour_zero_lifespan [OF h] h show ?thesis by simp
qed


end
