(* ===== verification/Py_Random.thy ===== *)
theory Py_Random
  imports Fw_Prelude
begin

text \<open>
  The interface to Python's \<open>random\<close> module, which the sources call
  (\<open>random()\<close>, \<open>randint(a, b)\<close>, \<open>choice(seq)\<close>) but do not contain. The Mersenne
  Twister itself is not modelled: a generator is a record of two primitive operations
  over an arbitrary state type \<open>'s\<close>, \<open>rnd\<close> (the C routine behind \<open>random()\<close>)
  and \<open>randbelow\<close> (\<open>Random._randbelow\<close>). \<open>randint\<close> and \<open>choice\<close> are built from
  \<open>randbelow\<close> exactly as CPython's \<open>random.py\<close> builds them, including their
  exceptions. \<open>rng_ok\<close> is the contract the primitives meet; every property that
  depends on the range of a draw assumes it.
\<close>

record 's rng =
  rnd :: "'s \<Rightarrow> real \<times> 's"
  randbelow :: "nat \<Rightarrow> 's \<Rightarrow> nat \<times> 's"

definition rng_ok :: "'s rng \<Rightarrow> bool" where
  "rng_ok g \<longleftrightarrow> (\<forall>s. 0 \<le> fst (rnd g s) \<and> fst (rnd g s) < 1) \<and>
                (\<forall>n s. 0 < n \<longrightarrow> fst (randbelow g n s) < n)"

definition random :: "'s rng \<Rightarrow> ('s, real) exec" where
  "random g = (\<lambda>s. case rnd g s of (u, s') \<Rightarrow> (Inr u, s'))"

definition randint :: "'s rng \<Rightarrow> int \<Rightarrow> int \<Rightarrow> ('s, int) exec" where
  "randint g a b =
     (if b + 1 - a \<le> 0 then throw ValueError
      else (\<lambda>s. case randbelow g (nat (b + 1 - a)) s of (k, s') \<Rightarrow> (Inr (a + int k), s')))"

definition choice :: "'s rng \<Rightarrow> 'a list \<Rightarrow> ('s, 'a) exec" where
  "choice g xs =
     (if xs = [] then throw IndexError
      else (\<lambda>s. case randbelow g (length xs) s of (i, s') \<Rightarrow> (Inr (xs ! i), s')))"

lemma random_Inr: "\<exists>u s'. random g s = (Inr u, s')"
  by (simp add: random_def split: prod.splits)

lemma random_range:
  "rng_ok g \<Longrightarrow> random g s = (Inr u, s') \<Longrightarrow> 0 \<le> u \<and> u < 1"
  by (auto simp: rng_ok_def random_def split: prod.splits) (metis fst_conv)+

lemma random_never_raises [simp]: "random g s \<noteq> (Inl e, s')"
  by (simp add: random_def split: prod.splits)

lemma randint_range:
  assumes "rng_ok g" and "randint g a b s = (Inr k, s')"
  shows "a \<le> k \<and> k \<le> b"
proof -
  from assms(2) have ne: "\<not> b + 1 - a \<le> 0"
    by (auto simp: randint_def throw_def split: if_splits)
  obtain j s1 where j: "randbelow g (nat (b + 1 - a)) s = (j, s1)" by fastforce
  with ne assms(2) have k: "k = a + int j" by (simp add: randint_def)
  from assms(1) ne j have "j < nat (b + 1 - a)"
    unfolding rng_ok_def by (metis fst_conv zero_less_nat_eq not_le)
  with k ne show ?thesis by linarith
qed

lemma randint_ok:
  "a \<le> b \<Longrightarrow> \<exists>k s'. randint g a b s = (Inr k, s')"
  by (simp add: randint_def split: prod.splits)

lemma randint_never_raises:
  "a \<le> b \<Longrightarrow> randint g a b s \<noteq> (Inl e, s')"
  by (simp add: randint_def split: prod.splits)

lemma choice_in_set:
  assumes "rng_ok g" and "choice g xs s = (Inr x, s')"
  shows "x \<in> set xs"
proof -
  from assms(2) have ne: "xs \<noteq> []"
    by (auto simp: choice_def throw_def split: if_splits)
  obtain i s1 where i: "randbelow g (length xs) s = (i, s1)" by fastforce
  with ne assms(2) have "x = xs ! i" by (simp add: choice_def)
  moreover from assms(1) ne i have "i < length xs"
    unfolding rng_ok_def by (metis fst_conv length_greater_0_conv)
  ultimately show ?thesis by simp
qed

lemma choice_never_raises:
  "xs \<noteq> [] \<Longrightarrow> choice g xs s \<noteq> (Inl e, s')"
  by (simp add: choice_def split: prod.splits)

end
