(* ===== verification/Firework.thy ===== *)
theory Firework
  imports Particle Py_Random
begin

text \<open>
  \<open>class Firework(Particle)\<close> and \<open>class SuperFirework(Particle)\<close> of
  \<open>src/fireworks/particle.py\<close> (lines 91--162). Both add the slot \<open>last_spark\<close>, so
  both are the record \<open>firework\<close>, an extension of \<open>particle\<close>. The heterogeneous
  lists that \<open>update\<close> returns and the simulation keeps are lists of \<open>entity\<close>, one
  constructor per class; dispatch on the constructor replaces Python's method lookup.

  Every random draw goes through a generator \<open>g\<close> (theory \<open>Py_Random\<close>), in the
  order in which Python evaluates the calls: arguments left to right, the left operand
  of \<open>*\<close> (including a \<open>normalised()\<close> call, which may raise) before the right one.
  \<open>colour\<close> of both subclasses draws a fresh flicker factor on every read
  (\<open>flicker_colour\<close>; the two classes have the same code, lines 105--112 and
  142--149). The trail-spark branch is also the same code in both classes
  (lines 122--124 and 159--161): \<open>trail_spark\<close>.
\<close>

record firework = particle +
  last_spark :: real

datatype entity = Particle particle | Firework firework | SuperFirework firework

definition new_firework :: "vec2 \<Rightarrow> vec2 \<Rightarrow> rgb \<Rightarrow> real \<Rightarrow> firework" where
  "new_firework pos speed col life =
     \<lparr>position = pos, velocity = speed, base_colour = col, lifespan = Some life, timer = 0,
      last_spark = 0\<rparr>"

definition flicker_colour :: "'s rng \<Rightarrow> ('s, rgb) exec" where
  "flicker_colour g =
     bindE (random g) (\<lambda>u.
       (let f = u * 0.4 + 0.8
        in ret (py_int (min 255 (250 * f)), py_int (min 255 (209 * f)), py_int (min 255 (70 * f)))))"

definition trail_spark :: "'s rng \<Rightarrow> 'a particle_scheme \<Rightarrow> ('s, particle) exec" where
  "trail_spark g f =
     bindE (liftE (normalised (velocity f))) (\<lambda>n.
     bindE (flicker_colour g) (\<lambda>c.
     bindE (random g) (\<lambda>u.
       ret (new_particle (clone (position f)) (vmul (vneg n) 0.2) c (Some (u * 2))))))"

text \<open>\<open>diff = Vec2(random() * 2 - 1, random() * 2 - 1).normalised() * (random() * 0.15 + 0.05)\<close>\<close>

definition burst_offset :: "'s rng \<Rightarrow> ('s, vec2) exec" where
  "burst_offset g =
     bindE (random g) (\<lambda>a.
     bindE (random g) (\<lambda>b.
     bindE (liftE (normalised (Vec2 (a * 2 - 1) (b * 2 - 1)))) (\<lambda>d.
     bindE (random g) (\<lambda>m.
       ret (vmul d (m * 0.15 + 0.05))))))"

definition burst_particle :: "'s rng \<Rightarrow> 'a particle_scheme \<Rightarrow> rgb \<Rightarrow> ('s, entity) exec" where
  "burst_particle g f col =
     bindE (burst_offset g) (\<lambda>diff.
     bindE (random g) (\<lambda>u.
       ret (Particle (new_particle (clone (position f)) (vadd (velocity f) diff) col
                        (Some (u * 10 + 2))))))"

definition firework_detonate :: "'s rng \<Rightarrow> 'a particle_scheme \<Rightarrow> ('s, entity list) exec" where
  "firework_detonate g f =
     bindE (randint g 0 255) (\<lambda>r.
     bindE (randint g 0 255) (\<lambda>gr.
     bindE (randint g 0 255) (\<lambda>b.
     bindE (randint g 25 100) (\<lambda>n.
       replicateE (nat n) (burst_particle g f (r, gr, b))))))"

text \<open>The trail-spark condition of \<open>update\<close> (line 122): \<open>last_spark > 0.125 * (velocity.length() / 100)\<close>.\<close>

definition spark_due :: "real \<Rightarrow> 'a particle_scheme \<Rightarrow> bool" where
  "spark_due t f \<longleftrightarrow> 0.125 * (vlength (velocity f) / 100) < t"

definition firework_update ::
  "'s rng \<Rightarrow> real \<Rightarrow> vec2 \<Rightarrow> 'w window_scheme \<Rightarrow> firework \<Rightarrow> ('s, entity list) exec" where
  "firework_update g dt acc w f =
     (case particle_update dt acc w f of (f1, ps) \<Rightarrow>
       (let f2 = f1\<lparr>last_spark := last_spark f1 + dt\<rparr>
        in if ps = [] then firework_detonate g f2
           else if spark_due (last_spark f2) f2 then
             (let f3 = f2\<lparr>last_spark := 0\<rparr>
              in bindE (trail_spark g f3) (\<lambda>sp. ret [Firework f3, Particle sp]))
           else ret [Firework f2]))"

definition super_burst_firework :: "'s rng \<Rightarrow> 'a particle_scheme \<Rightarrow> rgb \<Rightarrow> ('s, entity) exec" where
  "super_burst_firework g f col =
     bindE (burst_offset g) (\<lambda>diff.
     bindE (random g) (\<lambda>u.
       ret (Firework (new_firework (clone (position f)) (vadd (velocity f) diff) col (u * 3 + 1)))))"

definition superfirework_detonate :: "'s rng \<Rightarrow> 'a particle_scheme \<Rightarrow> ('s, entity list) exec" where
  "superfirework_detonate g f =
     bindE (randint g 100 255) (\<lambda>r.
     bindE (randint g 100 255) (\<lambda>gr.
     bindE (randint g 100 255) (\<lambda>b.
     bindE (randint g 5 10) (\<lambda>n.
       replicateE (nat n) (super_burst_firework g f (r, gr, b))))))"

text \<open>\<open>SuperFirework.__init__\<close> (lines 138--140) and \<open>SuperFirework.colour\<close>
  (lines 142--149) repeat the code of \<open>Firework\<close>.\<close>

definition new_superfirework :: "vec2 \<Rightarrow> vec2 \<Rightarrow> rgb \<Rightarrow> real \<Rightarrow> firework" where
  "new_superfirework pos speed col life =
     \<lparr>position = pos, velocity = speed, base_colour = col, lifespan = Some life, timer = 0,
      last_spark = 0\<rparr>"

definition superfirework_colour :: "'s rng \<Rightarrow> ('s, rgb) exec" where
  "superfirework_colour g =
     bindE (random g) (\<lambda>u.
       (let f = u * 0.4 + 0.8
        in ret (py_int (min 255 (250 * f)), py_int (min 255 (209 * f)), py_int (min 255 (70 * f)))))"

definition superfirework_update ::
  "'s rng \<Rightarrow> real \<Rightarrow> vec2 \<Rightarrow> 'w window_scheme \<Rightarrow> firework \<Rightarrow> ('s, entity list) exec" where
  "superfirework_update g dt acc w f =
     (case particle_update dt acc w f of (f1, ps) \<Rightarrow>
       (let f2 = f1\<lparr>last_spark := last_spark f1 + dt\<rparr>
        in if ps = [] then superfirework_detonate g f2
           else if spark_due (last_spark f2) f2 then
             (let f3 = f2\<lparr>last_spark := 0\<rparr>
              in bindE (trail_spark g f3) (\<lambda>sp. ret [SuperFirework f3, Particle sp]))
           else ret [SuperFirework f2]))"

text \<open>Method dispatch of \<open>p.update(dt, acceleration, window)\<close> and \<open>p.colour\<close>.\<close>

fun entity_update ::
  "'s rng \<Rightarrow> real \<Rightarrow> vec2 \<Rightarrow> 'w window_scheme \<Rightarrow> entity \<Rightarrow> ('s, entity list) exec" where
  "entity_update g dt acc w (Particle p) = ret (map Particle (snd (particle_update dt acc w p)))"
| "entity_update g dt acc w (Firework f) = firework_update g dt acc w f"
| "entity_update g dt acc w (SuperFirework f) = superfirework_update g dt acc w f"

fun entity_colour :: "'s rng \<Rightarrow> entity \<Rightarrow> ('s, rgb) exec" where
  "entity_colour g (Particle p) = liftE (colour p)"
| "entity_colour g (Firework f) = flicker_colour g"
| "entity_colour g (SuperFirework f) = superfirework_colour g"

fun entity_particle :: "entity \<Rightarrow> particle" where
  "entity_particle (Particle p) = p"
| "entity_particle (Firework f) = particle.truncate f"
| "entity_particle (SuperFirework f) = particle.truncate f"

text \<open>Rank of a class in the cascade: what an entity spawns (as opposed to itself
  surviving) is always of a lower rank.\<close>

fun rank :: "entity \<Rightarrow> nat" where
  "rank (Particle p) = 0"
| "rank (Firework f) = 1"
| "rank (SuperFirework f) = 2"

fun is_particle :: "entity \<Rightarrow> bool" where
  "is_particle (Particle p) = True"
| "is_particle _ = False"

fun is_firework :: "entity \<Rightarrow> bool" where
  "is_firework (Firework f) = True"
| "is_firework _ = False"

text \<open>Well-formedness of an entity of the simulation: a finite lifespan that its age
  has not passed, a non-negative age, an in-range base colour, and a non-negative
  spark timer for the two firework classes.\<close>

definition particle_wf :: "'a particle_scheme \<Rightarrow> bool" where
  "particle_wf p \<longleftrightarrow> 0 \<le> timer p \<and> rgb_ok (base_colour p) \<and>
     (case lifespan p of None \<Rightarrow> False | Some L \<Rightarrow> 0 \<le> L \<and> timer p \<le> L)"

fun entity_wf :: "entity \<Rightarrow> bool" where
  "entity_wf (Particle p) = particle_wf p"
| "entity_wf (Firework f) = (particle_wf f \<and> 0 \<le> last_spark f)"
| "entity_wf (SuperFirework f) = (particle_wf f \<and> 0 \<le> last_spark f)"

subsection \<open>Properties\<close>

text \<open>The duplicated colour method computes the same as the original, so the trail
  sparks of both classes use \<open>flicker_colour\<close>.\<close>

lemma new_superfirework_eq [simp]: "new_superfirework = new_firework"
  by (simp add: fun_eq_iff new_superfirework_def new_firework_def)

lemma superfirework_colour_eq [simp]: "superfirework_colour = flicker_colour"
  by (simp add: fun_eq_iff superfirework_colour_def flicker_colour_def)

lemma flicker_colour_Inr:
  assumes "rng_ok g" and "flicker_colour g s = (Inr c, s')"
  shows "\<exists>u. 0 \<le> u \<and> u < 1 \<and> c = (py_int (min 255 (250 * (u * 0.4 + 0.8))),
     py_int (min 255 (209 * (u * 0.4 + 0.8))), py_int (min 255 (70 * (u * 0.4 + 0.8))))"
proof -
  from assms(2) obtain u s1 where u: "random g s = (Inr u, s1)"
    and c: "c = (py_int (min 255 (250 * (u * 0.4 + 0.8))), py_int (min 255 (209 * (u * 0.4 + 0.8))),
                 py_int (min 255 (70 * (u * 0.4 + 0.8))))"
    by (auto simp: flicker_colour_def Let_def ret_def elim!: bindE_InrE)
  from random_range [OF assms(1) u] c show ?thesis by blast
qed

lemma flicker_colour_ok:
  "rng_ok g \<Longrightarrow> flicker_colour g s = (Inr c, s') \<Longrightarrow> rgb_ok c"
  by (auto simp: rgb_ok_def channel_ok_def le_floor_iff floor_le_iff dest!: flicker_colour_Inr)

lemma flicker_colour_never_raises [simp]: "flicker_colour g s \<noteq> (Inl e, s')"
  by (auto simp: flicker_colour_def random_def Let_def exec_simps split: prod.splits)

lemma trail_spark_Inr:
  assumes "rng_ok g" and "trail_spark g f s = (Inr sp, s')"
  shows "particle_wf sp \<and> timer sp = 0 \<and> position sp = position f \<and>
         (\<exists>n. normalised (velocity f) = Inr n \<and> velocity sp = vmul (vneg n) 0.2)"
proof -
  from assms(2) obtain n c u s1 s2 where n: "normalised (velocity f) = Inr n"
    and c: "flicker_colour g s = (Inr c, s1)" and u: "random g s1 = (Inr u, s2)"
    and sp: "sp = new_particle (clone (position f)) (vmul (vneg n) 0.2) c (Some (u * 2))"
    by (auto simp: trail_spark_def liftE_apply ret_apply elim!: bindE_InrE)
  from random_range [OF assms(1) u] have "0 \<le> u" by simp
  with flicker_colour_ok [OF assms(1) c] n sp show ?thesis
    by (simp add: particle_wf_def new_particle_def)
qed

lemma trail_spark_raises_iff:
  "trail_spark g f s = (Inl e, s') \<longleftrightarrow> velocity f = Vec2 0 0 \<and> e = ZeroDivisionError \<and> s' = s"
proof (cases "velocity f = Vec2 0 0")
  case True
  then show ?thesis
    by (auto simp: trail_spark_def normalised_def vdiv_def vlength_def exec_simps)
next
  case False
  then obtain n where "normalised (velocity f) = Inr n" by (simp add: normalised_ok)
  with False show ?thesis
    by (auto simp: trail_spark_def exec_simps flicker_colour_def random_def Let_def split: prod.splits)
qed

lemma burst_particle_Inr:
  assumes "burst_particle g f col s = (Inr e, s')"
  shows "\<exists>p u. e = Particle p \<and> base_colour p = col \<and> position p = position f \<and> timer p = 0 \<and>
           lifespan p = Some (u * 10 + 2) \<and> (rng_ok g \<longrightarrow> 0 \<le> u \<and> u < 1)"
proof -
  from assms obtain diff s1 u s2 where u: "random g s1 = (Inr u, s2)"
    and e: "e = Particle (new_particle (clone (position f)) (vadd (velocity f) diff) col (Some (u * 10 + 2)))"
    by (auto simp: burst_particle_def ret_apply elim!: bindE_InrE)
  show ?thesis
    using e random_range [OF _ u] by (auto simp: new_particle_def)
qed

lemma super_burst_firework_Inr:
  assumes "super_burst_firework g f col s = (Inr e, s')"
  shows "\<exists>fw u. e = Firework fw \<and> base_colour fw = col \<and> position fw = position f \<and>
           timer fw = 0 \<and> last_spark fw = 0 \<and>
           lifespan fw = Some (u * 3 + 1) \<and> (rng_ok g \<longrightarrow> 0 \<le> u \<and> u < 1)"
proof -
  from assms obtain diff s1 u s2 where u: "random g s1 = (Inr u, s2)"
    and e: "e = Firework (new_firework (clone (position f)) (vadd (velocity f) diff) col (u * 3 + 1))"
    by (auto simp: super_burst_firework_def ret_apply elim!: bindE_InrE)
  show ?thesis
    using e random_range [OF _ u] by (auto simp: new_firework_def)
qed

lemma firework_detonate_Inr:
  assumes "firework_detonate g f s = (Inr es, s')"
  shows "\<exists>c n. length es = nat n \<and> (rng_ok g \<longrightarrow> 25 \<le> n \<and> n \<le> 100 \<and> rgb_ok c) \<and>
     (\<forall>e \<in> set es. \<exists>p u. e = Particle p \<and> base_colour p = c \<and> position p = position f \<and>
        timer p = 0 \<and> lifespan p = Some (u * 10 + 2) \<and> (rng_ok g \<longrightarrow> 0 \<le> u \<and> u < 1))"
proof -
  from assms obtain r gr b n s1 s2 s3 s4 where
        r: "randint g 0 255 s = (Inr r, s1)" and gr: "randint g 0 255 s1 = (Inr gr, s2)"
    and b: "randint g 0 255 s2 = (Inr b, s3)" and n: "randint g 25 100 s3 = (Inr n, s4)"
    and rep: "replicateE (nat n) (burst_particle g f (r, gr, b)) s4 = (Inr es, s')"
    by (auto simp: firework_detonate_def elim!: bindE_InrE)
  have "length es = nat n \<and> (\<forall>e \<in> set es. \<exists>p u. e = Particle p \<and> base_colour p = (r, gr, b) \<and>
      position p = position f \<and> timer p = 0 \<and> lifespan p = Some (u * 10 + 2) \<and>
      (rng_ok g \<longrightarrow> 0 \<le> u \<and> u < 1))"
    by (rule replicateE_Inr [OF rep burst_particle_Inr])
  moreover have "rng_ok g \<longrightarrow> 25 \<le> n \<and> n \<le> 100 \<and> rgb_ok (r, gr, b)"
    using randint_range [OF _ r] randint_range [OF _ gr] randint_range [OF _ b] randint_range [OF _ n]
    by (auto simp: rgb_ok_def channel_ok_def)
  ultimately show ?thesis by blast
qed

lemma superfirework_detonate_Inr:
  assumes "superfirework_detonate g f s = (Inr es, s')"
  shows "\<exists>c n. length es = nat n \<and>
     (rng_ok g \<longrightarrow> 5 \<le> n \<and> n \<le> 10 \<and> fst c \<ge> 100 \<and> fst (snd c) \<ge> 100 \<and> snd (snd c) \<ge> 100 \<and> rgb_ok c) \<and>
     (\<forall>e \<in> set es. \<exists>fw u. e = Firework fw \<and> base_colour fw = c \<and> position fw = position f \<and>
        timer fw = 0 \<and> last_spark fw = 0 \<and>
        lifespan fw = Some (u * 3 + 1) \<and> (rng_ok g \<longrightarrow> 0 \<le> u \<and> u < 1))"
proof -
  from assms obtain r gr b n s1 s2 s3 s4 where
        r: "randint g 100 255 s = (Inr r, s1)" and gr: "randint g 100 255 s1 = (Inr gr, s2)"
    and b: "randint g 100 255 s2 = (Inr b, s3)" and n: "randint g 5 10 s3 = (Inr n, s4)"
    and rep: "replicateE (nat n) (super_burst_firework g f (r, gr, b)) s4 = (Inr es, s')"
    by (auto simp: superfirework_detonate_def elim!: bindE_InrE)
  have "length es = nat n \<and> (\<forall>e \<in> set es. \<exists>fw u. e = Firework fw \<and> base_colour fw = (r, gr, b) \<and>
      position fw = position f \<and> timer fw = 0 \<and> last_spark fw = 0 \<and>
      lifespan fw = Some (u * 3 + 1) \<and> (rng_ok g \<longrightarrow> 0 \<le> u \<and> u < 1))"
    by (rule replicateE_Inr [OF rep super_burst_firework_Inr])
  moreover have "rng_ok g \<longrightarrow> 5 \<le> n \<and> n \<le> 10 \<and> r \<ge> 100 \<and> gr \<ge> 100 \<and> b \<ge> 100 \<and> rgb_ok (r, gr, b)"
    using randint_range [OF _ r] randint_range [OF _ gr] randint_range [OF _ b] randint_range [OF _ n]
    by (auto simp: rgb_ok_def channel_ok_def)
  ultimately show ?thesis by fastforce
qed

lemma particle_update_last_spark [simp]:
  "last_spark (fst (particle_update dt acc w f)) = last_spark f"
  by (simp add: particle_update_state)


lemma spark_due_last_spark_upd [simp]:
  "spark_due t (f\<lparr>last_spark := x\<rparr>) = spark_due t f"
  by (simp add: spark_due_def)

lemma firework_update_dead:
  assumes "snd (particle_update dt acc w f) = []"
  shows "firework_update g dt acc w f =
           firework_detonate g ((fst (particle_update dt acc w f))\<lparr>last_spark := last_spark f + dt\<rparr>)"
  using assms by (simp add: firework_update_def case_prod_beta)

lemma firework_update_alive:
  assumes "snd (particle_update dt acc w f) \<noteq> []"
  shows "firework_update g dt acc w f =
    (let f2 = (fst (particle_update dt acc w f))\<lparr>last_spark := last_spark f + dt\<rparr>
     in if spark_due (last_spark f + dt) f2
        then bindE (trail_spark g (f2\<lparr>last_spark := 0\<rparr>))
               (\<lambda>sp. ret [Firework (f2\<lparr>last_spark := 0\<rparr>), Particle sp])
        else ret [Firework f2])"
  using assms by (simp add: firework_update_def Let_def case_prod_beta)

lemma superfirework_update_dead:
  assumes "snd (particle_update dt acc w f) = []"
  shows "superfirework_update g dt acc w f =
           superfirework_detonate g ((fst (particle_update dt acc w f))\<lparr>last_spark := last_spark f + dt\<rparr>)"
  using assms by (simp add: superfirework_update_def case_prod_beta)

lemma superfirework_update_alive:
  assumes "snd (particle_update dt acc w f) \<noteq> []"
  shows "superfirework_update g dt acc w f =
    (let f2 = (fst (particle_update dt acc w f))\<lparr>last_spark := last_spark f + dt\<rparr>
     in if spark_due (last_spark f + dt) f2
        then bindE (trail_spark g (f2\<lparr>last_spark := 0\<rparr>))
               (\<lambda>sp. ret [SuperFirework (f2\<lparr>last_spark := 0\<rparr>), Particle sp])
        else ret [SuperFirework f2])"
  using assms by (simp add: superfirework_update_def Let_def case_prod_beta)

text \<open>The surviving branch, shared by both classes: the firework itself, then possibly
  one spark.\<close>

lemma alive_branch_Inr:
  assumes "(let f2 = f1\<lparr>last_spark := t\<rparr>
     in if spark_due t f2
        then bindE (trail_spark g (f2\<lparr>last_spark := 0\<rparr>))
               (\<lambda>sp. ret [C (f2\<lparr>last_spark := 0\<rparr>), Particle sp])
        else ret [C f2]) s = (Inr es, s')"
  shows "(\<exists>f' sp. es = [C f', Particle sp] \<and> f' = f1\<lparr>last_spark := 0\<rparr> \<and> spark_due t f' \<and>
            trail_spark g f' s = (Inr sp, s')) \<or>
         (es = [C (f1\<lparr>last_spark := t\<rparr>)] \<and> \<not> spark_due t f1)"
  using assms by (auto simp: Let_def ret_apply elim!: bindE_InrE split: if_splits)

lemma particle_update_expired:
  "lifespan p = Some L \<Longrightarrow> L \<le> timer p + dt \<Longrightarrow> snd (particle_update dt acc w p) = []"
  by (simp add: particle_update_result survives_def)

lemma particle_update_survivor_wf:
  assumes "particle_wf p" and "0 \<le> dt" and "snd (particle_update dt acc w p) \<noteq> []"
  shows "particle_wf (fst (particle_update dt acc w p))"
proof -
  from assms(3) have "survives w (fst (particle_update dt acc w p))"
    by (simp add: particle_update_survives_iff)
  with assms(1,2) show ?thesis
    by (auto simp: particle_wf_def survives_def split: option.splits)
qed

lemma particle_update_length: "length (snd (particle_update dt acc w p)) \<le> 1"
  by (simp add: particle_update_result)

lemma firework_update_shape:
  assumes "firework_update g dt acc w f s = (Inr es, s')"
  shows "(snd (particle_update dt acc w f) = [] \<and> firework_detonate g
            ((fst (particle_update dt acc w f))\<lparr>last_spark := last_spark f + dt\<rparr>) s = (Inr es, s')) \<or>
         (snd (particle_update dt acc w f) \<noteq> [] \<and>
          ((\<exists>f' sp. es = [Firework f', Particle sp] \<and>
              f' = (fst (particle_update dt acc w f))\<lparr>last_spark := 0\<rparr> \<and>
              spark_due (last_spark f + dt) f' \<and> trail_spark g f' s = (Inr sp, s')) \<or>
           (es = [Firework ((fst (particle_update dt acc w f))\<lparr>last_spark := last_spark f + dt\<rparr>)] \<and>
            \<not> spark_due (last_spark f + dt) (fst (particle_update dt acc w f)))))"
proof (cases "snd (particle_update dt acc w f) = []")
  case True
  with assms show ?thesis by (simp add: firework_update_dead)
next
  case False
  with assms have "(let f2 = (fst (particle_update dt acc w f))\<lparr>last_spark := last_spark f + dt\<rparr>
     in if spark_due (last_spark f + dt) f2
        then bindE (trail_spark g (f2\<lparr>last_spark := 0\<rparr>))
               (\<lambda>sp. ret [Firework (f2\<lparr>last_spark := 0\<rparr>), Particle sp])
        else ret [Firework f2]) s = (Inr es, s')"
    by (simp add: firework_update_alive)
  from alive_branch_Inr [OF this] False show ?thesis by blast
qed

lemma superfirework_update_shape:
  assumes "superfirework_update g dt acc w f s = (Inr es, s')"
  shows "(snd (particle_update dt acc w f) = [] \<and> superfirework_detonate g
            ((fst (particle_update dt acc w f))\<lparr>last_spark := last_spark f + dt\<rparr>) s = (Inr es, s')) \<or>
         (snd (particle_update dt acc w f) \<noteq> [] \<and>
          ((\<exists>f' sp. es = [SuperFirework f', Particle sp] \<and>
              f' = (fst (particle_update dt acc w f))\<lparr>last_spark := 0\<rparr> \<and>
              spark_due (last_spark f + dt) f' \<and> trail_spark g f' s = (Inr sp, s')) \<or>
           (es = [SuperFirework ((fst (particle_update dt acc w f))\<lparr>last_spark := last_spark f + dt\<rparr>)] \<and>
            \<not> spark_due (last_spark f + dt) (fst (particle_update dt acc w f)))))"
proof (cases "snd (particle_update dt acc w f) = []")
  case True
  with assms show ?thesis by (simp add: superfirework_update_dead)
next
  case False
  with assms have "(let f2 = (fst (particle_update dt acc w f))\<lparr>last_spark := last_spark f + dt\<rparr>
     in if spark_due (last_spark f + dt) f2
        then bindE (trail_spark g (f2\<lparr>last_spark := 0\<rparr>))
               (\<lambda>sp. ret [SuperFirework (f2\<lparr>last_spark := 0\<rparr>), Particle sp])
        else ret [SuperFirework f2]) s = (Inr es, s')"
    by (simp add: superfirework_update_alive)
  from alive_branch_Inr [OF this] False show ?thesis by blast
qed

text \<open>C3. When \<open>Firework.update\<close> finds the firework dead (its particle update returned
  \<open>[]\<close>) and returns normally, it returns between 25 and 100 plain particles, all of
  one in-range base colour (\<open>randint(25, 100)\<close> is inclusive).\<close>

lemma firework_detonation:
  assumes "rng_ok g" and "snd (particle_update dt acc w f) = []"
    and "firework_update g dt acc w f s = (Inr es, s')"
  shows "25 \<le> length es \<and> length es \<le> 100 \<and> (\<forall>e \<in> set es. is_particle e) \<and>
         (\<exists>c. rgb_ok c \<and> (\<forall>e \<in> set es. base_colour (entity_particle e) = c))"
proof -
  from assms(2,3) have "firework_detonate g
      ((fst (particle_update dt acc w f))\<lparr>last_spark := last_spark f + dt\<rparr>) s = (Inr es, s')"
    by (simp add: firework_update_dead)
  from firework_detonate_Inr [OF this] assms(1) obtain c n where
    len: "length es = nat n" and n: "25 \<le> n" "n \<le> 100" and c: "rgb_ok c"
    and all: "\<forall>e \<in> set es. \<exists>p. e = Particle p \<and> base_colour p = c"
    by blast
  from len n have "25 \<le> length es \<and> length es \<le> 100" by linarith
  moreover from all have "\<forall>e \<in> set es. is_particle e" by auto
  moreover from all c have "\<exists>c. rgb_ok c \<and> (\<forall>e \<in> set es. base_colour (entity_particle e) = c)"
    by (intro exI [of _ c]) auto
  ultimately show ?thesis by blast
qed

text \<open>C4. When a \<open>SuperFirework\<close> dies it returns between 5 and 10 fresh \<open>Firework\<close>s
  (age 0, no spark yet, lifespan in \<open>[1, 4)\<close>); \<open>randint(5, 10)\<close> makes 10 possible.\<close>

lemma superfirework_detonation:
  assumes "rng_ok g" and "snd (particle_update dt acc w f) = []"
    and "superfirework_update g dt acc w f s = (Inr es, s')"
  shows "5 \<le> length es \<and> length es \<le> 10 \<and>
         (\<forall>e \<in> set es. \<exists>fw L. e = Firework fw \<and> timer fw = 0 \<and> last_spark fw = 0 \<and>
            lifespan fw = Some L \<and> 1 \<le> L \<and> L < 4)"
proof -
  from assms(2,3) have "superfirework_detonate g
      ((fst (particle_update dt acc w f))\<lparr>last_spark := last_spark f + dt\<rparr>) s = (Inr es, s')"
    by (simp add: superfirework_update_dead)
  from superfirework_detonate_Inr [OF this] assms(1) obtain c n where
    len: "length es = nat n" and n: "5 \<le> n" "n \<le> 10"
    and all: "\<forall>e \<in> set es. \<exists>fw u. e = Firework fw \<and> timer fw = 0 \<and> last_spark fw = 0 \<and>
        lifespan fw = Some (u * 3 + 1) \<and> 0 \<le> u \<and> u < 1"
    by blast
  from len n have "5 \<le> length es \<and> length es \<le> 10" by linarith
  moreover have "\<forall>e \<in> set es. \<exists>fw L. e = Firework fw \<and> timer fw = 0 \<and> last_spark fw = 0 \<and>
            lifespan fw = Some L \<and> 1 \<le> L \<and> L < 4"
  proof
    fix e assume "e \<in> set es"
    with all obtain fw u where "e = Firework fw" "timer fw = 0" "last_spark fw = 0"
      "lifespan fw = Some (u * 3 + 1)" "0 \<le> u" "u < 1" by blast
    then show "\<exists>fw L. e = Firework fw \<and> timer fw = 0 \<and> last_spark fw = 0 \<and>
            lifespan fw = Some L \<and> 1 \<le> L \<and> L < 4" by auto
  qed
  ultimately show ?thesis by blast
qed

text \<open>C5. While a firework lives, an update either emits one trail spark and resets
  \<open>last_spark\<close> to 0, exactly when the accumulated time exceeds
  \<open>0.125 * (velocity.length() / 100)\<close>, or emits nothing and keeps the accumulated time.\<close>

lemma firework_spark_cadence:
  assumes "snd (particle_update dt acc w f) \<noteq> []"
    and "firework_update g dt acc w f s = (Inr es, s')"
  shows "(\<exists>f' sp. es = [Firework f', Particle sp] \<and> last_spark f' = 0 \<and>
            0.125 * (vlength (velocity f') / 100) < last_spark f + dt) \<or>
         (\<exists>f'. es = [Firework f'] \<and> last_spark f' = last_spark f + dt \<and>
            \<not> 0.125 * (vlength (velocity f') / 100) < last_spark f + dt)"
  using firework_update_shape [OF assms(2)] assms(1) by (auto simp: spark_due_def)

text \<open>C6. A firework update keeps the firework in its result exactly while its particle
  update keeps it; the result holds at most one firework and nothing above rank 1.\<close>

lemma firework_lifecycle:
  assumes "firework_update g dt acc w f s = (Inr es, s')"
  shows "((\<exists>f'. Firework f' \<in> set es) \<longleftrightarrow> snd (particle_update dt acc w f) \<noteq> []) \<and>
         length (filter is_firework es) \<le> 1 \<and> (\<forall>e \<in> set es. rank e \<le> 1)"
proof (cases "snd (particle_update dt acc w f) = []")
  case True
  with firework_update_shape [OF assms] have "firework_detonate g
      ((fst (particle_update dt acc w f))\<lparr>last_spark := last_spark f + dt\<rparr>) s = (Inr es, s')"
    by blast
  then have "\<forall>e \<in> set es. \<exists>p. e = Particle p"
    by (fastforce dest!: firework_detonate_Inr)
  then have "\<forall>e \<in> set es. \<not> is_firework e \<and> rank e = 0" by auto
  with True show ?thesis by (auto simp: filter_False)
next
  case False
  with firework_update_shape [OF assms] show ?thesis by auto
qed

lemma burst_offset_total:
  assumes "\<forall>s. fst (rnd g s) \<noteq> 1/2"
  shows "\<exists>d s'. burst_offset g s = (Inr d, s')"
proof -
  obtain a s1 where a: "rnd g s = (a, s1)" by fastforce
  obtain b s2 where b: "rnd g s1 = (b, s2)" by fastforce
  obtain m s3 where m: "rnd g s2 = (m, s3)" by fastforce
  from assms a have "a \<noteq> 1/2" by (metis fst_conv)
  then have "Vec2 (a * 2 - 1) (b * 2 - 1) \<noteq> Vec2 0 0" by auto
  then obtain d where "normalised (Vec2 (a * 2 - 1) (b * 2 - 1)) = Inr d"
    by (simp add: normalised_ok)
  with a b m show ?thesis
    by (simp add: burst_offset_def random_def bindE_apply liftE_apply ret_apply)
qed

lemma firework_detonate_total:
  assumes "\<forall>s. fst (rnd g s) \<noteq> 1/2"
  shows "\<exists>es s'. firework_detonate g f s = (Inr es, s')"
proof -
  have body: "\<exists>e s'. burst_particle g f col s = (Inr e, s')" for col s
  proof -
    from burst_offset_total [OF assms] obtain d s1 where "burst_offset g s = (Inr d, s1)" by blast
    then show ?thesis
      by (simp add: burst_particle_def random_def bindE_apply ret_apply split: prod.splits)
  qed
  show ?thesis
    by (simp add: firework_detonate_def randint_def bindE_apply replicateE_total [OF body]
        split: prod.splits)
qed


text \<open>C12. A firework of lifespan 0 detonates on its first update (with \<open>dt \<ge> 0\<close>):
  only plain particles, between 25 and 100 of them.\<close>

lemma firework_zero_lifespan_detonates:
  assumes "rng_ok g" and "lifespan f = Some 0" and "0 \<le> timer f" and "0 \<le> dt"
    and "firework_update g dt acc w f s = (Inr es, s')"
  shows "(\<forall>e \<in> set es. is_particle e) \<and> 25 \<le> length es \<and> length es \<le> 100"
proof -
  from assms(2-4) have dead: "snd (particle_update dt acc w f) = []"
    by (intro particle_update_expired) auto
  with assms(5) have "firework_detonate g
      ((fst (particle_update dt acc w f))\<lparr>last_spark := last_spark f + dt\<rparr>) s = (Inr es, s')"
    by (simp add: firework_update_dead)
  from firework_detonate_Inr [OF this] assms(1) obtain n where
    "length es = nat n" "25 \<le> n" "n \<le> 100" "\<forall>e \<in> set es. \<exists>p. e = Particle p"
    by blast
  then show ?thesis by auto
qed

text \<open>C8. Updating an entity never produces one of a higher class, and produces at most
  one of its own class (itself): the cascade SuperFirework, Firework, Particle only
  descends.\<close>

lemma entity_update_rank:
  assumes "entity_update g dt acc w e s = (Inr es, s')"
  shows "(\<forall>e' \<in> set es. rank e' \<le> rank e) \<and> length (filter (\<lambda>e'. rank e' = rank e) es) \<le> 1"
proof (cases e)
  case (Particle p)
  with assms have "es = map Particle (snd (particle_update dt acc w p))" by (simp add: ret_apply)
  with Particle particle_update_length [of dt acc w p] show ?thesis
    by (simp add: length_filter_le [THEN le_trans])
next
  case (Firework f)
  with assms have u: "firework_update g dt acc w f s = (Inr es, s')" by simp
  show ?thesis
  proof (cases "snd (particle_update dt acc w f) = []")
    case True
    with firework_update_shape [OF u] have "firework_detonate g
      ((fst (particle_update dt acc w f))\<lparr>last_spark := last_spark f + dt\<rparr>) s = (Inr es, s')"
      by blast
    then have low: "\<forall>e' \<in> set es. rank e' < rank e" using Firework by (fastforce dest!: firework_detonate_Inr)
    then have "filter (\<lambda>e'. rank e' = rank e) es = []" by (auto intro!: filter_False)
    with low show ?thesis by auto
  next
    case False
    with firework_update_shape [OF u] Firework show ?thesis by auto
  qed
next
  case (SuperFirework f)
  with assms have u: "superfirework_update g dt acc w f s = (Inr es, s')" by simp
  show ?thesis
  proof (cases "snd (particle_update dt acc w f) = []")
    case True
    with superfirework_update_shape [OF u] have "superfirework_detonate g
      ((fst (particle_update dt acc w f))\<lparr>last_spark := last_spark f + dt\<rparr>) s = (Inr es, s')"
      by blast
    then have low: "\<forall>e' \<in> set es. rank e' < rank e" using SuperFirework by (fastforce dest!: superfirework_detonate_Inr)
    then have "filter (\<lambda>e'. rank e' = rank e) es = []" by (auto intro!: filter_False)
    with low show ?thesis by auto
  next
    case False
    with superfirework_update_shape [OF u] SuperFirework show ?thesis by auto
  qed
qed

lemma entity_colour_raises: "entity_colour g x s = (Inl e, s') \<Longrightarrow> e = ZeroDivisionError"
  by (cases x) (auto simp: liftE_apply colour_raises)

lemma fresh_firework_wf:
  "timer fw = 0 \<Longrightarrow> last_spark fw = 0 \<Longrightarrow> rgb_ok (base_colour fw) \<Longrightarrow> lifespan fw = Some L \<Longrightarrow>
   0 \<le> L \<Longrightarrow> entity_wf (Firework fw)"
  by (simp add: particle_wf_def)

lemma surviving_firework_wf:
  assumes "particle_wf f" and "0 \<le> dt" and "snd (particle_update dt acc w f) \<noteq> []"
    and "0 \<le> x"
  shows "particle_wf ((fst (particle_update dt acc w f))\<lparr>last_spark := x\<rparr>)"
proof -
  have "particle_wf (fst (particle_update dt acc w f))"
    by (rule particle_update_survivor_wf [OF assms(1-3)])
  then show ?thesis by (simp add: particle_wf_def split: option.splits)
qed

lemma entity_update_wf:
  assumes "rng_ok g" and "0 \<le> dt" and "entity_wf e"
    and "entity_update g dt acc w e s = (Inr es, s')"
  shows "\<forall>e' \<in> set es. entity_wf e'"
proof (cases e)
  case (Particle p)
  with assms(4) have "es = map Particle (snd (particle_update dt acc w p))" by (simp add: ret_apply)
  moreover from Particle assms(3) have "particle_wf p" by simp
  ultimately show ?thesis
    using particle_update_survivor_wf [of p dt acc w] assms(2)
    by (auto simp: particle_update_result split: if_splits)
next
  case (Firework f)
  with assms(3) have wf: "particle_wf f" "0 \<le> last_spark f" by auto
  from Firework assms(4) have u: "firework_update g dt acc w f s = (Inr es, s')" by simp
  show ?thesis
  proof (cases "snd (particle_update dt acc w f) = []")
    case True
    with firework_update_shape [OF u] have "firework_detonate g
      ((fst (particle_update dt acc w f))\<lparr>last_spark := last_spark f + dt\<rparr>) s = (Inr es, s')"
      by blast
    from firework_detonate_Inr [OF this] assms(1) show ?thesis
      by (fastforce simp: particle_wf_def)
  next
    case False
    with firework_update_shape [OF u] wf assms(2) show ?thesis
      using surviving_firework_wf [OF wf(1) assms(2) False] trail_spark_Inr [OF assms(1)]
      by fastforce
  qed
next
  case (SuperFirework f)
  with assms(3) have wf: "particle_wf f" "0 \<le> last_spark f" by auto
  from SuperFirework assms(4) have u: "superfirework_update g dt acc w f s = (Inr es, s')" by simp
  show ?thesis
  proof (cases "snd (particle_update dt acc w f) = []")
    case True
    with superfirework_update_shape [OF u] have "superfirework_detonate g
      ((fst (particle_update dt acc w f))\<lparr>last_spark := last_spark f + dt\<rparr>) s = (Inr es, s')"
      by blast
    from superfirework_detonate_Inr [OF this] assms(1) show ?thesis
      by (fastforce simp: particle_wf_def)
  next
    case False
    with superfirework_update_shape [OF u] wf assms(2) show ?thesis
      using surviving_firework_wf [OF wf(1) assms(2) False] trail_spark_Inr [OF assms(1)]
      by fastforce
  qed
qed

lemma entity_update_length:
  assumes "rng_ok g" and "entity_update g dt acc w e s = (Inr es, s')"
  shows "length es \<le> 100"
proof (cases e)
  case (Particle p)
  with assms(2) have "length es = length (snd (particle_update dt acc w p))"
    by (auto simp: ret_apply)
  with particle_update_length [of dt acc w p] show ?thesis by linarith
next
  case (Firework f)
  with assms(2) have u: "firework_update g dt acc w f s = (Inr es, s')" by simp
  show ?thesis
    using firework_update_shape [OF u] firework_detonate_Inr assms(1) by fastforce
next
  case (SuperFirework f)
  with assms(2) have u: "superfirework_update g dt acc w f s = (Inr es, s')" by simp
  show ?thesis
    using superfirework_update_shape [OF u] superfirework_detonate_Inr assms(1) by fastforce
qed

text \<open>C14. The trail-spark flicker colour stays in the range its formula allows:
  red 200..255, green 167..250, blue 56..84. The bounds are those of every factor
  \<open>f\<close> in the closed interval [0.8, 1.2]: the generator here may return 1.0, which
  covers the float rounding of \<open>random() * 0.4 + 0.8\<close> to exactly 1.2 when
  \<open>random()\<close> is 1 - 2^-53 (then \<open>int(min(255, 70 * 1.2)) = 84\<close>).\<close>

lemma flicker_colour_range:
  assumes "\<forall>s. 0 \<le> fst (rnd g s) \<and> fst (rnd g s) \<le> 1" and "flicker_colour g s = (Inr c, s')"
  shows "200 \<le> fst c \<and> fst c \<le> 255 \<and> 167 \<le> fst (snd c) \<and> fst (snd c) \<le> 250 \<and>
         56 \<le> snd (snd c) \<and> snd (snd c) \<le> 84"
proof -
  from assms(2) obtain u s1 where u: "random g s = (Inr u, s1)"
    and c: "c = (py_int (min 255 (250 * (u * 0.4 + 0.8))), py_int (min 255 (209 * (u * 0.4 + 0.8))),
                 py_int (min 255 (70 * (u * 0.4 + 0.8))))"
    by (auto simp: flicker_colour_def Let_def ret_def elim!: bindE_InrE)
  from u have "fst (rnd g s) = u" by (simp add: random_def split: prod.splits)
  with assms(1) have "0 \<le> u" "u \<le> 1" by auto
  with c show ?thesis by (auto simp: le_floor_iff floor_le_iff)
qed

text \<open>C15. On the spark branch of a living firework, \<open>update\<close> raises
  \<open>ZeroDivisionError\<close> exactly when the updated velocity is the zero vector (the
  spark direction \<open>self.velocity.normalised()\<close>, line 124).\<close>

lemma firework_spark_zero_velocity:
  assumes "snd (particle_update dt acc w f) \<noteq> []"
    and "spark_due (last_spark f + dt) (fst (particle_update dt acc w f))"
  shows "(\<exists>s'. firework_update g dt acc w f s = (Inl ZeroDivisionError, s')) \<longleftrightarrow>
         velocity (fst (particle_update dt acc w f)) = Vec2 0 0"
proof -
  let ?f' = "(fst (particle_update dt acc w f))\<lparr>last_spark := 0\<rparr>"
  from assms have u: "firework_update g dt acc w f =
      bindE (trail_spark g ?f') (\<lambda>sp. ret [Firework ?f', Particle sp])"
    by (simp add: firework_update_alive Let_def)
  obtain r s1 where t: "trail_spark g ?f' s = (r, s1)" by fastforce
  show ?thesis
  proof (cases r)
    case (Inl e)
    with t trail_spark_raises_iff [of g ?f' s e s1] u show ?thesis
      by (simp add: bindE_apply)
  next
    case (Inr sp)
    have "velocity ?f' \<noteq> Vec2 0 0"
    proof
      assume "velocity ?f' = Vec2 0 0"
      then have "trail_spark g ?f' s = (Inl ZeroDivisionError, s)"
        using trail_spark_raises_iff [of g ?f' s ZeroDivisionError s] by simp
      with t Inr show False by simp
    qed
    with t Inr u show ?thesis by (simp add: bindE_apply ret_apply)
  qed
qed

text \<open>C16. \<open>Firework.update\<close> always returns, without exception, when the generator never
  draws exactly 1/2 and the updated velocity is not zero.\<close>

lemma firework_update_total:
  assumes "\<forall>s. fst (rnd g s) \<noteq> 1/2"
    and "velocity (fst (particle_update dt acc w f)) \<noteq> Vec2 0 0"
  shows "\<exists>es s'. firework_update g dt acc w f s = (Inr es, s')"
proof (cases "snd (particle_update dt acc w f) = []")
  case True
  then show ?thesis by (simp add: firework_update_dead firework_detonate_total [OF assms(1)])
next
  case False
  let ?f' = "(fst (particle_update dt acc w f))\<lparr>last_spark := 0\<rparr>"
  obtain r s1 where t: "trail_spark g ?f' s = (r, s1)" by fastforce
  from assms(2) t have "\<exists>sp. r = Inr sp"
    using trail_spark_raises_iff [of g ?f' s _ s1] by (cases r) auto
  with False t show ?thesis
    by (auto simp: firework_update_alive Let_def bindE_apply ret_apply)
qed


end
