(* ===== verification/Simulation.thy ===== *)
theory Simulation
  imports Firework
begin

text \<open>
  The driver of \<open>src/fireworks/__main__.py\<close>. \<open>FireworksWindow\<close> is a pyglet window
  with two extra attributes, \<open>particles\<close> and \<open>dt\<close>: the record \<open>fireworks_window\<close>
  extends \<open>window\<close> with them (\<open>win_dt\<close> for \<open>self.dt\<close>). The module globals
  \<open>window\<close> and \<open>firework_set\<close> are the state passed in and the constant
  \<open>firework_set\<close>. \<open>tick\<close> is the clock callback \<open>update(dt)\<close> (the acceleration is
  the constant \<open>gravity\<close>), \<open>launch\<close> the expression that creates a random firework,
  \<open>main_init\<close> the window built by \<open>main()\<close>, \<open>draw_buffers\<close> and
  \<open>overlay_stats\<close> what \<open>on_draw\<close> computes before handing it to OpenGL and to the
  label. Drawing itself, the event loop and the text layout are not modelled.
  \<open>reachable\<close> collects the states of a run: the initial window, then any number of
  ticks with a non-negative \<open>dt\<close> (pyglet's clock never goes back) and of window
  resizes, which change only the width and height.
\<close>

record fireworks_window = window +
  particles :: "entity list"
  win_dt :: real

datatype fw_class = FireworkClass | SuperFireworkClass

definition firework_set :: "fw_class list" where
  "firework_set = [FireworkClass, FireworkClass, SuperFireworkClass]"

fun construct :: "fw_class \<Rightarrow> vec2 \<Rightarrow> vec2 \<Rightarrow> rgb \<Rightarrow> real \<Rightarrow> entity" where
  "construct FireworkClass pos speed col life = Firework (new_firework pos speed col life)"
| "construct SuperFireworkClass pos speed col life = SuperFirework (new_superfirework pos speed col life)"

definition gravity :: vec2 where
  "gravity = Vec2 0 (-0.1)"

definition launch :: "'s rng \<Rightarrow> ('s, entity) exec" where
  "launch g =
     bindE (choice g firework_set) (\<lambda>cls.
     bindE (random g) (\<lambda>a.
     bindE (random g) (\<lambda>b.
     bindE (random g) (\<lambda>c.
     bindE (randint g 1 5) (\<lambda>L.
       ret (construct cls (Vec2 (a * 1.5 - 0.75) 0) (Vec2 (b * 0.1 - 0.05) (c * 0.25 + 0.25))
              (255, 255, 255) (of_int L)))))))"

text \<open>\<open>flatten(map(lambda p: p.update(dt, Vec2(0, -0.1), window), window.particles))\<close>:
  every entity is updated in list order and the results are concatenated.\<close>

definition update_phase ::
  "'s rng \<Rightarrow> real \<Rightarrow> vec2 \<Rightarrow> 'w window_scheme \<Rightarrow> entity list \<Rightarrow> ('s, entity list) exec" where
  "update_phase g dt acc w es = bindE (mapE (entity_update g dt acc w) es) (\<lambda>pss. ret (flatten pss))"

definition tick :: "'s rng \<Rightarrow> real \<Rightarrow> fireworks_window \<Rightarrow> ('s, fireworks_window) exec" where
  "tick g dt win =
     (let win1 = win\<lparr>win_dt := dt\<rparr>
      in bindE (update_phase g dt gravity win1 (particles win1)) (\<lambda>ps.
           bindE (random g) (\<lambda>u.
             if 0.9 < u then bindE (launch g) (\<lambda>e. ret (win1\<lparr>particles := ps @ [e]\<rparr>))
             else ret (win1\<lparr>particles := ps\<rparr>))))"

definition main_init :: "'s rng \<Rightarrow> window \<Rightarrow> ('s, fireworks_window) exec" where
  "main_init g w0 =
     bindE (randint g 5 20) (\<lambda>n.
     bindE (replicateE (nat n) (launch g)) (\<lambda>ps.
       ret \<lparr>width = width w0, height = height w0, particles = ps, win_dt = 1\<rparr>))"

definition rgb_list :: "rgb \<Rightarrow> int list" where
  "rgb_list c = (case c of (r, g, b) \<Rightarrow> [r, g, b])"

definition vertex_colours :: "'s rng \<Rightarrow> entity \<Rightarrow> ('s, int list) exec" where
  "vertex_colours g e =
     bindE (entity_colour g e) (\<lambda>c1.
     bindE (entity_colour g e) (\<lambda>c2.
     bindE (entity_colour g e) (\<lambda>c3.
       ret (flatten [rgb_list c1, rgb_list c2, rgb_list c3]))))"

text \<open>\<open>on_draw\<close>: the vertex list, the colour list and the vertex count handed to
  \<open>pyglet.graphics.draw\<close>.\<close>

definition draw_buffers ::
  "'s rng \<Rightarrow> fireworks_window \<Rightarrow> ('s, real list \<times> int list \<times> nat) exec" where
  "draw_buffers g win =
     (let vertexes = flatten (map (\<lambda>e. as_tri win default_tri_size (position (entity_particle e)))
                                  (particles win))
      in bindE (mapE (vertex_colours g) (particles win)) (\<lambda>cs.
           ret (vertexes, flatten cs, length (particles win) * 3)))"

text \<open>The label of \<open>on_draw\<close>: particle count, frame rate (999 when \<open>dt\<close> is 0), window
  size, and its anchor \<open>(self.width // 2, self.height)\<close>.\<close>

definition overlay_stats :: "fireworks_window \<Rightarrow> nat \<times> real \<times> int \<times> int \<times> int \<times> int" where
  "overlay_stats win =
     (length (particles win), if win_dt win \<noteq> 0 then 1 / win_dt win else 999, width win, height win,
      width win div 2, height win)"

definition all_wf :: "fireworks_window \<Rightarrow> bool" where
  "all_wf win \<longleftrightarrow> list_all entity_wf (particles win)"

inductive reachable :: "'s rng \<Rightarrow> window \<Rightarrow> fireworks_window \<times> 's \<Rightarrow> bool"
  for g :: "'s rng" and w0 :: window where
  init: "main_init g w0 s = (Inr win, s') \<Longrightarrow> reachable g w0 (win, s')"
| step: "reachable g w0 (win, s) \<Longrightarrow> 0 \<le> dt \<Longrightarrow> tick g dt win s = (Inr win', s') \<Longrightarrow>
         reachable g w0 (win', s')"
| resize: "reachable g w0 (win, s) \<Longrightarrow> reachable g w0 (win\<lparr>width := wd, height := ht\<rparr>, s)"


subsection \<open>Properties\<close>

lemma launch_Inr:
  assumes "rng_ok g" and "launch g s = (Inr e, s')"
  shows "\<exists>fw L. (e = Firework fw \<or> e = SuperFirework fw) \<and> timer fw = 0 \<and> last_spark fw = 0 \<and>
           base_colour fw = (255, 255, 255) \<and> lifespan fw = Some (of_int L) \<and> 1 \<le> L \<and> L \<le> 5 \<and>
           -0.75 \<le> vx (position fw) \<and> vx (position fw) < 0.75 \<and> vy (position fw) = 0 \<and>
           -0.05 \<le> vx (velocity fw) \<and> vx (velocity fw) < 0.05 \<and>
           0.25 \<le> vy (velocity fw) \<and> vy (velocity fw) < 0.5"
proof -
  from assms(2) obtain cls a b c L s1 s2 s3 s4 where
        a: "random g s1 = (Inr a, s2)" and b: "random g s2 = (Inr b, s3)"
    and c: "random g s3 = (Inr c, s4)" and L: "randint g 1 5 s4 = (Inr L, s')"
    and e: "e = construct cls (Vec2 (a * 1.5 - 0.75) 0) (Vec2 (b * 0.1 - 0.05) (c * 0.25 + 0.25))
              (255, 255, 255) (of_int L)"
    by (auto simp: launch_def ret_apply elim!: bindE_InrE)
  from random_range [OF assms(1) a] random_range [OF assms(1) b] random_range [OF assms(1) c]
    randint_range [OF assms(1) L]
  have "0 \<le> a" "a < 1" "0 \<le> b" "b < 1" "0 \<le> c" "c < 1" "1 \<le> L" "L \<le> 5" by auto
  with e show ?thesis by (cases cls) (auto simp: new_firework_def)
qed

lemma launch_wf:
  "rng_ok g \<Longrightarrow> launch g s = (Inr e, s') \<Longrightarrow> entity_wf e"
  by (drule (1) launch_Inr) (auto simp: particle_wf_def rgb_ok_def channel_ok_def)

lemma update_phase_Inr:
  assumes "update_phase g dt acc w es s = (Inr es', s')"
  shows "\<forall>e' \<in> set es'. \<exists>e \<in> set es. \<exists>xs s1 s2.
           entity_update g dt acc w e s1 = (Inr xs, s2) \<and> e' \<in> set xs"
proof
  fix e' assume e': "e' \<in> set es'"
  from assms obtain pss s1 where m: "mapE (entity_update g dt acc w) es s = (Inr pss, s1)"
    and "es' = flatten pss"
    by (auto simp: update_phase_def ret_apply elim!: bindE_InrE)
  with e' obtain xs where xs: "xs \<in> set pss" "e' \<in> set xs" by (auto simp: flatten_def)
  from mapE_Inr [OF m] xs(1) obtain i s2 s3 where "i < length es"
    "entity_update g dt acc w (es ! i) s2 = (Inr xs, s3)"
    by (metis in_set_conv_nth)
  with xs(2) show "\<exists>e \<in> set es. \<exists>xs s1 s2. entity_update g dt acc w e s1 = (Inr xs, s2) \<and> e' \<in> set xs"
    by (metis nth_mem)
qed

text \<open>What every entity update guarantees of its products holds of the whole phase.\<close>

lemma update_phase_preserves:
  assumes "update_phase g dt acc w es s = (Inr es', s')"
    and "\<forall>e \<in> set es. P e"
    and "\<And>e xs s1 s2 x. P e \<Longrightarrow> entity_update g dt acc w e s1 = (Inr xs, s2) \<Longrightarrow> x \<in> set xs \<Longrightarrow> Q x"
  shows "\<forall>e' \<in> set es'. Q e'"
  using update_phase_Inr [OF assms(1)] assms(2,3) by blast

lemma update_phase_wf:
  assumes "rng_ok g" and "0 \<le> dt" and "\<forall>e \<in> set es. entity_wf e"
    and "update_phase g dt acc w es s = (Inr es', s')"
  shows "\<forall>e \<in> set es'. entity_wf e"
  by (rule update_phase_preserves [OF assms(4,3)]) (use entity_update_wf [OF assms(1,2)] in blast)

lemma update_phase_length:
  assumes "rng_ok g" and "update_phase g dt acc w es s = (Inr es', s')"
  shows "length es' \<le> 100 * length es"
proof -
  from assms(2) obtain pss s1 where m: "mapE (entity_update g dt acc w) es s = (Inr pss, s1)"
    and es': "es' = flatten pss"
    by (auto simp: update_phase_def ret_apply elim!: bindE_InrE)
  from mapE_Inr [OF m] have len: "length pss = length es"
    and each: "\<forall>i < length es. \<exists>s1 s2. entity_update g dt acc w (es ! i) s1 = (Inr (pss ! i), s2)"
    by auto
  have "\<forall>xs \<in> set pss. length xs \<le> 100"
    using each len entity_update_length [OF assms(1)] by (metis in_set_conv_nth)
  then have "sum_list (map length pss) \<le> sum_list (map (\<lambda>_. 100) pss)"
    by (intro sum_list_mono) auto
  with len es' show ?thesis by (simp add: flatten_def length_concat sum_list_triv)
qed

lemma tick_Inr:
  assumes "tick g dt win s = (Inr win', s')"
  shows "\<exists>ps s1 extra. update_phase g dt gravity (win\<lparr>win_dt := dt\<rparr>) (particles win) s = (Inr ps, s1) \<and>
           particles win' = ps @ extra \<and> length extra \<le> 1 \<and>
           (\<forall>e \<in> set extra. \<exists>s2 s3. launch g s2 = (Inr e, s3)) \<and>
           width win' = width win \<and> height win' = height win \<and> win_dt win' = dt"
proof -
  from assms obtain ps s1 u s2 where
        m: "update_phase g dt gravity (win\<lparr>win_dt := dt\<rparr>) (particles win) s = (Inr ps, s1)"
    and r: "(if 0.9 < (u::real) then bindE (launch g) (\<lambda>e. ret (win\<lparr>win_dt := dt, particles := ps @ [e]\<rparr>))
             else ret (win\<lparr>win_dt := dt, particles := ps\<rparr>)) s2 = (Inr win', s')"
    by (auto simp: tick_def Let_def elim!: bindE_InrE)
  show ?thesis
  proof (cases "0.9 < (u::real)")
    case True
    with r obtain e s3 where "launch g s2 = (Inr e, s3)"
      and "win' = win\<lparr>win_dt := dt, particles := ps @ [e]\<rparr>"
      by (auto simp: ret_apply elim!: bindE_InrE)
    with m show ?thesis by (intro exI [of _ ps] exI [of _ s1] exI [of _ "[e]"]) auto
  next
    case False
    with r have "win' = win\<lparr>win_dt := dt, particles := ps\<rparr>" by (simp add: ret_apply)
    with m show ?thesis by (intro exI [of _ ps] exI [of _ s1] exI [of _ "[]"]) auto
  qed
qed

lemma tick_wf:
  assumes "rng_ok g" and "0 \<le> dt" and "all_wf win" and "tick g dt win s = (Inr win', s')"
  shows "all_wf win'"
proof -
  from tick_Inr [OF assms(4)] obtain ps s1 extra where
        m: "update_phase g dt gravity (win\<lparr>win_dt := dt\<rparr>) (particles win) s = (Inr ps, s1)"
    and p: "particles win' = ps @ extra"
    and x: "\<forall>e \<in> set extra. \<exists>s2 s3. launch g s2 = (Inr e, s3)"
    by blast
  from assms(3) have "\<forall>e \<in> set (particles win). entity_wf e" by (simp add: all_wf_def list_all_iff)
  from update_phase_wf [OF assms(1,2) this m] x launch_wf [OF assms(1)] p
  show ?thesis by (auto simp: all_wf_def list_all_iff)
qed

lemma main_init_Inr:
  assumes "rng_ok g" and "main_init g w0 s = (Inr win, s')"
  shows "5 \<le> length (particles win) \<and> length (particles win) \<le> 20 \<and> all_wf win \<and>
         width win = width w0 \<and> height win = height w0 \<and> win_dt win = 1"
proof -
  from assms(2) obtain n s1 ps where n: "randint g 5 20 s = (Inr n, s1)"
    and ps: "replicateE (nat n) (launch g) s1 = (Inr ps, s')"
    and win: "win = \<lparr>width = width w0, height = height w0, particles = ps, win_dt = 1\<rparr>"
    by (auto simp: main_init_def ret_apply elim!: bindE_InrE)
  have "length ps = nat n \<and> (\<forall>e \<in> set ps. entity_wf e)"
    by (rule replicateE_Inr [OF ps]) (rule launch_wf [OF assms(1)])
  with randint_range [OF assms(1) n] win show ?thesis by (auto simp: all_wf_def list_all_iff)
qed

lemma reachable_all_wf:
  assumes "rng_ok g" and "reachable g w0 st"
  shows "all_wf (fst st)"
  using assms(2)
proof (induction rule: reachable.induct)
  case (init s win s')
  then show ?case using main_init_Inr [OF assms(1)] by simp
next
  case (step win s dt win' s')
  then show ?case using tick_wf [OF assms(1)] by simp
next
  case (resize win s wd ht)
  then show ?case by (simp add: all_wf_def)
qed

lemma particle_colour_in_range:
  assumes "particle_wf p"
  shows "(\<exists>c. colour p = Inr c \<and> rgb_ok c) \<or> (lifespan p = Some 0 \<and> colour p = Inl ZeroDivisionError)"
proof -
  from assms obtain L where L: "lifespan p = Some L" "0 \<le> L" "timer p \<le> L" "0 \<le> timer p"
    and c: "rgb_ok (base_colour p)"
    by (auto simp: particle_wf_def split: option.splits)
  show ?thesis
  proof (cases "L = 0")
    case True
    with L show ?thesis by (simp add: colour_def split: prod.splits)
  next
    case False
    with L have f: "0 \<le> 1 - timer p / L" "1 - timer p / L \<le> 1"
      using fade_factor_bounds [of "timer p" L] by auto
    obtain r gr b where rgb: "base_colour p = (r, gr, b)" by (cases "base_colour p") auto
    with c f have "rgb_ok (py_int (of_int r * (1 - timer p / L)), py_int (of_int gr * (1 - timer p / L)),
                         py_int (of_int b * (1 - timer p / L)))"
      by (simp add: rgb_ok_def channel_ok_fade)
    with colour_fade [OF L(1) False rgb] show ?thesis by blast
  qed
qed

text \<open>C7. In every reachable state, every plain particle on screen has a colour whose
  channels lie in 0..255, unless its lifespan is 0, where reading it raises
  \<open>ZeroDivisionError\<close>.\<close>

lemma reachable_colour:
  assumes "rng_ok g" and "reachable g w0 (win, s)" and "Particle p \<in> set (particles win)"
  shows "(\<exists>c. colour p = Inr c \<and> rgb_ok c) \<or> (lifespan p = Some 0 \<and> colour p = Inl ZeroDivisionError)"
proof -
  from reachable_all_wf [OF assms(1,2)] assms(3) have "particle_wf p"
    by (fastforce simp: all_wf_def list_all_iff)
  then show ?thesis by (rule particle_colour_in_range)
qed

text \<open>C9. One \<open>on_update\<close> tick that returns multiplies the population by at most 100,
  plus one launch, keeps the window size and records \<open>dt\<close>.\<close>

lemma tick_growth:
  assumes "rng_ok g" and "tick g dt win s = (Inr win', s')"
  shows "length (particles win') \<le> 100 * length (particles win) + 1 \<and>
         width win' = width win \<and> height win' = height win \<and> win_dt win' = dt"
proof -
  from tick_Inr [OF assms(2)] obtain ps s1 extra where
        m: "update_phase g dt gravity (win\<lparr>win_dt := dt\<rparr>) (particles win) s = (Inr ps, s1)"
    and rest: "particles win' = ps @ extra" "length extra \<le> 1"
      "width win' = width win" "height win' = height win" "win_dt win' = dt"
    by blast
  from update_phase_length [OF assms(1) m] rest show ?thesis by simp
qed

lemma vertex_colours_length:
  "vertex_colours g e s = (Inr cs, s') \<Longrightarrow> length cs = 9"
  by (auto simp: vertex_colours_def rgb_list_def flatten_def ret_apply elim!: bindE_InrE
      split: prod.splits)

text \<open>C17. \<open>on_draw\<close> hands pyglet a vertex count of three per entity, two coordinates per
  vertex and three colour channels per vertex.\<close>

lemma draw_buffers_lengths:
  assumes "draw_buffers g win s = (Inr (vs, cs, n), s')"
  shows "n = 3 * length (particles win) \<and> length vs = 2 * n \<and> length cs = 3 * n"
proof -
  from assms obtain css s1 where m: "mapE (vertex_colours g) (particles win) s = (Inr css, s1)"
    and r: "vs = flatten (map (\<lambda>e. as_tri win default_tri_size (position (entity_particle e)))
                                  (particles win))" "cs = flatten css" "n = length (particles win) * 3"
    by (auto simp: draw_buffers_def Let_def ret_apply elim!: bindE_InrE)
  from mapE_Inr [OF m] have len: "length css = length (particles win)"
    and each: "\<forall>i < length (particles win). \<exists>s1 s2. vertex_colours g (particles win ! i) s1 = (Inr (css ! i), s2)"
    by auto
  have "\<forall>c \<in> set css. length c = 9"
    using each len vertex_colours_length by (metis in_set_conv_nth)
  then have "length cs = 9 * length css"
    using r(2) concat_const_length [of css 9] by (simp add: flatten_def)
  with len have "length cs = 9 * length (particles win)" by simp
  moreover have "length vs = 6 * length (particles win)"
    using r(1) concat_const_length [of "map (\<lambda>e. as_tri win default_tri_size (position (entity_particle e)))
                                  (particles win)" 6]
    by (simp add: flatten_def)
  ultimately show ?thesis using r(3) by simp
qed

lemma vertex_colours_raises: "vertex_colours g x s = (Inl e, s') \<Longrightarrow> e = ZeroDivisionError"
  by (auto simp: vertex_colours_def ret_apply elim!: bindE_InlE dest: entity_colour_raises)

lemma concat_particle_updates:
  "concat (map (\<lambda>p. map Particle (snd (particle_update dt acc w p))) ps) =
     map Particle (filter (survives w) (map (\<lambda>p. fst (particle_update dt acc w p)) ps))"
  by (induction ps) (simp_all add: particle_update_result)

text \<open>C18. \<open>flatten(map(lambda p: p.update(...), window.particles))\<close> on plain particles:
  \<open>Particle.update\<close> draws no random number and raises nothing, so the update phase
  leaves the generator untouched and returns exactly the particles that survive their
  update, updated, in their original order.\<close>

theorem update_phase_particles:
  "update_phase g dt acc w (map Particle ps) s =
     (Inr (map Particle (filter (survives w) (map (\<lambda>p. fst (particle_update dt acc w p)) ps))), s)"
  by (simp add: update_phase_def mapE_map mapE_ret flatten_def concat_particle_updates exec_simps)

text \<open>C19. \<open>main\<close> starts with between 5 and 20 launched entities
  (\<open>randint(5, 20)\<close> is inclusive) and \<open>dt = 1\<close>.\<close>

theorem main_init_population:
  assumes "rng_ok g" and "main_init g w0 s = (Inr win, s')"
  shows "5 \<le> length (particles win) \<and> length (particles win) \<le> 20 \<and> win_dt win = 1"
  using main_init_Inr [OF assms] by simp

text \<open>C20. A launched entity is a firework or super firework of age 0 with an integer
  lifespan between 1 and 5 (\<open>randint(1, 5)\<close> is inclusive).\<close>

theorem launch_lifespan:
  assumes "rng_ok g" and "launch g s = (Inr e, s')"
  shows "\<exists>L. lifespan (entity_particle e) = Some (of_int L) \<and> 1 \<le> L \<and> L \<le> 5 \<and>
           timer (entity_particle e) = 0 \<and> \<not> is_particle e"
  using launch_Inr [OF assms] by (auto simp: particle.defs)

lemma entity_colour_ok:
  assumes "rng_ok g" and "entity_wf e" and "entity_colour g e s = (Inr c, s')"
  shows "rgb_ok c"
proof (cases e)
  case (Particle p)
  with assms(2,3) particle_colour_in_range [of p] show ?thesis by (auto simp: liftE_apply)
next
  case (Firework f)
  with assms(3) flicker_colour_ok [OF assms(1)] show ?thesis by simp
next
  case (SuperFirework f)
  with assms(3) flicker_colour_ok [OF assms(1)] show ?thesis by simp
qed

lemma vertex_colours_bytes:
  assumes "rng_ok g" and "entity_wf e" and "vertex_colours g e s = (Inr cs, s')"
  shows "\<forall>x \<in> set cs. 0 \<le> x \<and> x \<le> 255"
proof -
  from assms(3) obtain c1 c2 c3 s1 s2 s3 where
    c: "entity_colour g e s = (Inr c1, s1)" "entity_colour g e s1 = (Inr c2, s2)"
       "entity_colour g e s2 = (Inr c3, s3)"
    and cs: "cs = flatten [rgb_list c1, rgb_list c2, rgb_list c3]"
    by (auto simp: vertex_colours_def ret_apply elim!: bindE_InrE)
  from c entity_colour_ok [OF assms(1,2)] have "rgb_ok c1" "rgb_ok c2" "rgb_ok c3" by blast+
  with cs show ?thesis
    by (cases c1, cases c2, cases c3) (auto simp: flatten_def rgb_list_def rgb_ok_def channel_ok_def)
qed

text \<open>C28. In every reachable state, whatever \<open>on_draw\<close> hands to pyglet as its \<open>c3B\<close>
  colour buffer consists of bytes: every channel value lies in 0..255.\<close>

theorem draw_buffers_bytes:
  assumes "rng_ok g" and "reachable g w0 (win, s0)" and "draw_buffers g win s = (Inr (vs, cs, n), s')"
  shows "\<forall>x \<in> set cs. 0 \<le> x \<and> x \<le> 255"
proof -
  from assms(3) obtain css s1 where m: "mapE (vertex_colours g) (particles win) s = (Inr css, s1)"
    and cs: "cs = flatten css"
    by (auto simp: draw_buffers_def Let_def ret_apply elim!: bindE_InrE)
  from reachable_all_wf [OF assms(1,2)] have wf: "\<forall>e \<in> set (particles win). entity_wf e"
    by (simp add: all_wf_def list_all_iff)
  from mapE_Inr [OF m] have len: "length css = length (particles win)"
    and each: "\<forall>i < length (particles win). \<exists>s1 s2. vertex_colours g (particles win ! i) s1 = (Inr (css ! i), s2)"
    by auto
  have "\<forall>c \<in> set css. \<forall>x \<in> set c. 0 \<le> x \<and> x \<le> 255"
  proof
    fix c assume "c \<in> set css"
    then obtain i where i: "i < length css" "c = css ! i" by (auto simp: in_set_conv_nth)
    with each len obtain s1 s2 where "vertex_colours g (particles win ! i) s1 = (Inr c, s2)" by auto
    moreover from i len wf have "entity_wf (particles win ! i)" by simp
    ultimately show "\<forall>x \<in> set c. 0 \<le> x \<and> x \<le> 255" using vertex_colours_bytes [OF assms(1)] by blast
  qed
  with cs show ?thesis by (auto simp: flatten_def)
qed

end
