(* ===== verification/Lifetime.thy ===== *)
theory Lifetime
  imports Simulation
begin

text \<open>
  How long entities live. \<open>phases g dt acc n es es'\<close> says that \<open>es'\<close> is what \<open>n\<close>
  successive update phases (the first line of \<open>update(dt)\<close> in \<open>__main__.py\<close>, with any
  window and any generator state) make of \<open>es\<close>; \<open>run_ticks\<close> is pyglet's clock calling
  \<open>update(dt)\<close> \<open>n\<close> times with a fixed \<open>dt\<close>, and a generator is \<open>quiet\<close> when
  \<open>random()\<close> never exceeds 0.9, so that no tick launches. \<open>life_bounded\<close> is the
  well-formedness of an entity together with a lifespan of at most 12 seconds, the
  longest any code path creates (burst particles live less than 12, launches at most 5).
  The lemmas show that every update phase ages each entity by \<open>dt\<close> and spawns only
  lower classes, hence that every class disappears once its members have expired, and
  that without launches the screen is empty after three such periods.
  \<open>particle_after k\<close> is a surviving particle after \<open>k\<close> ticks (the same object,
  updated in place), on which the spec's per-tick lifetime statement is proved.
\<close>

inductive phases :: "'s rng \<Rightarrow> real \<Rightarrow> vec2 \<Rightarrow> nat \<Rightarrow> entity list \<Rightarrow> entity list \<Rightarrow> bool"
  for g :: "'s rng" and dt :: real and acc :: vec2 where
  none: "phases g dt acc 0 es es"
| more: "update_phase g dt acc (w :: fireworks_window) es s = (Inr es1, s1) \<Longrightarrow>
         phases g dt acc n es1 es2 \<Longrightarrow> phases g dt acc (Suc n) es es2"

fun run_ticks :: "'s rng \<Rightarrow> real \<Rightarrow> nat \<Rightarrow> fireworks_window \<Rightarrow> ('s, fireworks_window) exec" where
  "run_ticks g dt 0 win = ret win"
| "run_ticks g dt (Suc n) win = bindE (tick g dt win) (run_ticks g dt n)"

definition quiet :: "'s rng \<Rightarrow> bool" where
  "quiet g \<longleftrightarrow> (\<forall>s. fst (rnd g s) \<le> 0.9)"

definition life_bounded :: "entity \<Rightarrow> bool" where
  "life_bounded e \<longleftrightarrow> entity_wf e \<and>
     (case lifespan (entity_particle e) of Some L \<Rightarrow> L \<le> 12 | None \<Rightarrow> False)"

text \<open>A particle that keeps surviving stays in \<open>window.particles\<close> as the same object, updated
  once per tick: its state after \<open>k\<close> ticks.\<close>

definition particle_after :: "nat \<Rightarrow> real \<Rightarrow> vec2 \<Rightarrow> 'w window_scheme \<Rightarrow> 'a particle_scheme \<Rightarrow> 'a particle_scheme" where
  "particle_after k dt acc w p = ((\<lambda>q. fst (particle_update dt acc w q)) ^^ k) p"

inductive_cases phases_SucE: "phases g dt acc (Suc n) es es2"
inductive_cases phases_0E: "phases g dt acc 0 es es2"

lemma survivor_timer:
  "snd (particle_update dt acc w p) \<noteq> [] \<Longrightarrow> lifespan p = Some L \<Longrightarrow> timer p + dt < L"
  by (simp add: particle_update_result survives_def particle_update_state split: if_splits)

lemma truncate_fields [simp]:
  "lifespan (particle.truncate f) = lifespan f" "timer (particle.truncate f) = timer f"
  by (simp_all add: particle.defs)

lemma entity_update_self:
  assumes "entity_update g dt acc w e s = (Inr xs, s')" and "x \<in> set xs"
  shows "rank x < rank e \<or>
         (rank x = rank e \<and> lifespan (entity_particle x) = lifespan (entity_particle e) \<and>
          timer (entity_particle x) = timer (entity_particle e) + dt \<and>
          (\<forall>L. lifespan (entity_particle e) = Some L \<longrightarrow> timer (entity_particle x) < L))"
proof (cases e)
  case (Particle p)
  with assms have "x \<in> Particle ` set (snd (particle_update dt acc w p))" by (auto simp: ret_apply)
  then have "x = Particle (fst (particle_update dt acc w p))" "snd (particle_update dt acc w p) \<noteq> []"
    by (auto simp: particle_update_result split: if_splits)
  with Particle survivor_timer show ?thesis by (auto simp: particle_update_state)
next
  case (Firework f)
  with assms(1) have u: "firework_update g dt acc w f s = (Inr xs, s')" by simp
  show ?thesis
  proof (cases "snd (particle_update dt acc w f) = []")
    case True
    with firework_update_shape [OF u] have "firework_detonate g
      ((fst (particle_update dt acc w f))\<lparr>last_spark := last_spark f + dt\<rparr>) s = (Inr xs, s')"
      by blast
    with assms(2) Firework show ?thesis by (fastforce dest!: firework_detonate_Inr)
  next
    case False
    then have "\<forall>L. lifespan f = Some L \<longrightarrow> timer f + dt < L" using survivor_timer by blast
    with firework_update_shape [OF u] False assms(2) Firework show ?thesis
      by (auto simp: particle_update_state)
  qed
next
  case (SuperFirework f)
  with assms(1) have u: "superfirework_update g dt acc w f s = (Inr xs, s')" by simp
  show ?thesis
  proof (cases "snd (particle_update dt acc w f) = []")
    case True
    with superfirework_update_shape [OF u] have "superfirework_detonate g
      ((fst (particle_update dt acc w f))\<lparr>last_spark := last_spark f + dt\<rparr>) s = (Inr xs, s')"
      by blast
    with assms(2) SuperFirework show ?thesis by (fastforce dest!: superfirework_detonate_Inr)
  next
    case False
    then have "\<forall>L. lifespan f = Some L \<longrightarrow> timer f + dt < L" using survivor_timer by blast
    with superfirework_update_shape [OF u] False assms(2) SuperFirework show ?thesis
      by (auto simp: particle_update_state)
  qed
qed

text \<open>One update phase ages every entity of the top class by \<open>dt\<close> and keeps only those
  still younger than their lifespan; everything else it produces is of a lower class.\<close>

lemma update_phase_rank_step:
  assumes "update_phase g dt acc w es s = (Inr es1, s1)"
    and "\<forall>e \<in> set es. rank e \<le> r \<and> (rank e = r \<longrightarrow>
           (\<exists>L. lifespan (entity_particle e) = Some L \<and> L \<le> timer (entity_particle e) + dt + T))"
  shows "\<forall>x \<in> set es1. rank x \<le> r \<and> (rank x = r \<longrightarrow>
           (\<exists>L. lifespan (entity_particle x) = Some L \<and> L \<le> timer (entity_particle x) + T \<and>
                timer (entity_particle x) < L))"
proof
  fix x assume "x \<in> set es1"
  with update_phase_Inr [OF assms(1)] obtain e xs s2 s3 where e: "e \<in> set es"
    and u: "entity_update g dt acc w e s2 = (Inr xs, s3)" and x: "x \<in> set xs"
    by blast
  from entity_update_self [OF u x] assms(2) e
  show "rank x \<le> r \<and> (rank x = r \<longrightarrow>
           (\<exists>L. lifespan (entity_particle x) = Some L \<and> L \<le> timer (entity_particle x) + T \<and>
                timer (entity_particle x) < L))"
    by fastforce
qed

text \<open>C23. Over \<open>n\<close> update phases, if every entity of the highest class present expires
  within those phases (its lifespan is at most its age plus \<open>n * dt\<close>), then none of
  that class is left: the entity itself dies of age and all it spawns is of a lower
  class.\<close>

theorem phases_rank_drop:
  assumes "phases g dt acc (Suc m) es es'"
    and "\<forall>e \<in> set es. rank e \<le> r \<and> (rank e = r \<longrightarrow>
           (\<exists>L. lifespan (entity_particle e) = Some L \<and> L \<le> timer (entity_particle e) + of_nat (Suc m) * dt))"
  shows "\<forall>e \<in> set es'. rank e < r"
  using assms
proof (induction m arbitrary: es)
  case 0
  from "0.prems"(1) obtain w :: fireworks_window and s es1 s1
    where u: "update_phase g dt acc w es s = (Inr es1, s1)" and p: "phases g dt acc 0 es1 es'"
    by (auto elim: phases_SucE)
  from p have "es' = es1" by (auto elim: phases_0E)
  moreover from "0.prems"(2) have "\<forall>e \<in> set es. rank e \<le> r \<and> (rank e = r \<longrightarrow>
      (\<exists>L. lifespan (entity_particle e) = Some L \<and> L \<le> timer (entity_particle e) + dt + 0))"
    by simp
  from update_phase_rank_step [OF u this] have "\<forall>x \<in> set es1. rank x < r"
    by fastforce
  ultimately show ?case by simp
next
  case (Suc m)
  from Suc.prems(1) obtain w :: fireworks_window and s es1 s1
    where u: "update_phase g dt acc w es s = (Inr es1, s1)" and p: "phases g dt acc (Suc m) es1 es'"
    by (auto elim: phases_SucE)
  from Suc.prems(2) have "\<forall>e \<in> set es. rank e \<le> r \<and> (rank e = r \<longrightarrow>
      (\<exists>L. lifespan (entity_particle e) = Some L \<and>
           L \<le> timer (entity_particle e) + dt + of_nat (Suc m) * dt))"
    by (simp add: algebra_simps)
  from update_phase_rank_step [OF u this]
  have "\<forall>x \<in> set es1. rank x \<le> r \<and> (rank x = r \<longrightarrow>
      (\<exists>L. lifespan (entity_particle x) = Some L \<and> L \<le> timer (entity_particle x) + of_nat (Suc m) * dt))"
    by fastforce
  from Suc.IH [OF p this] show ?case .
qed

lemma trail_spark_lifespan:
  assumes "rng_ok g" and "trail_spark g f s = (Inr sp, s')"
  shows "\<exists>u. lifespan sp = Some (u * 2) \<and> 0 \<le> u \<and> u < 1"
proof -
  from assms(2) obtain n c u s1 s2 where u: "random g s1 = (Inr u, s2)"
    and sp: "sp = new_particle (clone (position f)) (vmul (vneg n) 0.2) c (Some (u * 2))"
    by (auto simp: trail_spark_def liftE_apply ret_apply elim!: bindE_InrE)
  with random_range [OF assms(1) u] show ?thesis by (auto simp: new_particle_def)
qed

text \<open>What an update spawns (as opposed to the entity itself) lives less than 12 seconds:
  burst particles \<open>random() * 10 + 2\<close>, burst fireworks \<open>random() * 3 + 1\<close>, sparks
  \<open>random() * 2\<close>.\<close>

lemma entity_update_children:
  assumes "rng_ok g" and "entity_update g dt acc w e s = (Inr xs, s')" and "x \<in> set xs"
    and "rank x < rank e"
  shows "\<exists>L. lifespan (entity_particle x) = Some L \<and> L < 12"
proof (cases e)
  case (Particle p)
  with assms(4) show ?thesis by simp
next
  case (Firework f)
  with assms(2) have u: "firework_update g dt acc w f s = (Inr xs, s')" by simp
  from firework_update_shape [OF u] assms(3) show ?thesis
  proof (elim disjE conjE exE)
    assume "firework_detonate g ((fst (particle_update dt acc w f))\<lparr>last_spark := last_spark f + dt\<rparr>) s = (Inr xs, s')"
    from firework_detonate_Inr [OF this] assms(1,3) show ?thesis by fastforce
  next
    fix f' sp assume "xs = [Firework f', Particle sp]" "trail_spark g f' s = (Inr sp, s')"
    with trail_spark_lifespan [OF assms(1)] assms(3,4) Firework show ?thesis by fastforce
  next
    assume "xs = [Firework ((fst (particle_update dt acc w f))\<lparr>last_spark := last_spark f + dt\<rparr>)]"
    with assms(3,4) Firework show ?thesis by simp
  qed
next
  case (SuperFirework f)
  with assms(2) have u: "superfirework_update g dt acc w f s = (Inr xs, s')" by simp
  from superfirework_update_shape [OF u] assms(3) show ?thesis
  proof (elim disjE conjE exE)
    assume "superfirework_detonate g ((fst (particle_update dt acc w f))\<lparr>last_spark := last_spark f + dt\<rparr>) s = (Inr xs, s')"
    from superfirework_detonate_Inr [OF this] assms(1,3) show ?thesis by fastforce
  next
    fix f' sp assume "xs = [SuperFirework f', Particle sp]" "trail_spark g f' s = (Inr sp, s')"
    with trail_spark_lifespan [OF assms(1)] assms(3,4) SuperFirework show ?thesis by fastforce
  next
    assume "xs = [SuperFirework ((fst (particle_update dt acc w f))\<lparr>last_spark := last_spark f + dt\<rparr>)]"
    with assms(3,4) SuperFirework show ?thesis by simp
  qed
qed

lemma entity_update_bounded:
  assumes "rng_ok g" and "0 \<le> dt" and "life_bounded e"
    and "entity_update g dt acc w e s = (Inr xs, s')" and "x \<in> set xs"
  shows "life_bounded x"
proof -
  from assms(3) have wf: "entity_wf e" by (simp add: life_bounded_def)
  from entity_update_wf [OF assms(1,2) wf assms(4)] assms(5) have "entity_wf x" by blast
  moreover from entity_update_self [OF assms(4,5)] entity_update_children [OF assms(1,4,5)] assms(3)
  have "case lifespan (entity_particle x) of Some L \<Rightarrow> L \<le> 12 | None \<Rightarrow> False"
    by (fastforce simp: life_bounded_def split: option.splits)
  ultimately show ?thesis by (simp add: life_bounded_def)
qed

lemma update_phase_bounded:
  assumes "rng_ok g" and "0 \<le> dt" and "\<forall>e \<in> set es. life_bounded e"
    and "update_phase g dt acc w es s = (Inr es', s')"
  shows "\<forall>e \<in> set es'. life_bounded e"
  by (rule update_phase_preserves [OF assms(4,3)]) (use entity_update_bounded [OF assms(1,2)] in blast)

lemma phases_bounded:
  assumes "rng_ok g" and "0 \<le> dt" and "phases g dt acc n es es'" and "\<forall>e \<in> set es. life_bounded e"
  shows "\<forall>e \<in> set es'. life_bounded e"
  using assms(3,4)
  by (induction rule: phases.induct) (use update_phase_bounded [OF assms(1,2)] in blast)+

lemma phases_add:
  "phases g dt acc (a + b) es es' \<Longrightarrow> \<exists>es1. phases g dt acc a es es1 \<and> phases g dt acc b es1 es'"
proof (induction a arbitrary: es)
  case 0
  then show ?case by (auto intro: phases.none)
next
  case (Suc a)
  from Suc.prems obtain w :: fireworks_window and s es1 s1
    where u: "update_phase g dt acc w es s = (Inr es1, s1)" and p: "phases g dt acc (a + b) es1 es'"
    by (auto elim: phases_SucE)
  from Suc.IH [OF p] obtain es2 where "phases g dt acc a es1 es2" "phases g dt acc b es2 es'" by blast
  with u show ?case by (blast intro: phases.more)
qed

lemma rank_le_2: "rank e \<le> 2"
  by (cases e) simp_all

lemma bounded_expires:
  assumes "life_bounded e" and "12 \<le> T"
  shows "\<exists>L. lifespan (entity_particle e) = Some L \<and> L \<le> timer (entity_particle e) + T"
proof -
  from assms(1) have "0 \<le> timer (entity_particle e)"
    by (cases e) (auto simp: life_bounded_def particle_wf_def)
  with assms show ?thesis by (auto simp: life_bounded_def split: option.splits)
qed

text \<open>A phase run long enough for every entity of the top class to expire leaves only
  lower classes, and it keeps every entity bounded.\<close>

lemma phases_drop_level:
  assumes "rng_ok g" and "0 \<le> dt" and "12 \<le> of_nat (Suc m) * dt"
    and "phases g dt acc (Suc m) es es'" and "\<forall>e \<in> set es. life_bounded e \<and> rank e \<le> r"
  shows "\<forall>e \<in> set es'. life_bounded e \<and> rank e < r"
proof -
  from assms(5) bounded_expires [OF _ assms(3)]
  have "\<forall>e \<in> set es. rank e \<le> r \<and> (rank e = r \<longrightarrow>
           (\<exists>L. lifespan (entity_particle e) = Some L \<and> L \<le> timer (entity_particle e) + of_nat (Suc m) * dt))"
    by blast
  from phases_rank_drop [OF assms(4) this] phases_bounded [OF assms(1,2,4)] assms(5)
  show ?thesis by blast
qed

lemma tick_quiet:
  assumes "quiet g" and "tick g dt win s = (Inr win', s')"
  shows "\<exists>s1. update_phase g dt gravity (win\<lparr>win_dt := dt\<rparr>) (particles win) s = (Inr (particles win'), s1)"
proof -
  from assms(2) obtain ps s1 u s2 where
        m: "update_phase g dt gravity (win\<lparr>win_dt := dt\<rparr>) (particles win) s = (Inr ps, s1)"
    and u: "random g s1 = (Inr u, s2)"
    and r: "(if 0.9 < u then bindE (launch g) (\<lambda>e. ret (win\<lparr>win_dt := dt, particles := ps @ [e]\<rparr>))
             else ret (win\<lparr>win_dt := dt, particles := ps\<rparr>)) s2 = (Inr win', s')"
    by (auto simp: tick_def Let_def elim!: bindE_InrE)
  from u have "u = fst (rnd g s1)" by (auto simp: random_def split: prod.splits)
  with assms(1) have "u \<le> 0.9" by (simp add: quiet_def)
  with r have "particles win' = ps" by (auto simp: ret_apply)
  with m show ?thesis by blast
qed

lemma run_ticks_phases:
  "quiet g \<Longrightarrow> run_ticks g dt n win s = (Inr win', s') \<Longrightarrow>
   phases g dt gravity n (particles win) (particles win')"
proof (induction n arbitrary: win s)
  case 0
  then show ?case by (simp add: ret_apply phases.none)
next
  case (Suc n)
  from Suc.prems(2) obtain win1 s1 where t: "tick g dt win s = (Inr win1, s1)"
    and r: "run_ticks g dt n win1 s1 = (Inr win', s')"
    by (auto elim: bindE_InrE)
  from tick_quiet [OF Suc.prems(1) t] obtain s2 where
    "update_phase g dt gravity (win\<lparr>win_dt := dt\<rparr>) (particles win) s = (Inr (particles win1), s2)"
    by blast
  from phases.more [OF this Suc.IH [OF Suc.prems(1) r]] show ?case .
qed

text \<open>C22. Without launches (\<open>random()\<close> never above 0.9), starting from entities that
  are well formed and live at most 12 seconds, \<open>3 * k\<close> ticks with \<open>k * dt \<ge> 12\<close>
  leave the screen empty: super fireworks, then fireworks, then particles all expire.\<close>

theorem quiet_run_empties:
  assumes "rng_ok g" and "quiet g" and "0 \<le> dt" and "12 \<le> of_nat k * dt"
    and "\<forall>e \<in> set (particles win). life_bounded e"
    and "run_ticks g dt (3 * k) win s = (Inr win', s')"
  shows "particles win' = []"
proof -
  from assms(4) obtain m where k: "k = Suc m" by (cases k) auto
  from assms(4) k have T: "12 \<le> of_nat (Suc m) * dt" by simp
  from k have n: "3 * k = Suc m + (Suc m + Suc m)" by simp
  from run_ticks_phases [OF assms(2,6)]
  have "phases g dt gravity (Suc m + (Suc m + Suc m)) (particles win) (particles win')" by (simp only: n)
  then obtain es1 es2 where p1: "phases g dt gravity (Suc m) (particles win) es1"
    and p2: "phases g dt gravity (Suc m) es1 es2" and p3: "phases g dt gravity (Suc m) es2 (particles win')"
    by (blast dest: phases_add)
  from assms(5) rank_le_2 have "\<forall>e \<in> set (particles win). life_bounded e \<and> rank e \<le> 2" by blast
  from phases_drop_level [OF assms(1,3) T p1 this] have "\<forall>e \<in> set es1. life_bounded e \<and> rank e \<le> 1"
    by fastforce
  from phases_drop_level [OF assms(1,3) T p2 this] have "\<forall>e \<in> set es2. life_bounded e \<and> rank e \<le> 0"
    by fastforce
  from phases_drop_level [OF assms(1,3) T p3 this] show ?thesis by auto
qed

lemma launch_bounded:
  assumes "rng_ok g" and "launch g s = (Inr e, s')"
  shows "life_bounded e"
proof -
  from launch_Inr [OF assms] obtain fw L where
    e: "e = Firework fw \<or> e = SuperFirework fw" and "lifespan fw = Some (of_int L)" "L \<le> 5"
    by blast
  then have "case lifespan (entity_particle e) of Some L \<Rightarrow> L \<le> 12 | None \<Rightarrow> False"
    by auto
  with launch_wf [OF assms] show ?thesis by (simp add: life_bounded_def)
qed

text \<open>C24. In every reachable state every entity is well formed and has a lifespan of
  at most 12 seconds.\<close>

theorem reachable_life_bounded:
  assumes "rng_ok g" and "reachable g w0 st"
  shows "\<forall>e \<in> set (particles (fst st)). life_bounded e"
  using assms(2)
proof (induction rule: reachable.induct)
  case (init s win s')
  then obtain n s1 ps where ps: "replicateE (nat n) (launch g) s1 = (Inr ps, s')"
    and win: "win = \<lparr>width = width w0, height = height w0, particles = ps, win_dt = 1\<rparr>"
    by (auto simp: main_init_def ret_apply elim!: bindE_InrE)
  have "length ps = nat n \<and> (\<forall>e \<in> set ps. life_bounded e)"
    by (rule replicateE_Inr [OF ps]) (rule launch_bounded [OF assms(1)])
  with win show ?case by simp
next
  case (step win s dt win' s')
  from tick_Inr [OF step.hyps(3)] obtain ps s1 extra where
        m: "update_phase g dt gravity (win\<lparr>win_dt := dt\<rparr>) (particles win) s = (Inr ps, s1)"
    and p: "particles win' = ps @ extra"
    and x: "\<forall>e \<in> set extra. \<exists>s2 s3. launch g s2 = (Inr e, s3)"
    by blast
  from update_phase_bounded [OF assms(1) step.hyps(2) _ m] step.IH x launch_bounded [OF assms(1)] p
  show ?case by auto
next
  case (resize win s wd ht)
  then show ?case by simp
qed

lemma particle_after_0 [simp]: "particle_after 0 dt acc w p = p"
  by (simp add: particle_after_def)

lemma particle_after_Suc:
  "particle_after (Suc k) dt acc w p = fst (particle_update dt acc w (particle_after k dt acc w p))"
  by (simp add: particle_after_def)

lemma particle_after_age:
  "timer (particle_after k dt acc w p) = timer p + of_nat k * dt \<and>
   lifespan (particle_after k dt acc w p) = lifespan p"
  by (induction k) (simp_all add: particle_after_Suc particle_update_state algebra_simps)

text \<open>C29. Over consecutive ticks, a particle with lifespan \<open>L\<close> that stays in the viewport
  is returned by its \<open>(k+1)\<close>-th update exactly when its accumulated age
  \<open>timer + (k+1) * dt\<close> is still below \<open>L\<close>; it dies on the first tick where the age
  reaches \<open>L\<close>.\<close>

theorem particle_lifetime:
  assumes "lifespan p = Some L"
    and "on_screen w (position (particle_after (Suc k) dt acc w p))"
  shows "snd (particle_update dt acc w (particle_after k dt acc w p)) \<noteq> [] \<longleftrightarrow>
         timer p + of_nat (Suc k) * dt < L"
proof -
  have "timer (particle_after (Suc k) dt acc w p) = timer p + of_nat (Suc k) * dt"
    "lifespan (particle_after (Suc k) dt acc w p) = Some L"
    using particle_after_age [of "Suc k" dt acc w p] assms(1) by simp_all
  with assms(2) show ?thesis
    by (simp add: particle_update_survives_iff survives_def flip: particle_after_Suc)
qed

theorem particle_lifetime_witness:
  "lifespan (new_particle (Vec2 0 0.5) (Vec2 0 0) (1, 2, 3) (Some 3)) = Some 3 \<and>
   on_screen \<lparr>width = 640, height = 480\<rparr>
     (position (particle_after (Suc 1) 1 (Vec2 0 0) \<lparr>width = 640, height = 480\<rparr>
        (new_particle (Vec2 0 0.5) (Vec2 0 0) (1, 2, 3) (Some 3)))) \<and>
   snd (particle_update 1 (Vec2 0 0) \<lparr>width = 640, height = 480\<rparr>
     (particle_after 1 1 (Vec2 0 0) \<lparr>width = 640, height = 480\<rparr>
        (new_particle (Vec2 0 0.5) (Vec2 0 0) (1, 2, 3) (Some 3)))) \<noteq> [] \<and>
   \<not> snd (particle_update 1 (Vec2 0 0) \<lparr>width = 640, height = 480\<rparr>
     (particle_after 2 1 (Vec2 0 0) \<lparr>width = 640, height = 480\<rparr>
        (new_particle (Vec2 0 0.5) (Vec2 0 0) (1, 2, 3) (Some 3)))) \<noteq> []"
proof -
  let ?w = "\<lparr>width = 640, height = 480\<rparr>" and ?p = "new_particle (Vec2 0 0.5) (Vec2 0 0) (1, 2, 3) (Some 3)"
  have l: "lifespan ?p = Some 3" by (simp add: new_particle_def)
  have o: "\<And>k. on_screen ?w (position (particle_after k 1 (Vec2 0 0) ?w ?p))"
  proof -
    fix k
    have "position (particle_after k 1 (Vec2 0 0) ?w ?p) = Vec2 0 0.5 \<and>
          velocity (particle_after k 1 (Vec2 0 0) ?w ?p) = Vec2 0 0"
      by (induction k) (simp_all add: particle_after_Suc particle_update_state vec2_ops new_particle_def)
    then show "on_screen ?w (position (particle_after k 1 (Vec2 0 0) ?w ?p))"
      by (simp add: on_screen_def screen_space_def)
  qed
  have t: "timer ?p = 0" by (simp add: new_particle_def)
  from particle_lifetime [OF l o [of "Suc 1"]] particle_lifetime [OF l o [of "Suc 2"]] l o t
  show ?thesis by simp
qed

end
