(* ===== verification/Tick_Spec.thy ===== *)
theory Tick_Spec
  imports Simulation
begin

text \<open>
  An abstract specification of the simulation, written from \<open>spec.md\<close> (sections 4 to 6)
  rather than from the code, and the refinement theorems that the code implements it.
  \<open>euler\<close> and \<open>alive\<close> are the spec's update step and survival test (4.2);
  \<open>update_spec\<close> is the contract of one entity's \<open>update\<close>: a particle returns itself
  exactly while alive; a living firework returns itself, plus one backward spark of speed
  0.2 in flicker gold with lifespan in \<open>[0, 2)\<close> exactly when the spark timer exceeds
  \<open>0.125 * (|v| / 100)\<close> (\<open>survivor_ok\<close>, \<open>spark_ok\<close>); a dead firework returns a
  burst of 25..100 particles of one colour at its position, each with a velocity offset
  of magnitude in \<open>[0.05, 0.2)\<close> and lifespan in \<open>[2, 12)\<close> (\<open>burst_ok\<close>), and a
  dead super firework 5..10 fresh fireworks of one bright colour with lifespan in
  \<open>[1, 4)\<close> (\<open>super_burst_ok\<close>). \<open>spec_phase\<close> applies the contract to every entity
  and concatenates, \<open>spec_tick\<close> adds at most one launch satisfying \<open>launch_spec\<close>
  (section 6), and \<open>spec_reach\<close> is every list reachable from 5..20 launches by spec
  ticks with any window. The spec's half-open ranges for \<open>randint\<close> are replaced by the
  inclusive ranges of the code (see the findings); everything else is the spec's wording.
  \<open>spec_flicker\<close> is the spec's flicker formula \<open>min(255, floor(c * f))\<close>.
\<close>

definition euler :: "real \<Rightarrow> vec2 \<Rightarrow> 'a particle_scheme \<Rightarrow> 'a particle_scheme" where
  "euler dt acc p =
     (let v = vadd (velocity p) (vmul acc dt)
      in p\<lparr>timer := timer p + dt, velocity := v, position := vadd (position p) (vmul v dt)\<rparr>)"

definition alive :: "'w window_scheme \<Rightarrow> 'a particle_scheme \<Rightarrow> bool" where
  "alive w p \<longleftrightarrow>
     (case screen_space w (position p) of (x, y) \<Rightarrow> 0 \<le> x \<and> x \<le> of_int (width w) \<and> 0 \<le> y) \<and>
     (case lifespan p of None \<Rightarrow> True | Some L \<Rightarrow> timer p < L)"

definition offset_ok :: "vec2 \<Rightarrow> vec2 \<Rightarrow> bool" where
  "offset_ok v v' \<longleftrightarrow> 0.05 \<le> vlength (vsub v' v) \<and> vlength (vsub v' v) < 0.2"

definition burst_piece :: "'a particle_scheme \<Rightarrow> rgb \<Rightarrow> entity \<Rightarrow> bool" where
  "burst_piece f c e =
     (case e of
        Particle p \<Rightarrow> position p = position f \<and> offset_ok (velocity f) (velocity p) \<and>
          base_colour p = c \<and> timer p = 0 \<and>
          (case lifespan p of Some L \<Rightarrow> 2 \<le> L \<and> L < 12 | None \<Rightarrow> False)
      | _ \<Rightarrow> False)"

definition super_burst_piece :: "'a particle_scheme \<Rightarrow> rgb \<Rightarrow> entity \<Rightarrow> bool" where
  "super_burst_piece f c e =
     (case e of
        Firework fw \<Rightarrow> position fw = position f \<and> offset_ok (velocity f) (velocity fw) \<and>
          base_colour fw = c \<and> timer fw = 0 \<and> last_spark fw = 0 \<and>
          (case lifespan fw of Some L \<Rightarrow> 1 \<le> L \<and> L < 4 | None \<Rightarrow> False)
      | _ \<Rightarrow> False)"

definition burst_colour :: "entity list \<Rightarrow> rgb" where
  "burst_colour es = base_colour (entity_particle (hd es))"

definition burst_ok :: "'a particle_scheme \<Rightarrow> entity list \<Rightarrow> bool" where
  "burst_ok f es \<longleftrightarrow> 25 \<le> length es \<and> length es \<le> 100 \<and> rgb_ok (burst_colour es) \<and>
     list_all (burst_piece f (burst_colour es)) es"

definition super_burst_ok :: "'a particle_scheme \<Rightarrow> entity list \<Rightarrow> bool" where
  "super_burst_ok f es \<longleftrightarrow> 5 \<le> length es \<and> length es \<le> 10 \<and> rgb_ok (burst_colour es) \<and>
     (case burst_colour es of (r, g, b) \<Rightarrow> 100 \<le> r \<and> 100 \<le> g \<and> 100 \<le> b) \<and>
     list_all (super_burst_piece f (burst_colour es)) es"

definition gold_ok :: "rgb \<Rightarrow> bool" where
  "gold_ok c = (case c of (r, g, b) \<Rightarrow> 200 \<le> r \<and> r \<le> 255 \<and> 167 \<le> g \<and> g \<le> 250 \<and> 56 \<le> b \<and> b \<le> 83)"

definition spark_ok :: "'a particle_scheme \<Rightarrow> particle \<Rightarrow> bool" where
  "spark_ok f sp \<longleftrightarrow> position sp = position f \<and> velocity f \<noteq> Vec2 0 0 \<and>
     velocity sp = vmul (velocity f) (- 0.2 / vlength (velocity f)) \<and>
     gold_ok (base_colour sp) \<and> timer sp = 0 \<and>
     (case lifespan sp of Some L \<Rightarrow> 0 \<le> L \<and> L < 2 | None \<Rightarrow> False)"

definition survivor_ok :: "(firework \<Rightarrow> entity) \<Rightarrow> real \<Rightarrow> firework \<Rightarrow> entity list \<Rightarrow> bool" where
  "survivor_ok C t f1 es =
     (if 0.125 * (vlength (velocity f1) / 100) < t
      then (case es of [e, Particle sp] \<Rightarrow> e = C (f1\<lparr>last_spark := 0\<rparr>) \<and> spark_ok f1 sp | _ \<Rightarrow> False)
      else es = [C (f1\<lparr>last_spark := t\<rparr>)])"

fun update_spec :: "real \<Rightarrow> vec2 \<Rightarrow> 'w window_scheme \<Rightarrow> entity \<Rightarrow> entity list \<Rightarrow> bool" where
  "update_spec dt acc w (Particle p) es =
     (es = (if alive w (euler dt acc p) then [Particle (euler dt acc p)] else []))"
| "update_spec dt acc w (Firework f) es =
     (if alive w (euler dt acc f) then survivor_ok Firework (last_spark f + dt) (euler dt acc f) es
      else burst_ok (euler dt acc f) es)"
| "update_spec dt acc w (SuperFirework f) es =
     (if alive w (euler dt acc f) then survivor_ok SuperFirework (last_spark f + dt) (euler dt acc f) es
      else super_burst_ok (euler dt acc f) es)"

definition launch_ok :: "firework \<Rightarrow> bool" where
  "launch_ok f \<longleftrightarrow> -0.75 \<le> vx (position f) \<and> vx (position f) < 0.75 \<and> vy (position f) = 0 \<and>
     -0.05 \<le> vx (velocity f) \<and> vx (velocity f) < 0.05 \<and>
     0.25 \<le> vy (velocity f) \<and> vy (velocity f) < 0.5 \<and>
     base_colour f = (255, 255, 255) \<and> timer f = 0 \<and> last_spark f = 0 \<and>
     (case lifespan f of Some L \<Rightarrow> L \<in> {1, 2, 3, 4, 5} | None \<Rightarrow> False)"

fun launch_spec :: "entity \<Rightarrow> bool" where
  "launch_spec (Particle p) = False"
| "launch_spec (Firework f) = launch_ok f"
| "launch_spec (SuperFirework f) = launch_ok f"

inductive spec_phase :: "real \<Rightarrow> vec2 \<Rightarrow> 'w window_scheme \<Rightarrow> entity list \<Rightarrow> entity list \<Rightarrow> bool"
  for dt :: real and acc :: vec2 and w :: "'w window_scheme" where
  empty: "spec_phase dt acc w [] []"
| cons: "update_spec dt acc w e es \<Longrightarrow> spec_phase dt acc w rest rest' \<Longrightarrow>
         spec_phase dt acc w (e # rest) (es @ rest')"

inductive spec_tick :: "real \<Rightarrow> 'w window_scheme \<Rightarrow> entity list \<Rightarrow> entity list \<Rightarrow> bool"
  for dt :: real and w :: "'w window_scheme" where
  no_launch: "spec_phase dt gravity w es es' \<Longrightarrow> spec_tick dt w es es'"
| with_launch: "spec_phase dt gravity w es es' \<Longrightarrow> launch_spec e \<Longrightarrow> spec_tick dt w es (es' @ [e])"

inductive spec_reach :: "entity list \<Rightarrow> bool" where
  start: "5 \<le> length es \<Longrightarrow> length es \<le> 20 \<Longrightarrow> list_all launch_spec es \<Longrightarrow> spec_reach es"
| tick: "spec_reach es \<Longrightarrow> 0 \<le> dt \<Longrightarrow> spec_tick dt (w :: fireworks_window) es es' \<Longrightarrow> spec_reach es'"

definition spec_flicker :: "real \<Rightarrow> rgb" where
  "spec_flicker f = (min 255 \<lfloor>250 * f\<rfloor>, min 255 \<lfloor>209 * f\<rfloor>, min 255 \<lfloor>70 * f\<rfloor>)"

lemma particle_update_euler_eq: "fst (particle_update dt acc w p) = euler dt acc p"
  by (simp add: particle_update_state euler_def Let_def)

lemma survives_alive: "survives w p \<longleftrightarrow> alive w p"
  by (auto simp: survives_def alive_def on_screen_def split: prod.splits option.splits)

lemma vsub_vadd_cancel [simp]: "vsub (vadd v d) v = d"
  by (cases d) (simp add: vsub_components vadd_def)

lemma burst_offset_length:
  assumes "rng_ok g" and "burst_offset g s = (Inr d, s')"
  shows "0.05 \<le> vlength d \<and> vlength d < 0.2"
proof -
  from assms(2) obtain a b n m s1 s2 s3 where
    n: "normalised (Vec2 (a * 2 - 1) (b * 2 - 1)) = Inr n" and m: "random g s3 = (Inr m, s')"
    and d: "d = vmul n (m * 0.15 + 0.05)"
    by (auto simp: burst_offset_def liftE_apply ret_apply elim!: bindE_InrE)
  from random_range [OF assms(1) m] have "0 \<le> m" "m < 1" by auto
  moreover from normalised_Inr [OF n] have "vlength n = 1" by blast
  ultimately show ?thesis using d by (simp add: vlength_vmul)
qed

lemma burst_particle_piece:
  assumes "rng_ok g" and "burst_particle g f c s = (Inr e, s')"
  shows "burst_piece f c e"
proof -
  from assms(2) obtain d s1 u where d: "burst_offset g s = (Inr d, s1)" and u: "random g s1 = (Inr u, s')"
    and e: "e = Particle (new_particle (clone (position f)) (vadd (velocity f) d) c (Some (u * 10 + 2)))"
    by (auto simp: burst_particle_def ret_apply elim!: bindE_InrE)
  from burst_offset_length [OF assms(1) d] random_range [OF assms(1) u] e show ?thesis
    by (simp add: burst_piece_def offset_ok_def new_particle_def)
qed

lemma super_burst_firework_piece:
  assumes "rng_ok g" and "super_burst_firework g f c s = (Inr e, s')"
  shows "super_burst_piece f c e"
proof -
  from assms(2) obtain d s1 u where d: "burst_offset g s = (Inr d, s1)" and u: "random g s1 = (Inr u, s')"
    and e: "e = Firework (new_firework (clone (position f)) (vadd (velocity f) d) c (u * 3 + 1))"
    by (auto simp: super_burst_firework_def ret_apply elim!: bindE_InrE)
  from burst_offset_length [OF assms(1) d] random_range [OF assms(1) u] e show ?thesis
    by (simp add: super_burst_piece_def offset_ok_def new_firework_def)
qed

text \<open>The colour of a burst is the colour of its first piece, which all pieces share.\<close>

lemma burst_colour_shared:
  assumes "es \<noteq> []" and "\<forall>e \<in> set es. base_colour (entity_particle e) = c"
  shows "burst_colour es = c"
  using assms by (simp add: burst_colour_def)

lemma burst_piece_colour: "burst_piece f c e \<Longrightarrow> base_colour (entity_particle e) = c"
  by (cases e) (simp_all add: burst_piece_def)

lemma super_burst_piece_colour: "super_burst_piece f c e \<Longrightarrow> base_colour (entity_particle e) = c"
  by (cases e) (simp_all add: super_burst_piece_def particle.defs)

lemma firework_detonate_spec:
  assumes "rng_ok g" and "firework_detonate g f s = (Inr es, s')"
  shows "burst_ok f es"
proof -
  from assms(2) obtain r gr b n s1 s2 s3 s4 where
        r: "randint g 0 255 s = (Inr r, s1)" and gr: "randint g 0 255 s1 = (Inr gr, s2)"
    and b: "randint g 0 255 s2 = (Inr b, s3)" and n: "randint g 25 100 s3 = (Inr n, s4)"
    and es: "replicateE (nat n) (burst_particle g f (r, gr, b)) s4 = (Inr es, s')"
    by (auto simp: firework_detonate_def elim!: bindE_InrE)
  have all: "length es = nat n \<and> (\<forall>e \<in> set es. burst_piece f (r, gr, b) e)"
    by (rule replicateE_Inr [OF es]) (rule burst_particle_piece [OF assms(1)])
  from randint_range [OF assms(1) n] all have len: "25 \<le> length es" "length es \<le> 100" by auto
  from all burst_piece_colour have "\<forall>e \<in> set es. base_colour (entity_particle e) = (r, gr, b)"
    by blast
  with len have c: "burst_colour es = (r, gr, b)" by (intro burst_colour_shared) auto
  from randint_range [OF assms(1) r] randint_range [OF assms(1) gr] randint_range [OF assms(1) b]
  have "rgb_ok (r, gr, b)" by (simp add: rgb_ok_def channel_ok_def)
  with len all c show ?thesis by (simp add: burst_ok_def list_all_iff)
qed

lemma superfirework_detonate_spec:
  assumes "rng_ok g" and "superfirework_detonate g f s = (Inr es, s')"
  shows "super_burst_ok f es"
proof -
  from assms(2) obtain r gr b n s1 s2 s3 s4 where
        r: "randint g 100 255 s = (Inr r, s1)" and gr: "randint g 100 255 s1 = (Inr gr, s2)"
    and b: "randint g 100 255 s2 = (Inr b, s3)" and n: "randint g 5 10 s3 = (Inr n, s4)"
    and es: "replicateE (nat n) (super_burst_firework g f (r, gr, b)) s4 = (Inr es, s')"
    by (auto simp: superfirework_detonate_def elim!: bindE_InrE)
  have all: "length es = nat n \<and> (\<forall>e \<in> set es. super_burst_piece f (r, gr, b) e)"
    by (rule replicateE_Inr [OF es]) (rule super_burst_firework_piece [OF assms(1)])
  from randint_range [OF assms(1) n] all have len: "5 \<le> length es" "length es \<le> 10" by auto
  from all super_burst_piece_colour have "\<forall>e \<in> set es. base_colour (entity_particle e) = (r, gr, b)"
    by blast
  with len have c: "burst_colour es = (r, gr, b)" by (intro burst_colour_shared) auto
  from randint_range [OF assms(1) r] randint_range [OF assms(1) gr] randint_range [OF assms(1) b]
  have "rgb_ok (r, gr, b)" "100 \<le> r" "100 \<le> gr" "100 \<le> b" by (simp_all add: rgb_ok_def channel_ok_def)
  with len all c show ?thesis by (simp add: super_burst_ok_def list_all_iff)
qed

lemma trail_spark_spec:
  assumes "rng_ok g" and "trail_spark g f s = (Inr sp, s')"
  shows "spark_ok f sp"
proof -
  from assms(2) obtain n c u s1 where n: "normalised (velocity f) = Inr n"
    and c: "flicker_colour g s = (Inr c, s1)" and u: "random g s1 = (Inr u, s')"
    and sp: "sp = new_particle (clone (position f)) (vmul (vneg n) 0.2) c (Some (u * 2))"
    by (auto simp: trail_spark_def liftE_apply ret_apply elim!: bindE_InrE)
  from normalised_Inr [OF n] have v: "velocity f \<noteq> Vec2 0 0" "n = vmul (velocity f) (1 / vlength (velocity f))"
    by auto
  have "vmul (vneg n) 0.2 = vmul (velocity f) (- 0.2 / vlength (velocity f))"
    using v(2) by (simp add: vec2_ops)
  moreover have "gold_ok c"
  proof -
    from flicker_colour_Inr [OF assms(1) c]
    have "200 \<le> fst c \<and> fst c \<le> 255 \<and> 167 \<le> fst (snd c) \<and> fst (snd c) \<le> 250 \<and>
          56 \<le> snd (snd c) \<and> snd (snd c) \<le> 83"
      by (auto simp: le_floor_iff floor_le_iff)
    then show ?thesis by (cases c) (simp add: gold_ok_def)
  qed
  moreover from random_range [OF assms(1) u] have "0 \<le> u" "u < 1" by auto
  ultimately show ?thesis using sp v(1) by (simp add: spark_ok_def new_particle_def)
qed

lemma spec_last_spark_irrelevant [simp]:
  "burst_piece (f\<lparr>last_spark := x\<rparr>) = burst_piece f"
  "super_burst_piece (f\<lparr>last_spark := x\<rparr>) = super_burst_piece f"
  "spark_ok (f\<lparr>last_spark := x\<rparr>) = spark_ok f"
  by (simp_all add: burst_piece_def super_burst_piece_def offset_ok_def spark_ok_def fun_eq_iff
      split: entity.splits)

lemma spec_burst_last_spark [simp]:
  "burst_ok (f\<lparr>last_spark := x\<rparr>) es = burst_ok f es"
  "super_burst_ok (f\<lparr>last_spark := x\<rparr>) es = super_burst_ok f es"
  by (simp_all add: burst_ok_def super_burst_ok_def)

text \<open>The surviving branch, for either class: one spark exactly when it is due.\<close>

lemma survivor_spec:
  assumes "rng_ok g"
    and "(\<exists>f' sp. es = [C f', Particle sp] \<and> f' = f1\<lparr>last_spark := 0\<rparr> \<and>
            spark_due t f' \<and> trail_spark g f' s = (Inr sp, s')) \<or>
         (es = [C (f1\<lparr>last_spark := t\<rparr>)] \<and> \<not> spark_due t f1)"
  shows "survivor_ok C t f1 es"
  using assms(2)
proof (elim disjE exE conjE)
  fix f' sp
  assume es: "es = [C f', Particle sp]" and f': "f' = f1\<lparr>last_spark := 0\<rparr>"
    and due: "spark_due t f'" and sp: "trail_spark g f' s = (Inr sp, s')"
  from trail_spark_spec [OF assms(1) sp] f' have "spark_ok f1 sp" by simp
  with es f' due show ?thesis by (simp add: survivor_ok_def spark_due_def)
next
  assume "es = [C (f1\<lparr>last_spark := t\<rparr>)]" and "\<not> spark_due t f1"
  then show ?thesis by (simp add: survivor_ok_def spark_due_def)
qed

lemma alive_update:
  "snd (particle_update dt acc w p) \<noteq> [] \<longleftrightarrow> alive w (euler dt acc p)"
  by (simp add: particle_update_survives_iff survives_alive particle_update_euler_eq)

lemma particle_update_spec:
  "update_spec dt acc w (Particle p) (map Particle (snd (particle_update dt acc w p)))"
proof -
  have "snd (particle_update dt acc w p) =
        (if alive w (euler dt acc p) then [euler dt acc p] else [])"
    using particle_update_result [of dt acc w p] by (simp only: survives_alive particle_update_euler_eq)
  then show ?thesis by simp
qed

lemma firework_update_spec:
  assumes "rng_ok g" and "firework_update g dt acc w f s = (Inr es, s')"
  shows "update_spec dt acc w (Firework f) es"
proof (cases "alive w (euler dt acc f)")
  case False
  then have "snd (particle_update dt acc w f) = []" using alive_update by blast
  with firework_update_shape [OF assms(2)] have "firework_detonate g
      ((fst (particle_update dt acc w f))\<lparr>last_spark := last_spark f + dt\<rparr>) s = (Inr es, s')"
    by blast
  from firework_detonate_spec [OF assms(1) this] have "burst_ok (euler dt acc f) es"
    by (simp add: particle_update_euler_eq)
  with False show ?thesis by simp
next
  case True
  then have "snd (particle_update dt acc w f) \<noteq> []" using alive_update by blast
  with firework_update_shape [OF assms(2)]
  have "(\<exists>f' sp. es = [Firework f', Particle sp] \<and>
              f' = (fst (particle_update dt acc w f))\<lparr>last_spark := 0\<rparr> \<and>
              spark_due (last_spark f + dt) f' \<and> trail_spark g f' s = (Inr sp, s')) \<or>
           (es = [Firework ((fst (particle_update dt acc w f))\<lparr>last_spark := last_spark f + dt\<rparr>)] \<and>
            \<not> spark_due (last_spark f + dt) (fst (particle_update dt acc w f)))"
    by blast
  from survivor_spec [OF assms(1) this] True show ?thesis by (simp add: particle_update_euler_eq)
qed

lemma superfirework_update_spec:
  assumes "rng_ok g" and "superfirework_update g dt acc w f s = (Inr es, s')"
  shows "update_spec dt acc w (SuperFirework f) es"
proof (cases "alive w (euler dt acc f)")
  case False
  then have "snd (particle_update dt acc w f) = []" using alive_update by blast
  with superfirework_update_shape [OF assms(2)] have "superfirework_detonate g
      ((fst (particle_update dt acc w f))\<lparr>last_spark := last_spark f + dt\<rparr>) s = (Inr es, s')"
    by blast
  from superfirework_detonate_spec [OF assms(1) this] have "super_burst_ok (euler dt acc f) es"
    by (simp add: particle_update_euler_eq)
  with False show ?thesis by simp
next
  case True
  then have "snd (particle_update dt acc w f) \<noteq> []" using alive_update by blast
  with superfirework_update_shape [OF assms(2)]
  have "(\<exists>f' sp. es = [SuperFirework f', Particle sp] \<and>
              f' = (fst (particle_update dt acc w f))\<lparr>last_spark := 0\<rparr> \<and>
              spark_due (last_spark f + dt) f' \<and> trail_spark g f' s = (Inr sp, s')) \<or>
           (es = [SuperFirework ((fst (particle_update dt acc w f))\<lparr>last_spark := last_spark f + dt\<rparr>)] \<and>
            \<not> spark_due (last_spark f + dt) (fst (particle_update dt acc w f)))"
    by blast
  from survivor_spec [OF assms(1) this] True show ?thesis by (simp add: particle_update_euler_eq)
qed

lemma entity_update_spec:
  assumes "rng_ok g" and "entity_update g dt acc w e s = (Inr es, s')"
  shows "update_spec dt acc w e es"
proof (cases e)
  case (Particle p)
  with assms(2) have "es = map Particle (snd (particle_update dt acc w p))" by (simp add: ret_apply)
  with Particle particle_update_spec [of dt acc w p] show ?thesis by simp
next
  case (Firework f)
  with assms(2) have "firework_update g dt acc w f s = (Inr es, s')" by simp
  from firework_update_spec [OF assms(1) this] Firework show ?thesis by simp
next
  case (SuperFirework f)
  with assms(2) have "superfirework_update g dt acc w f s = (Inr es, s')" by simp
  from superfirework_update_spec [OF assms(1) this] SuperFirework show ?thesis by simp
qed

lemma update_phase_spec:
  assumes "rng_ok g" and "update_phase g dt acc w es s = (Inr es', s')"
  shows "spec_phase dt acc w es es'"
proof -
  have "mapE (entity_update g dt acc w) es t = (Inr pss, t') \<Longrightarrow> spec_phase dt acc w es (concat pss)"
    for pss t t'
  proof (induction es arbitrary: t pss)
    case Nil
    then show ?case by (simp add: ret_apply spec_phase.empty)
  next
    case (Cons e es)
    from Cons.prems obtain xs s1 zs where x: "entity_update g dt acc w e t = (Inr xs, s1)"
      and z: "mapE (entity_update g dt acc w) es s1 = (Inr zs, t')" and pss: "pss = xs # zs"
      by (auto simp: ret_apply elim!: bindE_InrE)
    from spec_phase.cons [OF entity_update_spec [OF assms(1) x] Cons.IH [OF z]] pss show ?case by simp
  qed
  with assms(2) show ?thesis by (auto simp: update_phase_def flatten_def ret_apply elim!: bindE_InrE)
qed

lemma launch_spec_ok:
  assumes "rng_ok g" and "launch g s = (Inr e, s')"
  shows "launch_spec e"
proof -
  from launch_Inr [OF assms] obtain fw L where
    e: "e = Firework fw \<or> e = SuperFirework fw" and L: "lifespan fw = Some (of_int L)" "1 \<le> L" "L \<le> 5"
    and rest: "timer fw = 0" "last_spark fw = 0" "base_colour fw = (255, 255, 255)"
      "-0.75 \<le> vx (position fw)" "vx (position fw) < 0.75" "vy (position fw) = 0"
      "-0.05 \<le> vx (velocity fw)" "vx (velocity fw) < 0.05"
      "0.25 \<le> vy (velocity fw)" "vy (velocity fw) < 0.5"
    by blast
  from L(2,3) have "L \<in> {1, 2, 3, 4, 5}" by auto
  then have "(of_int L :: real) \<in> {1, 2, 3, 4, 5}" by auto
  with e L(1) rest show ?thesis by (auto simp: launch_ok_def)
qed

lemma tick_spec_step:
  assumes "rng_ok g" and "tick g dt win s = (Inr win', s')"
  shows "spec_tick dt (win\<lparr>win_dt := dt\<rparr>) (particles win) (particles win')"
proof -
  from tick_Inr [OF assms(2)] obtain ps s1 extra where
        m: "update_phase g dt gravity (win\<lparr>win_dt := dt\<rparr>) (particles win) s = (Inr ps, s1)"
    and p: "particles win' = ps @ extra" and x1: "length extra \<le> 1"
    and x: "\<forall>e \<in> set extra. \<exists>s2 s3. launch g s2 = (Inr e, s3)"
    by blast
  have ph: "spec_phase dt gravity (win\<lparr>win_dt := dt\<rparr>) (particles win) ps"
    by (rule update_phase_spec [OF assms(1) m])
  show ?thesis
  proof (cases extra)
    case Nil
    with ph p show ?thesis by (simp add: spec_tick.no_launch)
  next
    case (Cons e rest)
    with x1 have "extra = [e]" by simp
    with x launch_spec_ok [OF assms(1)] have "launch_spec e" by auto
    from spec_tick.with_launch [OF ph this] p \<open>extra = [e]\<close> show ?thesis by simp
  qed
qed

lemma main_init_spec:
  assumes "rng_ok g" and "main_init g w0 s = (Inr win, s')"
  shows "spec_reach (particles win)"
proof -
  from assms(2) obtain n s1 ps where ps: "replicateE (nat n) (launch g) s1 = (Inr ps, s')"
    and win: "win = \<lparr>width = width w0, height = height w0, particles = ps, win_dt = 1\<rparr>"
    by (auto simp: main_init_def ret_apply elim!: bindE_InrE)
  have "length ps = nat n \<and> (\<forall>e \<in> set ps. launch_spec e)"
    by (rule replicateE_Inr [OF ps]) (rule launch_spec_ok [OF assms(1)])
  with main_init_Inr [OF assms] win show ?thesis
    by (intro spec_reach.start) (auto simp: list_all_iff)
qed

text \<open>C25. The program refines its specification: the entity list of every reachable state
  of the code is reachable in the specification (5 to 20 launches, then spec ticks),
  whatever the window sizes along the way.\<close>

theorem reachable_refines:
  assumes "rng_ok g" and "reachable g w0 st"
  shows "spec_reach (particles (fst st))"
  using assms(2)
proof (induction rule: reachable.induct)
  case (init s win s')
  from main_init_spec [OF assms(1) init] show ?case by simp
next
  case (step win s dt win' s')
  from step.IH have "spec_reach (particles win)" by simp
  from spec_reach.tick [OF this step.hyps(2) tick_spec_step [OF assms(1) step.hyps(3)]]
  show ?case by simp
next
  case (resize win s wd ht)
  then show ?case by simp
qed

text \<open>C26. One tick of the code is one step of the specification's tick on the window it
  updates, keeps the window size and records \<open>dt\<close>.\<close>

theorem tick_refines:
  assumes "rng_ok g" and "tick g dt win s = (Inr win', s')"
  shows "spec_tick dt (win\<lparr>win_dt := dt\<rparr>) (particles win) (particles win') \<and>
         width win' = width win \<and> height win' = height win \<and> win_dt win' = dt"
  using tick_spec_step [OF assms] tick_Inr [OF assms(2)] by blast

lemma py_int_min_255:
  fixes x :: real
  assumes "0 \<le> x"
  shows "py_int (min 255 x) = min 255 \<lfloor>x\<rfloor>"
proof (cases "x \<le> 255")
  case True
  then have "\<lfloor>x\<rfloor> \<le> 255" by linarith
  with True assms show ?thesis by simp
next
  case False
  then have "255 \<le> \<lfloor>x\<rfloor>" by linarith
  with False show ?thesis by simp
qed

text \<open>C27. The flicker colour the code computes, \<open>int(min(255, r * f))\<close> per channel, is
  the spec's \<open>min(255, floor(r * f))\<close> with \<open>f = random() * 0.4 + 0.8\<close>: the two
  formulas agree on every draw of a generator that meets the contract.\<close>

theorem flicker_spec_equiv:
  assumes "rng_ok g"
  shows "flicker_colour g = bindE (random g) (\<lambda>u. ret (spec_flicker (u * 0.4 + 0.8)))"
proof
  fix s
  obtain u s1 where r: "rnd g s = (u, s1)" by fastforce
  with assms have "0 \<le> u" by (auto simp: rng_ok_def) (metis fst_conv)
  then have "0 \<le> 250 * (u * 0.4 + 0.8)" "0 \<le> 209 * (u * 0.4 + 0.8)" "0 \<le> 70 * (u * 0.4 + 0.8)"
    by simp_all
  with r show "flicker_colour g s = bindE (random g) (\<lambda>u. ret (spec_flicker (u * 0.4 + 0.8))) s"
    by (simp add: flicker_colour_def random_def bindE_apply ret_apply Let_def spec_flicker_def
        py_int_min_255 del: py_int_nonneg)
qed

end
