(* ===== verification/Cadence.thy ===== *)
theory Cadence
  imports Firework
begin

text \<open>
  The spark cadence of a firework over consecutive ticks. While a firework lives, the
  state \<open>self\<close> is left in by \<open>Firework.update\<close> (lines 115--123) does not depend on the
  random draws: \<open>firework_self\<close> is that state (\<open>firework_self_code\<close> shows it is the
  first element \<open>firework_update\<close> returns, and that a spark is appended exactly when
  it is due), \<open>firework_after k\<close> the state after \<open>k\<close> ticks, and \<open>sparks_at k\<close>
  whether the \<open>(k+1)\<close>-th tick emits a spark. The theorem is the spec's cadence
  property: consecutive sparks are more than \<open>0.125 * (|v| / 100)\<close> simulated seconds
  apart, \<open>v\<close> being the velocity at the later spark.
\<close>

definition firework_self :: "real \<Rightarrow> vec2 \<Rightarrow> 'w window_scheme \<Rightarrow> firework \<Rightarrow> firework" where
  "firework_self dt acc w f =
     (let f1 = fst (particle_update dt acc w f); t = last_spark f + dt
      in if spark_due t f1 then f1\<lparr>last_spark := 0\<rparr> else f1\<lparr>last_spark := t\<rparr>)"

definition firework_after :: "nat \<Rightarrow> real \<Rightarrow> vec2 \<Rightarrow> 'w window_scheme \<Rightarrow> firework \<Rightarrow> firework" where
  "firework_after k dt acc w f = (firework_self dt acc w ^^ k) f"

definition sparks_at :: "nat \<Rightarrow> real \<Rightarrow> vec2 \<Rightarrow> 'w window_scheme \<Rightarrow> firework \<Rightarrow> bool" where
  "sparks_at k dt acc w f \<longleftrightarrow>
     spark_due (last_spark (firework_after k dt acc w f) + dt)
       (fst (particle_update dt acc w (firework_after k dt acc w f)))"

lemma firework_self_code:
  assumes "firework_update g dt acc w f s = (Inr es, s')" and "snd (particle_update dt acc w f) \<noteq> []"
  shows "hd es = Firework (firework_self dt acc w f) \<and>
         (length es = 2 \<longleftrightarrow> spark_due (last_spark f + dt) (fst (particle_update dt acc w f)))"
proof -
  let ?f1 = "fst (particle_update dt acc w f)" and ?t = "last_spark f + dt"
  from firework_update_shape [OF assms(1)] assms(2)
  have "(\<exists>f' sp. es = [Firework f', Particle sp] \<and> f' = ?f1\<lparr>last_spark := 0\<rparr> \<and>
            spark_due ?t f' \<and> trail_spark g f' s = (Inr sp, s')) \<or>
        (es = [Firework (?f1\<lparr>last_spark := ?t\<rparr>)] \<and> \<not> spark_due ?t ?f1)"
    by blast
  then show ?thesis
  proof (elim disjE exE conjE)
    fix f' sp assume "es = [Firework f', Particle sp]" "f' = ?f1\<lparr>last_spark := 0\<rparr>" "spark_due ?t f'"
    then show ?thesis by (simp add: firework_self_def Let_def)
  next
    assume "es = [Firework (?f1\<lparr>last_spark := ?t\<rparr>)]" "\<not> spark_due ?t ?f1"
    then show ?thesis by (simp add: firework_self_def Let_def)
  qed
qed

lemma firework_after_Suc:
  "firework_after (Suc k) dt acc w f = firework_self dt acc w (firework_after k dt acc w f)"
  by (simp add: firework_after_def)

lemma last_spark_after_spark:
  "sparks_at k dt acc w f \<Longrightarrow> last_spark (firework_after (Suc k) dt acc w f) = 0"
  by (simp add: sparks_at_def firework_after_Suc firework_self_def Let_def)

lemma last_spark_after_quiet:
  "\<not> sparks_at k dt acc w f \<Longrightarrow>
   last_spark (firework_after (Suc k) dt acc w f) = last_spark (firework_after k dt acc w f) + dt"
  by (simp add: sparks_at_def firework_after_Suc firework_self_def Let_def)

text \<open>After a spark at tick \<open>i\<close> and none since, the spark timer is the time elapsed.\<close>

lemma last_spark_since:
  assumes "sparks_at i dt acc w f" and "\<forall>m. i < m \<and> m < i + Suc d \<longrightarrow> \<not> sparks_at m dt acc w f"
  shows "last_spark (firework_after (i + Suc d) dt acc w f) = of_nat d * dt"
  using assms(2)
proof (induction d)
  case 0
  from last_spark_after_spark [OF assms(1)] show ?case by simp
next
  case (Suc d)
  have "\<forall>m. i < m \<and> m < i + Suc d \<longrightarrow> \<not> sparks_at m dt acc w f"
    using Suc.prems by auto
  then have IH: "last_spark (firework_after (i + Suc d) dt acc w f) = of_nat d * dt" by (rule Suc.IH)
  from Suc.prems have "\<not> sparks_at (i + Suc d) dt acc w f" by auto
  from last_spark_after_quiet [OF this] IH show ?case by (simp add: algebra_simps)
qed

text \<open>C30. Two consecutive trail sparks of a living firework, at ticks \<open>i < j\<close>, are more
  than \<open>0.125 * (|v| / 100)\<close> simulated seconds apart (\<open>(j - i) * dt\<close>), where \<open>v\<close>
  is the velocity at the tick of the later spark.\<close>

theorem spark_cadence_gap:
  assumes "i < j" and "sparks_at i dt acc w f" and "sparks_at j dt acc w f"
    and "\<forall>m. i < m \<and> m < j \<longrightarrow> \<not> sparks_at m dt acc w f"
  shows "0.125 * (vlength (velocity (fst (particle_update dt acc w (firework_after j dt acc w f)))) / 100)
         < of_nat (j - i) * dt"
proof -
  define d where "d = j - i - 1"
  with assms(1) have j: "j = i + Suc d" by simp
  from assms(4) have "\<forall>m. i < m \<and> m < i + Suc d \<longrightarrow> \<not> sparks_at m dt acc w f"
    by (simp only: j)
  from last_spark_since [OF assms(2) this] j
  have last: "last_spark (firework_after j dt acc w f) = of_nat d * dt" by (simp only:)
  from assms(3) have
    "0.125 * (vlength (velocity (fst (particle_update dt acc w (firework_after j dt acc w f)))) / 100)
       < last_spark (firework_after j dt acc w f) + dt"
    by (simp only: sparks_at_def spark_due_def)
  moreover from j have "of_nat (j - i) * dt = of_nat d * dt + dt" by (simp add: algebra_simps)
  ultimately show ?thesis using last by linarith
qed

theorem spark_cadence_gap_witness:
  "(0::nat) < 1 \<and> sparks_at 0 1 (Vec2 0 (-0.1)) \<lparr>width = 640, height = 480\<rparr>
     (new_firework (Vec2 0 0) (Vec2 0 1.1) (255, 255, 255) 5) \<and>
   sparks_at 1 1 (Vec2 0 (-0.1)) \<lparr>width = 640, height = 480\<rparr>
     (new_firework (Vec2 0 0) (Vec2 0 1.1) (255, 255, 255) 5) \<and>
   0.125 * (vlength (velocity (fst (particle_update 1 (Vec2 0 (-0.1)) \<lparr>width = 640, height = 480\<rparr>
      (firework_after 1 1 (Vec2 0 (-0.1)) \<lparr>width = 640, height = 480\<rparr>
         (new_firework (Vec2 0 0) (Vec2 0 1.1) (255, 255, 255) 5))))) / 100) < of_nat (1 - 0) * (1::real)"
proof -
  let ?w = "\<lparr>width = 640, height = 480\<rparr>" and ?f = "new_firework (Vec2 0 0) (Vec2 0 1.1) (255, 255, 255) 5"
  have s0: "sparks_at 0 1 (Vec2 0 (-0.1)) ?w ?f"
    by (simp add: sparks_at_def firework_after_def spark_due_def particle_update_state new_firework_def vec2_ops)
  have s1: "sparks_at 1 1 (Vec2 0 (-0.1)) ?w ?f"
    by (simp add: sparks_at_def firework_after_def firework_self_def Let_def spark_due_def
        particle_update_state new_firework_def vec2_ops)
  have none: "\<forall>m. 0 < m \<and> m < (1::nat) \<longrightarrow> \<not> sparks_at m 1 (Vec2 0 (-0.1)) ?w ?f" by simp
  from spark_cadence_gap [OF _ s0 s1 none] s0 s1 none show ?thesis by simp
qed

end
