(* ===== verification/Errors.thy ===== *)
theory Errors
  imports Simulation
begin

text \<open>
  Which exceptions the program can raise. The spec (section 7) names two error
  classes: an operand of the wrong type in vector arithmetic, which HOL typing rules
  out here, and division by zero. \<open>raises_only e m\<close> (theory \<open>Fw_Prelude\<close>) says that
  \<open>m\<close> raises nothing but \<open>e\<close>; its introduction rules follow the structure of the
  code, so that each operation's lemma is one application of them. The results: a tick
  raises only \<open>ZeroDivisionError\<close> (from \<open>normalised()\<close> in a spark or a burst),
  \<open>main()\<close> never raises (its \<open>randint\<close> ranges are non-empty and \<open>firework_set\<close>
  is not empty), and \<open>on_draw\<close> raises exactly when a plain particle of lifespan 0 is
  on screen.
\<close>

lemma raises_only_random [raises_only_intros]: "raises_only e (random g)"
  by (simp add: raises_only_def)

lemma raises_only_randint [raises_only_intros]: "a \<le> b \<Longrightarrow> raises_only e (randint g a b)"
  by (simp add: raises_only_def randint_never_raises)

lemma raises_only_choice: "xs \<noteq> [] \<Longrightarrow> raises_only e (choice g xs)"
  by (simp add: raises_only_def choice_never_raises)

lemma raises_only_normalised [raises_only_intros]:
  "raises_only ZeroDivisionError (liftE (normalised v))"
  by (rule raises_only_liftE) (simp add: normalised_def vdiv_def split: if_splits)

lemma flicker_colour_raises_only: "raises_only e (flicker_colour g)"
  unfolding flicker_colour_def Let_def by (intro raises_only_intros)

lemma trail_spark_raises_only: "raises_only ZeroDivisionError (trail_spark g f)"
  unfolding trail_spark_def by (intro raises_only_intros flicker_colour_raises_only)

lemma burst_offset_raises_only: "raises_only ZeroDivisionError (burst_offset g)"
  unfolding burst_offset_def by (intro raises_only_intros)

lemma firework_detonate_raises_only: "raises_only ZeroDivisionError (firework_detonate g f)"
  unfolding firework_detonate_def burst_particle_def
  by (intro raises_only_intros burst_offset_raises_only) simp_all

lemma superfirework_detonate_raises_only: "raises_only ZeroDivisionError (superfirework_detonate g f)"
  unfolding superfirework_detonate_def super_burst_firework_def
  by (intro raises_only_intros burst_offset_raises_only) simp_all

lemma firework_update_raises_only: "raises_only ZeroDivisionError (firework_update g dt acc w f)"
proof -
  obtain f1 ps where pu: "particle_update dt acc w f = (f1, ps)" by fastforce
  show ?thesis
    unfolding firework_update_def pu Let_def prod.case
    by (intro raises_only_intros firework_detonate_raises_only trail_spark_raises_only)
qed

lemma superfirework_update_raises_only: "raises_only ZeroDivisionError (superfirework_update g dt acc w f)"
proof -
  obtain f1 ps where pu: "particle_update dt acc w f = (f1, ps)" by fastforce
  show ?thesis
    unfolding superfirework_update_def pu Let_def prod.case
    by (intro raises_only_intros superfirework_detonate_raises_only trail_spark_raises_only)
qed

lemma entity_update_raises_only: "raises_only ZeroDivisionError (entity_update g dt acc w e)"
  by (cases e) (simp_all add: raises_only_ret firework_update_raises_only superfirework_update_raises_only)

lemma launch_raises_only: "raises_only e (launch g)"
  unfolding launch_def
  by (intro raises_only_intros raises_only_choice) (simp_all add: firework_set_def)

lemma tick_raises_only: "raises_only ZeroDivisionError (tick g dt win)"
  unfolding tick_def update_phase_def Let_def
  by (intro raises_only_intros entity_update_raises_only launch_raises_only)

text \<open>C31. The only exception a tick of the main loop can raise is
  \<open>ZeroDivisionError\<close>: \<open>randint\<close> and \<open>choice\<close> are always called with non-empty ranges,
  so \<open>ValueError\<close> and \<open>IndexError\<close> never occur.\<close>

theorem tick_error_taxonomy:
  assumes "tick g dt win s = (Inl e, s')"
  shows "e = ZeroDivisionError"
  by (rule raises_onlyD [OF tick_raises_only assms])

text \<open>C32. \<open>main()\<close> always builds its window: the initial launches never raise, for
  every generator and every generator state.\<close>

theorem main_init_total: "\<exists>win s'. main_init g w0 s = (Inr win, s')"
proof -
  obtain n s1 where n: "randint g 5 20 s = (Inr n, s1)" using randint_ok [of 5 20 g s] by auto
  have total: "\<exists>e s'. launch g t = (Inr e, s')" for t
  proof -
    obtain r t' where r: "launch g t = (r, t')" by fastforce
    have "\<not> (\<exists>e. r = Inl e)"
    proof
      assume "\<exists>e. r = Inl e"
      then obtain e where "r = Inl e" by blast
      with r raises_onlyD [OF launch_raises_only [of ValueError g]] raises_onlyD [OF launch_raises_only [of IndexError g]]
      show False by fastforce
    qed
    with r show ?thesis by (cases r) auto
  qed
  from replicateE_total [of "launch g", OF total] obtain ps s2 where "replicateE (nat n) (launch g) s1 = (Inr ps, s2)"
    by blast
  with n show ?thesis by (auto simp: main_init_def bindE_apply ret_apply)
qed

lemma entity_colour_raises_zero:
  assumes "entity_colour g x s = (Inl e, s')"
  shows "\<exists>p. x = Particle p \<and> lifespan p = Some 0"
proof (cases x)
  case (Particle p)
  with assms have "colour p = Inl e" by (simp add: liftE_apply)
  with Particle show ?thesis by (auto simp: colour_def Let_def split: prod.splits option.splits if_splits)
qed (use assms in simp_all)

lemma vertex_colours_raises_zero:
  "vertex_colours g x s = (Inl e, s') \<Longrightarrow> \<exists>p. x = Particle p \<and> lifespan p = Some 0"
  by (auto simp: vertex_colours_def ret_apply elim!: bindE_InlE dest: entity_colour_raises_zero)

lemma draw_buffers_InlE:
  assumes "draw_buffers g win s = (Inl e, s')"
  shows "\<exists>x \<in> set (particles win). \<exists>s1 s2. vertex_colours g x s1 = (Inl e, s2)"
proof -
  from assms have "\<exists>s2. mapE (vertex_colours g) (particles win) s = (Inl e, s2)"
    by (auto simp: draw_buffers_def Let_def ret_apply elim!: bindE_InlE)
  then show ?thesis by (blast dest: mapE_InlE)
qed

text \<open>C33. \<open>on_draw\<close> raises exactly when a plain particle of lifespan 0 is on screen,
  and the exception is then \<open>ZeroDivisionError\<close>; fireworks' flicker colours never
  raise.\<close>

theorem draw_buffers_raises_iff:
  "((\<exists>s'. draw_buffers g win s = (Inl ZeroDivisionError, s')) \<longleftrightarrow>
      (\<exists>p. Particle p \<in> set (particles win) \<and> lifespan p = Some 0)) \<and>
   (\<forall>e s'. draw_buffers g win s = (Inl e, s') \<longrightarrow> e = ZeroDivisionError)"
proof (intro conjI iffI allI impI)
  assume "\<exists>s'. draw_buffers g win s = (Inl ZeroDivisionError, s')"
  then obtain s' where "draw_buffers g win s = (Inl ZeroDivisionError, s')" by blast
  from draw_buffers_InlE [OF this] obtain x s1 s2 where
    x: "x \<in> set (particles win)" and v: "vertex_colours g x s1 = (Inl ZeroDivisionError, s2)"
    by blast
  from vertex_colours_raises_zero [OF v] x
  show "\<exists>p. Particle p \<in> set (particles win) \<and> lifespan p = Some 0" by blast
next
  assume "\<exists>p. Particle p \<in> set (particles win) \<and> lifespan p = Some 0"
  then obtain p where p: "Particle p \<in> set (particles win)" and L: "lifespan p = Some 0" by blast
  have vc: "\<And>t. \<exists>t'. vertex_colours g (Particle p) t = (Inl ZeroDivisionError, t')"
    using L by (simp add: vertex_colours_def bindE_apply liftE_apply colour_def split: prod.splits)
  have "\<exists>s1. mapE (vertex_colours g) (particles win) s = (Inl ZeroDivisionError, s1)"
    by (rule mapE_raises [OF p], rule vc, erule vertex_colours_raises)
  then show "\<exists>s'. draw_buffers g win s = (Inl ZeroDivisionError, s')"
    by (auto simp: draw_buffers_def Let_def bindE_apply)
next
  fix e s' assume "draw_buffers g win s = (Inl e, s')"
  from draw_buffers_InlE [OF this] obtain x s1 s2 where "vertex_colours g x s1 = (Inl e, s2)" by blast
  then show "e = ZeroDivisionError" by (rule vertex_colours_raises)
qed

end
