(* ===== verification/Spec2Isabelle.thy ===== *)
theory Spec2Isabelle
  imports Lifetime Tick_Spec Cadence Errors
begin

text \<open>
  \<^bold>\<open>A verification model of wxfireworks.\<close>
  The program (\<open>src/fireworks/\<close>) is a pyglet particle system. \<open>particle.py\<close>
  defines a 2-D vector \<open>Vec2\<close>, a \<open>Particle\<close> that moves under an acceleration,
  fades with age and dies off screen or when its lifespan is reached, and two
  subclasses \<open>Firework\<close> and \<open>SuperFirework\<close> that drop trail sparks while they fly
  and, on death, burst into 25..100 particles, respectively 5..10 fireworks.
  \<open>__main__.py\<close> builds a window of 5..20 random launches and on every clock tick
  replaces each entity by what its \<open>update\<close> returns, then with probability 0.1
  launches one more; \<open>on_draw\<close> reads position and colour of every entity.

  \<^bold>\<open>Theories.\<close>
  \<^item> \<open>Fw_Prelude\<close>: exceptions as values (\<open>py_error\<close>) and the exception-state monad
    \<open>('s, 'a) exec\<close> (\<open>ret\<close>, \<open>throw\<close>, \<open>bindE\<close>, \<open>liftE\<close>); the loops
    \<open>for _ in range(n)\<close> (\<open>replicateE\<close>) and comprehensions (\<open>mapE\<close>); Python's
    \<open>int()\<close> of a float (\<open>py_int\<close>, truncation) and \<open>fireworks.util.flatten\<close>.
  \<^item> \<open>Py_Random\<close>: the module \<open>random\<close> as an interface \<open>'s rng\<close> over an
    abstract generator state: \<open>random()\<close> (\<open>rnd\<close>) and \<open>_randbelow\<close>, with the
    contract \<open>rng_ok\<close> (\<open>0 \<le> random() < 1\<close>, \<open>_randbelow(n) < n\<close>); \<open>randint\<close>
    and \<open>choice\<close> are written from CPython's \<open>random.py\<close> over them, so that the
    inclusive upper bound of \<open>randint\<close> and the \<open>ValueError\<close>/\<open>IndexError\<close> are
    explicit. Every theorem about a random computation holds for every generator
    meeting the contract and every initial state.
  \<^item> \<open>Vec2\<close>: \<open>class Vec2\<close> (particle.py 7--46) as the datatype \<open>vec2\<close> with one
    definition per method (\<open>vadd\<close>, \<open>vneg\<close>, \<open>vsub\<close>, \<open>vmul\<close>, \<open>vdiv\<close>,
    \<open>normalised\<close>, \<open>vlength\<close>, \<open>clone\<close>, \<open>screen_space\<close>, \<open>as_tri\<close>).
  \<^item> \<open>Particle\<close>: \<open>class Particle\<close> (49--88) as the record \<open>particle\<close> with
    \<open>new_particle\<close>, the property \<open>colour\<close> and \<open>particle_update\<close>, which returns the
    updated particle (the mutated \<open>self\<close>) and the list \<open>update\<close> returns, \<open>[self]\<close>
    or \<open>[]\<close>.
  \<^item> \<open>Firework\<close>: \<open>Firework\<close> and \<open>SuperFirework\<close> (91--162) as the record
    extension \<open>firework = particle + last_spark\<close>; \<open>entity\<close> is the class of an
    object of the simulation, and \<open>entity_update\<close>/\<open>entity_colour\<close> are the
    method dispatch. \<open>firework_update\<close> and \<open>superfirework_update\<close> follow the
    code statement by statement: \<open>super().update\<close>, \<open>last_spark += dt\<close>, then the
    burst loop (\<open>firework_detonate\<close>, \<open>superfirework_detonate\<close>) or the trail
    spark (\<open>trail_spark\<close>, with the flickering colour \<open>flicker_colour\<close>).
    \<open>SuperFirework.colour\<close> is its own definition \<open>superfirework_colour\<close>, proved
    equal to \<open>flicker_colour\<close> (the code is duplicated).
  \<^item> \<open>Simulation\<close>: \<open>__main__.py\<close>: \<open>fireworks_window\<close>, \<open>launch\<close>, the tick
    \<open>update(dt)\<close> as \<open>tick\<close>, \<open>main()\<close> as \<open>main_init\<close>, what \<open>on_draw\<close> computes
    as \<open>draw_buffers\<close> and \<open>overlay_stats\<close>, and the runs of the program as the
    inductive \<open>reachable\<close> (start, ticks with \<open>dt \<ge> 0\<close>, window resizes). The
    first line of \<open>update(dt)\<close>, updating every entity and flattening, is
    \<open>update_phase\<close>, which \<open>tick\<close> composes with the launch decision.
  \<^item> \<open>Lifetime\<close>: counted sequences of update phases (\<open>phases\<close>), pyglet's clock
    calling \<open>update(dt)\<close> repeatedly (\<open>run_ticks\<close>), and the liveness results:
    every class of entity disappears once its members expire, and without launches
    the screen empties; the invariant that every reachable entity lives at most 12 s.
  \<^item> \<open>Cadence\<close>: the state a living firework keeps from tick to tick
    (\<open>firework_self\<close>, shown to be what \<open>firework_update\<close> returns first) and the
    spacing of its trail sparks over consecutive ticks.
  \<^item> \<open>Errors\<close>: which exceptions each operation can raise (\<open>raises_only\<close>),
    composed up to a tick, \<open>main()\<close> and \<open>on_draw\<close>.
  \<^item> \<open>Tick_Spec\<close>: an abstract specification written from \<open>spec.md\<close> (the per-class
    update contract, launches, one tick as a relation, the reachable entity lists)
    and the refinement theorems: every tick of the code is a spec tick, every
    reachable state of the code is reachable in the spec; and the equivalence of
    the code's flicker formula with the spec's.
  \<^item> This theory: properties of whole runs, and concrete generators
    (\<open>demo_rng\<close>, \<open>demo_rng_max\<close>, \<open>demo_rng_half\<close>, \<open>demo_rng_one\<close>) and
    scenes on which the theorems are applied and the definitions evaluated by
    \<open>simp\<close>.

  \<^bold>\<open>What is shown.\<close> Particle motion is semi-implicit Euler and the survival
  rule is exactly "on screen and younger than the lifespan" (Particle); the
  fade is monotone and stays in 0..255 (Particle); the firework life cycle, spark
  cadence and burst sizes, the one-way cascade SuperFirework to Firework to
  Particle (Firework); population growth per tick, the update phase on plain
  particles (no draw, no exception, exactly the survivors in their order), draw
  buffer sizes and that the colour buffer holds bytes in every reachable state
  (Simulation and here); liveness of expiry and the invariant that every reachable
  entity is well formed and lives at most 12 s (Lifetime); refinement of the
  spec's tick and run by the code (Tick_Spec). Error paths are theorems too: a
  zero velocity at a spark crashes \<open>update\<close> (\<open>firework_spark_zero_velocity\<close>),
  a lifespan of 0 crashes \<open>colour\<close> and so \<open>on_draw\<close>, and conversely
  \<open>update\<close> is total away from these cases; the taxonomy is complete: a tick
  raises nothing but \<open>ZeroDivisionError\<close>, \<open>main()\<close> never raises, and
  \<open>on_draw\<close> raises exactly on a zero lifespan (Errors).

  \<^bold>\<open>Modelling choices.\<close> Floats are reals: rounding is not modelled, so
  exact values such as \<open>Vec2(3,4).normalised() = (0.6, 0.8)\<close> or a unit length
  of a normalised vector hold here but only up to one ulp in CPython; the claims
  are therefore about control flow, counts, classes, exceptions and ranges, not
  about exact float results. Where a range is decided at a float edge it is
  stated for the closed interval the float computation can reach: the flicker
  colour bounds allow \<open>random()\<close> to be 1.0, as \<open>random() * 0.4 + 0.8\<close> rounds to
  1.2 for the largest float below 1. The type checks of the \<open>Vec2\<close> operators are
  discharged by typing (the \<open>raise NotImplemented\<close> branches, a \<open>TypeError\<close> in
  Python, are unreachable from the program). The mutation of \<open>self\<close> in
  \<open>update\<close> is returned as the new value; Python's \<open>[self]\<close> aliases it, and the
  model puts the final value of \<open>self\<close> in the list, which is what the caller
  observes. No fuel is needed: every loop of the program is a bounded
  \<open>range\<close> or a comprehension over a finite list, so all definitions are total
  by structural recursion. The liveness theorems need no fuel either: they are
  stated over a given number of ticks, the bound 12 s being the largest lifespan
  any code path creates (\<open>random() * 10 + 2\<close> for burst particles), and three
  such periods suffice because the cascade has three classes.

  \<^bold>\<open>Not modelled.\<close> The pyglet event loop, \<open>self.clear()\<close>, the OpenGL draw
  call and the rendering of the label are output with no state the program reads
  back: only the data handed to them is modelled (\<open>draw_buffers\<close>,
  \<open>overlay_stats\<close>), and pyglet's clock is represented by \<open>reachable\<close> and
  \<open>run_ticks\<close>. The module \<open>random\<close> is an interface with a contract, not an
  implementation. The imports and the \<open>__main__\<close> guard carry no behaviour.
\<close>

section \<open>Concrete generators and scenes\<close>

definition demo_rng :: "nat rng" where
  "demo_rng = \<lparr>rnd = (\<lambda>n. (0, Suc n)), randbelow = (\<lambda>k n. (0, Suc n))\<rparr>"

definition demo_rng_max :: "nat rng" where
  "demo_rng_max = \<lparr>rnd = (\<lambda>n. (0, Suc n)), randbelow = (\<lambda>k n. (k - 1, Suc n))\<rparr>"

definition demo_rng_half :: "nat rng" where
  "demo_rng_half = \<lparr>rnd = (\<lambda>n. (1 / 2, Suc n)),
                     randbelow = (\<lambda>k n. (if k = 5 then 4 else 0, Suc n))\<rparr>"

definition demo_rng_one :: "nat rng" where
  "demo_rng_one = \<lparr>rnd = (\<lambda>n. (1, Suc n)), randbelow = (\<lambda>k n. (0, Suc n))\<rparr>"

definition demo_window :: window where
  "demo_window = \<lparr>width = 640, height = 480\<rparr>"

definition demo_dead_firework :: firework where
  "demo_dead_firework = new_firework (Vec2 0 0.5) (Vec2 0 0.5) (255, 255, 255) 0"

definition demo_rising_firework :: firework where
  "demo_rising_firework = new_firework (Vec2 0 0) (Vec2 0 1.1) (255, 255, 255) 5"

definition demo_fw_window :: fireworks_window where
  "demo_fw_window = \<lparr>width = 640, height = 480, particles = [], win_dt = 1\<rparr>"

definition demo_spark :: particle where
  "demo_spark = new_particle (Vec2 0 0.5) (Vec2 0 0) (250, 209, 70) (Some 1)"

definition demo_stalling_window :: fireworks_window where
  "demo_stalling_window = \<lparr>width = 2, height = 2,
     particles = [Firework (new_firework (Vec2 0 1) (Vec2 0 0.1) (255, 255, 255) 5)], win_dt = 1\<rparr>"

definition demo_dim_window :: fireworks_window where
  "demo_dim_window = \<lparr>width = 640, height = 480,
     particles = [Firework demo_rising_firework,
                  Particle (new_particle (Vec2 0 0) (Vec2 0 0) (250, 209, 70) (Some 0))], win_dt = 1\<rparr>"

lemmas demo_eval = firework_update_def superfirework_update_def particle_update_def Let_def
  on_screen_def screen_space_def new_firework_def vec2_ops firework_detonate_def
  superfirework_detonate_def randint_def demo_rng_def demo_rng_max_def demo_window_def gravity_def
  exec_simps numeral_eq_Suc burst_particle_def super_burst_firework_def burst_offset_def random_def
  normalised_def trail_spark_def flicker_colour_def spark_due_def new_particle_def
  demo_dead_firework_def demo_rising_firework_def

lemma demo_dead_detonates:
  "\<exists>es s. firework_update demo_rng 1 gravity demo_window demo_dead_firework 0 = (Inr es, s)"
  by (simp add: demo_eval vlength_def)

lemma demo_super_detonates:
  "\<exists>es s. superfirework_update demo_rng_max 1 gravity demo_window demo_dead_firework 0 = (Inr es, s) \<and>
     length es = 10"
  by (simp add: demo_eval vlength_def)

lemma demo_rising_sparks:
  "\<exists>es s. firework_update demo_rng 1 gravity demo_window demo_rising_firework 0 = (Inr es, s)"
  by (simp add: demo_eval)

lemma demo_dead_facts:
  "snd (particle_update 1 gravity demo_window demo_dead_firework) = [] \<and>
   lifespan demo_dead_firework = Some 0 \<and> timer demo_dead_firework = 0"
  by (simp add: demo_eval)

lemma demo_rising_facts:
  "snd (particle_update 1 gravity demo_window demo_rising_firework) \<noteq> [] \<and>
   spark_due (last_spark demo_rising_firework + 1) (fst (particle_update 1 gravity demo_window demo_rising_firework)) \<and>
   velocity (fst (particle_update 1 gravity demo_window demo_rising_firework)) \<noteq> Vec2 0 0"
  by (simp add: demo_eval)

lemma demo_rngs_ok: "rng_ok demo_rng \<and> rng_ok demo_rng_max \<and> rng_ok demo_rng_half"
  by (simp add: rng_ok_def demo_rng_def demo_rng_max_def demo_rng_half_def)

lemma demo_half_run:
  "\<exists>win s win' s' p. main_init demo_rng_half demo_window 0 = (Inr win, s) \<and>
     tick demo_rng_half (5/4) win s = (Inr win', s') \<and> Particle p \<in> set (particles win')"
  by (simp add: main_init_def tick_def update_phase_def launch_def choice_def firework_set_def randint_def random_def
      demo_rng_half_def demo_window_def exec_simps numeral_eq_Suc firework_update_def particle_update_def
      Let_def on_screen_def screen_space_def new_firework_def vec2_ops spark_due_def trail_spark_def
      normalised_def flicker_colour_def new_particle_def gravity_def flatten_def)

lemma demo_half_reachable:
  "\<exists>win s p. reachable demo_rng_half demo_window (win, s) \<and> Particle p \<in> set (particles win) \<and>
     (\<exists>win0 s0. reachable demo_rng_half demo_window (win0, s0) \<and>
        tick demo_rng_half (5/4) win0 s0 = (Inr win, s))"
proof -
  from demo_half_run obtain win s win' s' p where
    i: "main_init demo_rng_half demo_window 0 = (Inr win, s)"
    and t: "tick demo_rng_half (5/4) win s = (Inr win', s')" and p: "Particle p \<in> set (particles win')"
    by blast
  from i have r0: "reachable demo_rng_half demo_window (win, s)" by (rule reachable.init)
  from reachable.step [OF r0 _ t] have "reachable demo_rng_half demo_window (win', s')" by simp
  with r0 t p show ?thesis by blast
qed

section \<open>Properties spanning the simulation\<close>

theorem reachable_colour_witness:
  "\<exists>win s p. rng_ok demo_rng_half \<and> reachable demo_rng_half demo_window (win, s) \<and>
     Particle p \<in> set (particles win) \<and>
     ((\<exists>c. colour p = Inr c \<and> rgb_ok c) \<or> (lifespan p = Some 0 \<and> colour p = Inl ZeroDivisionError))"
proof -
  from demo_half_reachable obtain win s p where r: "reachable demo_rng_half demo_window (win, s)"
    and p: "Particle p \<in> set (particles win)" by blast
  have g: "rng_ok demo_rng_half" using demo_rngs_ok by simp
  from reachable_colour [OF g r p] g r p show ?thesis by blast
qed

theorem tick_growth_witness:
  "\<exists>win0 s0 win s. rng_ok demo_rng_half \<and> tick demo_rng_half (5/4) win0 s0 = (Inr win, s) \<and>
     length (particles win) \<le> 100 * length (particles win0) + 1 \<and>
     width win = width win0 \<and> height win = height win0 \<and> win_dt win = 5/4"
proof -
  from demo_half_reachable obtain win s win0 s0 where
    t: "tick demo_rng_half (5/4) win0 s0 = (Inr win, s)" by blast
  have g: "rng_ok demo_rng_half" using demo_rngs_ok by simp
  from tick_growth [OF g t] g t show ?thesis by blast
qed

section \<open>Witnesses\<close>

theorem firework_detonation_witness:
  "\<exists>es s. rng_ok demo_rng \<and> snd (particle_update 1 gravity demo_window demo_dead_firework) = [] \<and>
     firework_update demo_rng 1 gravity demo_window demo_dead_firework 0 = (Inr es, s) \<and>
     25 \<le> length es \<and> length es \<le> 100 \<and> (\<forall>e \<in> set es. is_particle e) \<and>
     (\<exists>c. rgb_ok c \<and> (\<forall>e \<in> set es. base_colour (entity_particle e) = c))"
proof -
  from demo_dead_detonates obtain es s where
    u: "firework_update demo_rng 1 gravity demo_window demo_dead_firework 0 = (Inr es, s)" by blast
  have r: "rng_ok demo_rng" and d: "snd (particle_update 1 gravity demo_window demo_dead_firework) = []"
    using demo_rngs_ok demo_dead_facts by auto
  from firework_detonation [OF r d u] r d u show ?thesis by blast
qed

theorem superfirework_detonation_witness:
  "\<exists>es s. rng_ok demo_rng_max \<and> snd (particle_update 1 gravity demo_window demo_dead_firework) = [] \<and>
     superfirework_update demo_rng_max 1 gravity demo_window demo_dead_firework 0 = (Inr es, s) \<and>
     5 \<le> length es \<and> length es \<le> 10 \<and> length es = 10 \<and>
     (\<forall>e \<in> set es. \<exists>fw L. e = Firework fw \<and> timer fw = 0 \<and> last_spark fw = 0 \<and>
        lifespan fw = Some L \<and> 1 \<le> L \<and> L < 4)"
proof -
  from demo_super_detonates obtain es s where
    u: "superfirework_update demo_rng_max 1 gravity demo_window demo_dead_firework 0 = (Inr es, s)"
    and ten: "length es = 10" by blast
  have r: "rng_ok demo_rng_max" and d: "snd (particle_update 1 gravity demo_window demo_dead_firework) = []"
    using demo_rngs_ok demo_dead_facts by auto
  from superfirework_detonation [OF r d u] r d u ten show ?thesis by blast
qed

theorem firework_spark_cadence_witness:
  "\<exists>es s. snd (particle_update 1 gravity demo_window demo_rising_firework) \<noteq> [] \<and>
     firework_update demo_rng 1 gravity demo_window demo_rising_firework 0 = (Inr es, s) \<and>
     ((\<exists>f' sp. es = [Firework f', Particle sp] \<and> last_spark f' = 0 \<and>
        0.125 * (vlength (velocity f') / 100) < last_spark demo_rising_firework + 1) \<or>
      (\<exists>f'. es = [Firework f'] \<and> last_spark f' = last_spark demo_rising_firework + 1 \<and>
        \<not> 0.125 * (vlength (velocity f') / 100) < last_spark demo_rising_firework + 1))"
proof -
  from demo_rising_sparks obtain es s where
    u: "firework_update demo_rng 1 gravity demo_window demo_rising_firework 0 = (Inr es, s)" by blast
  have a: "snd (particle_update 1 gravity demo_window demo_rising_firework) \<noteq> []"
    using demo_rising_facts by auto
  from firework_spark_cadence [OF a u] a u show ?thesis by blast
qed

theorem firework_lifecycle_witness:
  "\<exists>es s. firework_update demo_rng 1 gravity demo_window demo_rising_firework 0 = (Inr es, s) \<and>
     ((\<exists>f'. Firework f' \<in> set es) \<longleftrightarrow> snd (particle_update 1 gravity demo_window demo_rising_firework) \<noteq> []) \<and>
     length (filter is_firework es) \<le> 1 \<and> (\<forall>e \<in> set es. rank e \<le> 1)"
proof -
  from demo_rising_sparks obtain es s where
    u: "firework_update demo_rng 1 gravity demo_window demo_rising_firework 0 = (Inr es, s)" by blast
  from firework_lifecycle [OF u] u show ?thesis by blast
qed

theorem entity_update_rank_witness:
  "\<exists>es s. entity_update demo_rng_max 1 gravity demo_window (SuperFirework demo_dead_firework) 0 = (Inr es, s) \<and>
     (\<forall>e' \<in> set es. rank e' \<le> rank (SuperFirework demo_dead_firework)) \<and>
     length (filter (\<lambda>e'. rank e' = rank (SuperFirework demo_dead_firework)) es) \<le> 1"
proof -
  from demo_super_detonates obtain es s where
    u: "superfirework_update demo_rng_max 1 gravity demo_window demo_dead_firework 0 = (Inr es, s)" by blast
  then have u': "entity_update demo_rng_max 1 gravity demo_window (SuperFirework demo_dead_firework) 0 = (Inr es, s)"
    by simp
  from entity_update_rank [OF u'] u' show ?thesis by blast
qed

theorem firework_zero_lifespan_detonates_witness:
  "\<exists>es s. rng_ok demo_rng \<and> lifespan demo_dead_firework = Some 0 \<and> 0 \<le> timer demo_dead_firework \<and>
     (0::real) \<le> 1 \<and> firework_update demo_rng 1 gravity demo_window demo_dead_firework 0 = (Inr es, s) \<and>
     (\<forall>e \<in> set es. is_particle e) \<and> 25 \<le> length es \<and> length es \<le> 100"
proof -
  from demo_dead_detonates obtain es s where
    u: "firework_update demo_rng 1 gravity demo_window demo_dead_firework 0 = (Inr es, s)" by blast
  have r: "rng_ok demo_rng" and l: "lifespan demo_dead_firework = Some 0"
    and t: "0 \<le> timer demo_dead_firework" and d: "(0::real) \<le> 1"
    using demo_rngs_ok demo_dead_facts by auto
  from firework_zero_lifespan_detonates [OF r l t d u] r l t d u show ?thesis by blast
qed

theorem flicker_colour_range_witness:
  "flicker_colour demo_rng_one 0 = (Inr (255, 250, 84), 1) \<and> snd (snd (255::int, 250::int, 84::int)) \<le> 84"
proof -
  have r: "\<forall>s. 0 \<le> fst (rnd demo_rng_one s) \<and> fst (rnd demo_rng_one s) \<le> 1"
    by (simp add: demo_rng_one_def)
  have f: "flicker_colour demo_rng_one 0 = (Inr (255, 250, 84), 1)"
    by (simp add: flicker_colour_def random_def demo_rng_one_def exec_simps)
  from flicker_colour_range [OF r f] f show ?thesis by simp
qed

theorem firework_spark_zero_velocity_witness:
  "snd (particle_update 1 gravity demo_window demo_rising_firework) \<noteq> [] \<and>
   spark_due (last_spark demo_rising_firework + 1) (fst (particle_update 1 gravity demo_window demo_rising_firework)) \<and>
   \<not> (\<exists>s'. firework_update demo_rng 1 gravity demo_window demo_rising_firework 0 = (Inl ZeroDivisionError, s'))"
proof -
  have a: "snd (particle_update 1 gravity demo_window demo_rising_firework) \<noteq> []"
    and sd: "spark_due (last_spark demo_rising_firework + 1) (fst (particle_update 1 gravity demo_window demo_rising_firework))"
    and v: "velocity (fst (particle_update 1 gravity demo_window demo_rising_firework)) \<noteq> Vec2 0 0"
    using demo_rising_facts by auto
  from firework_spark_zero_velocity [OF a sd, of demo_rng 0] v a sd show ?thesis by blast
qed

theorem firework_update_total_witness:
  "(\<forall>s. fst (rnd demo_rng s) \<noteq> 1/2) \<and>
   velocity (fst (particle_update 1 gravity demo_window demo_rising_firework)) \<noteq> Vec2 0 0 \<and>
   (\<exists>es s'. firework_update demo_rng 1 gravity demo_window demo_rising_firework 5 = (Inr es, s'))"
proof -
  have h: "\<forall>s. fst (rnd demo_rng s) \<noteq> 1/2" by (simp add: demo_rng_def)
  have v: "velocity (fst (particle_update 1 gravity demo_window demo_rising_firework)) \<noteq> Vec2 0 0"
    using demo_rising_facts by auto
  from firework_update_total [OF h v, of 5] h v show ?thesis by blast
qed


lemma demo_draw:
  "\<exists>win s out s'. main_init demo_rng demo_window 0 = (Inr win, s) \<and>
     draw_buffers demo_rng win s = (Inr out, s')"
  by (simp add: main_init_def draw_buffers_def vertex_colours_def launch_def choice_def firework_set_def
      randint_def random_def flicker_colour_def demo_rng_def demo_window_def exec_simps numeral_eq_Suc
      Let_def)

theorem draw_buffers_lengths_witness:
  "\<exists>win s vs cs n s'. draw_buffers demo_rng win s = (Inr (vs, cs, n), s') \<and>
     n = 3 * length (particles win) \<and> length vs = 2 * n \<and> length cs = 3 * n"
proof -
  from demo_draw obtain win s vs cs n s' where d: "draw_buffers demo_rng win s = (Inr (vs, cs, n), s')"
    by (metis prod_cases3)
  from draw_buffers_lengths [OF d] d show ?thesis by blast
qed

theorem main_init_population_witness:
  "\<exists>win s. rng_ok demo_rng_max \<and> main_init demo_rng_max demo_window 0 = (Inr win, s) \<and>
     length (particles win) = 20 \<and> 5 \<le> length (particles win) \<and> length (particles win) \<le> 20"
proof -
  have "\<exists>win s. main_init demo_rng_max demo_window 0 = (Inr win, s) \<and> length (particles win) = 20"
    by (simp add: main_init_def launch_def choice_def firework_set_def randint_def random_def
        demo_rng_max_def demo_window_def exec_simps numeral_eq_Suc)
  then obtain win s where m: "main_init demo_rng_max demo_window 0 = (Inr win, s)"
    and l: "length (particles win) = 20" by blast
  have g: "rng_ok demo_rng_max" using demo_rngs_ok by simp
  from main_init_population [OF g m] g m l show ?thesis by blast
qed

theorem launch_lifespan_witness:
  "\<exists>e s. rng_ok demo_rng_max \<and> launch demo_rng_max 0 = (Inr e, s) \<and>
     lifespan (entity_particle e) = Some 5 \<and>
     (\<exists>L. lifespan (entity_particle e) = Some (of_int L) \<and> 1 \<le> L \<and> L \<le> 5 \<and>
        timer (entity_particle e) = 0 \<and> \<not> is_particle e)"
proof -
  have "\<exists>e s. launch demo_rng_max 0 = (Inr e, s) \<and> lifespan (entity_particle e) = Some 5"
    by (simp add: launch_def choice_def firework_set_def randint_def random_def demo_rng_max_def
        exec_simps new_firework_def particle.defs)
  then obtain e s where m: "launch demo_rng_max 0 = (Inr e, s)"
    and l: "lifespan (entity_particle e) = Some 5" by blast
  have g: "rng_ok demo_rng_max" using demo_rngs_ok by simp
  from launch_lifespan [OF g m] g m l show ?thesis by blast
qed

lemma demo_quiet: "quiet demo_rng"
  by (simp add: quiet_def demo_rng_def)

lemma demo_dead_phase:
  "\<exists>es s. update_phase demo_rng 1 gravity demo_fw_window [Firework demo_dead_firework] 0 = (Inr es, s) \<and>
     es \<noteq> []"
  by (simp add: update_phase_def demo_eval demo_fw_window_def vlength_def flatten_def)

theorem phases_rank_drop_witness:
  "\<exists>es'. phases demo_rng 1 gravity (Suc 0) [Firework demo_dead_firework] es' \<and> es' \<noteq> [] \<and>
     (\<forall>e \<in> set [Firework demo_dead_firework]. rank e \<le> 1 \<and> (rank e = 1 \<longrightarrow>
        (\<exists>L. lifespan (entity_particle e) = Some L \<and> L \<le> timer (entity_particle e) + of_nat (Suc 0) * 1))) \<and>
     (\<forall>e \<in> set es'. rank e < 1)"
proof -
  from demo_dead_phase obtain es s where
    u: "update_phase demo_rng 1 gravity demo_fw_window [Firework demo_dead_firework] 0 = (Inr es, s)"
    and ne: "es \<noteq> []" by blast
  have p: "phases demo_rng 1 gravity (Suc 0) [Firework demo_dead_firework] es"
    by (rule phases.more [OF u phases.none])
  have h: "\<forall>e \<in> set [Firework demo_dead_firework]. rank e \<le> 1 \<and> (rank e = 1 \<longrightarrow>
        (\<exists>L. lifespan (entity_particle e) = Some L \<and> L \<le> timer (entity_particle e) + of_nat (Suc 0) * 1))"
    by (simp add: demo_dead_firework_def new_firework_def)
  from phases_rank_drop [OF p h] p ne h show ?thesis by blast
qed

theorem quiet_run_empties_witness:
  "\<exists>win' s'. rng_ok demo_rng \<and> quiet demo_rng \<and> (0::real) \<le> 12 \<and> 12 \<le> of_nat (1::nat) * (12::real) \<and>
     (\<forall>e \<in> set (particles (demo_fw_window\<lparr>particles := [Particle demo_spark]\<rparr>)). life_bounded e) \<and>
     run_ticks demo_rng 12 (3 * 1) (demo_fw_window\<lparr>particles := [Particle demo_spark]\<rparr>) 0 = (Inr win', s') \<and>
     particles win' = []"
proof -
  have r: "\<exists>win' s'. run_ticks demo_rng 12 (3 * 1) (demo_fw_window\<lparr>particles := [Particle demo_spark]\<rparr>) 0 =
      (Inr win', s')"
    by (simp add: numeral_eq_Suc tick_def update_phase_def demo_eval demo_fw_window_def demo_spark_def
        flatten_def)
  then obtain win' s' where
    run: "run_ticks demo_rng 12 (3 * 1) (demo_fw_window\<lparr>particles := [Particle demo_spark]\<rparr>) 0 = (Inr win', s')"
    by blast
  have g: "rng_ok demo_rng" "quiet demo_rng" using demo_rngs_ok demo_quiet by simp_all
  have b: "\<forall>e \<in> set (particles (demo_fw_window\<lparr>particles := [Particle demo_spark]\<rparr>)). life_bounded e"
    by (simp add: life_bounded_def demo_spark_def new_particle_def particle_wf_def rgb_ok_def channel_ok_def)
  from quiet_run_empties [OF g(1,2) _ _ b run] g b run show ?thesis by auto
qed

theorem reachable_life_bounded_witness:
  "\<exists>win s p. rng_ok demo_rng_half \<and> reachable demo_rng_half demo_window (win, s) \<and>
     Particle p \<in> set (particles win) \<and> (\<forall>e \<in> set (particles (fst (win, s))). life_bounded e)"
proof -
  from demo_half_reachable obtain win s p where r: "reachable demo_rng_half demo_window (win, s)"
    and p: "Particle p \<in> set (particles win)" by blast
  have g: "rng_ok demo_rng_half" using demo_rngs_ok by simp
  from reachable_life_bounded [OF g r] g r p show ?thesis by blast
qed

theorem reachable_refines_witness:
  "\<exists>win s. rng_ok demo_rng_half \<and> reachable demo_rng_half demo_window (win, s) \<and>
     particles win \<noteq> [] \<and> spec_reach (particles (fst (win, s)))"
proof -
  from demo_half_reachable obtain win s p where r: "reachable demo_rng_half demo_window (win, s)"
    and p: "Particle p \<in> set (particles win)" by blast
  have g: "rng_ok demo_rng_half" using demo_rngs_ok by simp
  from reachable_refines [OF g r] g r p show ?thesis by auto
qed

theorem tick_refines_witness:
  "\<exists>win s win' s'. rng_ok demo_rng_half \<and> tick demo_rng_half (5/4) win s = (Inr win', s') \<and>
     spec_tick (5/4) (win\<lparr>win_dt := 5/4\<rparr>) (particles win) (particles win') \<and> particles win' \<noteq> []"
proof -
  from demo_half_run obtain win s win' s' p where
    t: "tick demo_rng_half (5/4) win s = (Inr win', s')" and p: "Particle p \<in> set (particles win')"
    by blast
  have g: "rng_ok demo_rng_half" using demo_rngs_ok by simp
  from p have ne: "particles win' \<noteq> []" by auto
  from tick_refines [OF g t] g t ne show ?thesis by blast
qed

theorem flicker_spec_equiv_witness:
  "rng_ok demo_rng \<and> flicker_colour demo_rng = bindE (random demo_rng) (\<lambda>u. ret (spec_flicker (u * 0.4 + 0.8))) \<and>
   flicker_colour demo_rng 0 = (Inr (200, 167, 56), 1)"
proof -
  have g: "rng_ok demo_rng" using demo_rngs_ok by simp
  have "flicker_colour demo_rng 0 = bindE (random demo_rng) (\<lambda>u. ret (spec_flicker (u * 0.4 + 0.8))) 0"
    using flicker_spec_equiv [OF g] by simp
  also have "\<dots> = (Inr (200, 167, 56), 1)"
    by (simp add: spec_flicker_def random_def demo_rng_def exec_simps)
  finally have "flicker_colour demo_rng 0 = (Inr (200, 167, 56), 1)" .
  with flicker_spec_equiv [OF g] g show ?thesis by simp
qed

lemma demo_init_draw:
  "\<exists>win s vs cs n s'. main_init demo_rng demo_window 0 = (Inr win, s) \<and>
     draw_buffers demo_rng win s = (Inr (vs, cs, n), s') \<and> cs \<noteq> []"
  by (simp add: main_init_def launch_def choice_def firework_set_def randint_def random_def
      demo_rng_def demo_window_def exec_simps numeral_eq_Suc draw_buffers_def vertex_colours_def
      flicker_colour_def rgb_list_def flatten_def Let_def new_firework_def)

theorem draw_buffers_bytes_witness:
  "\<exists>win s vs cs n s'. rng_ok demo_rng \<and> reachable demo_rng demo_window (win, s) \<and>
     draw_buffers demo_rng win s = (Inr (vs, cs, n), s') \<and> cs \<noteq> [] \<and> (\<forall>x \<in> set cs. 0 \<le> x \<and> x \<le> 255)"
proof -
  from demo_init_draw obtain win s vs cs n s' where i: "main_init demo_rng demo_window 0 = (Inr win, s)"
    and d: "draw_buffers demo_rng win s = (Inr (vs, cs, n), s')" and ne: "cs \<noteq> []" by blast
  from i have r: "reachable demo_rng demo_window (win, s)" by (rule reachable.init)
  have g: "rng_ok demo_rng" using demo_rngs_ok by simp
  from draw_buffers_bytes [OF g r d] g r d ne show ?thesis by blast
qed

theorem tick_error_taxonomy_witness:
  "tick demo_rng 1 demo_stalling_window 0 = (Inl ZeroDivisionError, 0) \<and> ZeroDivisionError = ZeroDivisionError"
proof -
  have h: "tick demo_rng 1 demo_stalling_window 0 = (Inl ZeroDivisionError, 0)"
    by (simp add: tick_def update_phase_def demo_stalling_window_def firework_update_def particle_update_def
        Let_def on_screen_def screen_space_def new_firework_def vec2_ops spark_due_def vlength_def
        trail_spark_def normalised_def exec_simps gravity_def)
  from tick_error_taxonomy [OF h] h show ?thesis by simp
qed

theorem draw_buffers_raises_iff_witness:
  "(\<exists>s'. draw_buffers demo_rng demo_dim_window 0 = (Inl ZeroDivisionError, s')) \<and>
   (\<exists>p. Particle p \<in> set (particles demo_dim_window) \<and> lifespan p = Some 0)"
proof -
  have p: "\<exists>p. Particle p \<in> set (particles demo_dim_window) \<and> lifespan p = Some 0"
    by (simp add: demo_dim_window_def new_particle_def)
  with draw_buffers_raises_iff [of demo_rng demo_dim_window 0] show ?thesis by blast
qed

end
